theory Spec2Isabelle
  imports Main "HOL-Library.Word"
begin

unbundle bit_operations_syntax

section \<open>The ext2/ext3 driver (ext2fs.c)\<close>

subsection \<open>Flags, error codes and return values\<close>

text \<open>
  \<open>TSK_FS_META_FLAG_ENUM\<close> is a bit mask; its enumerators are declared in a header that
  is not part of the sources at hand. Each enumerator is one bit of its own, so a mask is
  modelled as the set of the enumerators it contains: \<open>flags |= F\<close> is \<open>insert F\<close>,
  \<open>flags &= ~F\<close> removes \<open>F\<close>, and \<open>flags & F\<close> tests membership.
\<close>

datatype meta_flag =
    TSK_FS_META_FLAG_ALLOC
  | TSK_FS_META_FLAG_UNALLOC
  | TSK_FS_META_FLAG_USED
  | TSK_FS_META_FLAG_UNUSED
  | TSK_FS_META_FLAG_COMP
  | TSK_FS_META_FLAG_ORPHAN

text \<open>
  The flag canonicalisation of \<open>ext2fs_inode_walk\<close> (the statements between the range
  checks and the loading of the list of named inodes).
\<close>

definition inode_walk_flags :: "meta_flag set \<Rightarrow> meta_flag set" where
  "inode_walk_flags flags =
     (if TSK_FS_META_FLAG_ORPHAN \<in> flags then
        (let f1 = insert TSK_FS_META_FLAG_UNALLOC flags;
             f2 = f1 - {TSK_FS_META_FLAG_ALLOC};
             f3 = insert TSK_FS_META_FLAG_USED f2
         in f3 - {TSK_FS_META_FLAG_UNUSED})
      else
        (let f1 = (if TSK_FS_META_FLAG_ALLOC \<notin> flags \<and> TSK_FS_META_FLAG_UNALLOC \<notin> flags
                   then flags \<union> {TSK_FS_META_FLAG_ALLOC, TSK_FS_META_FLAG_UNALLOC}
                   else flags)
         in (if TSK_FS_META_FLAG_USED \<notin> f1 \<and> TSK_FS_META_FLAG_UNUSED \<notin> f1
             then f1 \<union> {TSK_FS_META_FLAG_USED, TSK_FS_META_FLAG_UNUSED}
             else f1)))"

datatype block_flag =
    TSK_FS_BLOCK_FLAG_ALLOC
  | TSK_FS_BLOCK_FLAG_UNALLOC
  | TSK_FS_BLOCK_FLAG_CONT
  | TSK_FS_BLOCK_FLAG_META

datatype tsk_error =
    TSK_ERR_AUX_MALLOC
  | TSK_ERR_FS_ARG
  | TSK_ERR_FS_READ
  | TSK_ERR_FS_CORRUPT
  | TSK_ERR_FS_BLK_NUM
  | TSK_ERR_FS_INODE_NUM
  | TSK_ERR_FS_INODE_COR
  | TSK_ERR_FS_WALK_RNG
  | TSK_ERR_FS_FWALK
  | TSK_ERR_IMG_READ

datatype tsk_walk_ret = TSK_WALK_CONT | TSK_WALK_STOP | TSK_WALK_ERROR

datatype meta_type =
    TSK_FS_META_TYPE_UNDEF
  | TSK_FS_META_TYPE_REG
  | TSK_FS_META_TYPE_DIR
  | TSK_FS_META_TYPE_SOCK
  | TSK_FS_META_TYPE_LNK
  | TSK_FS_META_TYPE_BLK
  | TSK_FS_META_TYPE_CHR
  | TSK_FS_META_TYPE_FIFO

type_synonym byte = "8 word"

subsection \<open>Unsigned arithmetic\<close>

text \<open>
  Inode and block numbers are \<open>uint64_t\<close> (\<open>TSK_INUM_T\<close>, \<open>TSK_DADDR_T\<close>), group numbers
  and superblock fields are \<open>uint32_t\<close>. They are modelled as \<open>nat\<close>, with the
  wrap-around written out where the C expression subtracts or multiplies.
\<close>

definition u32 :: "nat \<Rightarrow> nat" where
  "u32 x = x mod 2 ^ 32"

definition u64_sub :: "nat \<Rightarrow> nat \<Rightarrow> nat" where
  "u64_sub a b = (a mod 2 ^ 64 + 2 ^ 64 - b mod 2 ^ 64) mod 2 ^ 64"

definition u32_sub :: "nat \<Rightarrow> nat \<Rightarrow> nat" where
  "u32_sub a b = (a mod 2 ^ 32 + 2 ^ 32 - b mod 2 ^ 32) mod 2 ^ 32"

text \<open>
  Modelled from the spec: the macro \<open>isset\<close> is not defined in the sources at hand; the
  spec fixes the bit order (bit \<open>i\<close> of the bitmap is bit \<open>i mod 8\<close>, counted from the
  least significant one, of byte \<open>i div 8\<close>). The C macro reads whatever lies behind the
  buffer when \<open>i\<close> is out of range; the model reads such a bit as clear.
\<close>

definition isset :: "byte list \<Rightarrow> nat \<Rightarrow> bool" where
  "isset buf i = (i div 8 < length buf \<and> bit (buf ! (i div 8)) (i mod 8))"

subsection \<open>The image and the handle\<close>

text \<open>
  \<open>tsk_fs_read\<close> returns the number of bytes it read, or a negative value after it has
  filled the error slot itself. The buffers are typed: a read delivers the structure
  that the endian-aware accessors decode from the bytes. \<open>ReadShort b\<close> is a read of
  fewer bytes than were asked for, after which the buffer holds \<open>b\<close>.
\<close>

datatype 'a read_result = ReadError tsk_error | ReadShort 'a | ReadFull 'a

record ext2fs_gd =
  bg_block_bitmap :: nat
  bg_inode_bitmap :: nat
  bg_inode_table :: nat

text \<open>
  The raw inode: the fields that the functions below consult. \<open>i_fmt\<close> is the
  enumerator that the switch over \<open>i_mode & EXT2_IN_FMT\<close> of \<open>ext2fs_dinode_copy\<close>
  selects, \<open>i_block\<close> holds the fifteen block pointers as \<open>tsk_gets32\<close> widens them.
\<close>

record ext2fs_inode =
  i_fmt :: meta_type
  i_size :: nat
  i_size_high :: nat
  i_ctime :: nat
  i_block :: "nat list"

record tsk_img =
  rd_gd :: "nat \<Rightarrow> ext2fs_gd read_result"
  rd_bitmap :: "nat \<Rightarrow> byte list read_result"
  rd_inode :: "nat \<Rightarrow> ext2fs_inode read_result"
  rd_fs_block :: "nat \<Rightarrow> byte list read_result"

record tsk_fs_info =
  first_inum :: nat
  last_inum :: nat
  first_block :: nat
  last_block :: nat
  block_size :: nat
  img_info :: tsk_img
  list_inum_named :: "nat list option"

record ext2fs_sb =
  s_inodes_per_group :: nat
  ro_compat_large_file :: bool

text \<open>
  \<open>EXT2FS_INFO\<close> with its four single-slot caches (\<open>None\<close> is the \<open>NULL\<close> buffer),
  together with the two process-wide items that the functions touch: the error slot
  \<open>tsk_errno\<close> and the allocator, of which only the number of requests that will still
  succeed is kept.
\<close>

record ext2fs_info =
  fs_info :: tsk_fs_info
  sb :: ext2fs_sb
  inode_size :: nat
  groups_count :: nat
  groups_offset :: nat
  first_data_block :: nat
  grp_buf :: "ext2fs_gd option"
  grp_num :: nat
  bmap_buf :: "byte list option"
  bmap_grp_num :: nat
  imap_buf :: "byte list option"
  imap_grp_num :: nat
  dino_buf :: "ext2fs_inode option"
  dino_inum :: nat
  tsk_errno :: "tsk_error option"
  heap_left :: nat

record tsk_fs_meta =
  m_addr :: nat
  m_type :: meta_type
  m_size :: int
  m_ctime :: nat
  m_flags :: "meta_flag set"
  m_content_len :: nat
  m_content :: "nat list"
  m_link :: bool

text \<open>
  What \<open>tsk_ext2fs.h\<close> and the generic layer declare is not among the sources at hand
  and is taken as a parameter: the two block-group macros, the constants of
  \<open>ext2fs_dinode_copy\<close>, the size of a group descriptor, and the two helpers of the
  directory layer that the inode walker calls.
\<close>

record ext2_decls =
  ext2_dtog_lcl :: "nat \<Rightarrow> nat"
  ext2_cgbase_lcl :: "nat \<Rightarrow> nat"
  sizeof_ext2fs_gd :: nat
  EXT2FS_MAXPATHLEN :: nat
  EXT2FS_NDADDR :: nat
  EXT2FS_NIADDR :: nat
  EXT2FS_FILE_CONTENT_LEN :: nat
  tsk_fs_dir_load_inum_named :: "ext2fs_info \<Rightarrow> bool \<times> ext2fs_info"
  tsk_fs_dir_make_orphan_dir_meta :: "ext2fs_info \<Rightarrow> tsk_fs_meta \<Rightarrow> nat \<times> tsk_fs_meta"

text \<open>
  Modelled from the spec: \<open>TSK_FS_ORPHANDIR_INUM\<close> is declared in the generic layer; the
  spec places the synthetic orphan directory at \<open>last_inum\<close>.
\<close>

definition TSK_FS_ORPHANDIR_INUM :: "tsk_fs_info \<Rightarrow> nat" where
  "TSK_FS_ORPHANDIR_INUM f = last_inum f"

text \<open>
  \<open>tsk_malloc\<close>: \<open>None\<close> is the \<open>NULL\<close> result, which leaves its own error code behind.
\<close>

definition tsk_malloc :: "ext2fs_info \<Rightarrow> ext2fs_info option" where
  "tsk_malloc s =
     (if heap_left s = 0 then None else Some (s\<lparr>heap_left := heap_left s - 1\<rparr>))"

definition set_errno :: "tsk_error \<Rightarrow> ext2fs_info \<Rightarrow> ext2fs_info" where
  "set_errno e s = s\<lparr>tsk_errno := Some e\<rparr>"

subsection \<open>The cache loaders\<close>

text \<open>
  Every function below returns \<open>None\<close> where the C program dereferences \<open>NULL\<close> or
  divides by zero, and otherwise its return value with the state it leaves.
\<close>

text \<open>
  \<open>ext2fs_group_load\<close>; \<open>ext2fs_group_load_read\<close> is its part from the read on, which
  is reached with the buffer allocated.
\<close>

definition ext2fs_group_load_read ::
  "ext2_decls \<Rightarrow> nat \<Rightarrow> ext2fs_info \<Rightarrow> (nat \<times> ext2fs_info) option" where
  "ext2fs_group_load_read h g s =
     (case rd_gd (img_info (fs_info s)) (groups_offset s + g * sizeof_ext2fs_gd h) of
        ReadError e \<Rightarrow> Some (1, set_errno e s)
      | ReadShort gd \<Rightarrow> Some (1, set_errno TSK_ERR_FS_READ (s\<lparr>grp_buf := Some gd\<rparr>))
      | ReadFull gd \<Rightarrow>
          (let s1 = s\<lparr>grp_buf := Some gd\<rparr> in
           if bg_block_bitmap gd > last_block (fs_info s)
              \<or> bg_inode_bitmap gd > last_block (fs_info s)
              \<or> bg_inode_table gd > last_block (fs_info s)
           then Some (1, set_errno TSK_ERR_FS_CORRUPT s1)
           else Some (0, s1\<lparr>grp_num := g\<rparr>)))"

definition ext2fs_group_load ::
  "ext2_decls \<Rightarrow> ext2fs_info \<Rightarrow> nat \<Rightarrow> (nat \<times> ext2fs_info) option" where
  "ext2fs_group_load h s g =
     (if g \<ge> groups_count s then Some (1, set_errno TSK_ERR_FS_ARG s)
      else
        (case grp_buf s of
           None \<Rightarrow>
             (case tsk_malloc s of
                None \<Rightarrow> Some (1, set_errno TSK_ERR_AUX_MALLOC s)
              | Some s1 \<Rightarrow>
                  ext2fs_group_load_read h g
                    (s1\<lparr>grp_buf := Some \<lparr>bg_block_bitmap = 0, bg_inode_bitmap = 0,
                                          bg_inode_table = 0\<rparr>\<rparr>))
         | Some _ \<Rightarrow> if grp_num s = g then Some (0, s) else ext2fs_group_load_read h g s))"

text \<open>
  \<open>ext2fs_bmap_load\<close>; \<open>ext2fs_bmap_load_buf\<close> is its part from the test of
  \<open>bmap_buf\<close> on, and \<open>ext2fs_bmap_load_read\<close> its part from the comment "Look up the
  block allocation bitmap" on. After the read, the branch for
  \<open>cnt != block_size\<close> fills the error slot and has no \<open>return\<close>: control reaches the
  assignment of the tag.
\<close>

definition ext2fs_bmap_load_read ::
  "nat \<Rightarrow> ext2fs_info \<Rightarrow> (nat \<times> ext2fs_info) option" where
  "ext2fs_bmap_load_read g s =
     (case grp_buf s of
        None \<Rightarrow> None
      | Some gd \<Rightarrow>
          if bg_block_bitmap gd > last_block (fs_info s)
          then Some (1, set_errno TSK_ERR_FS_BLK_NUM s)
          else
            (let s1 = (case rd_bitmap (img_info (fs_info s))
                              (bg_block_bitmap gd * block_size (fs_info s)) of
                         ReadError e \<Rightarrow> set_errno e s
                       | ReadShort b \<Rightarrow> set_errno TSK_ERR_FS_READ (s\<lparr>bmap_buf := Some b\<rparr>)
                       | ReadFull b \<Rightarrow> s\<lparr>bmap_buf := Some b\<rparr>)
             in Some (0, s1\<lparr>bmap_grp_num := g\<rparr>)))"

definition ext2fs_bmap_load_buf ::
  "nat \<Rightarrow> ext2fs_info \<Rightarrow> (nat \<times> ext2fs_info) option" where
  "ext2fs_bmap_load_buf g s =
     (case bmap_buf s of
        None \<Rightarrow>
          (case tsk_malloc s of
             None \<Rightarrow> Some (1, set_errno TSK_ERR_AUX_MALLOC s)
           | Some s1 \<Rightarrow>
               ext2fs_bmap_load_read g
                 (s1\<lparr>bmap_buf := Some (replicate (block_size (fs_info s)) 0)\<rparr>))
      | Some _ \<Rightarrow> if bmap_grp_num s = g then Some (0, s) else ext2fs_bmap_load_read g s)"

definition ext2fs_bmap_load ::
  "ext2_decls \<Rightarrow> ext2fs_info \<Rightarrow> nat \<Rightarrow> (nat \<times> ext2fs_info) option" where
  "ext2fs_bmap_load h s g =
     (if grp_buf s = None \<or> grp_num s \<noteq> g then
        (case ext2fs_group_load h s g of
           None \<Rightarrow> None
         | Some (r, s1) \<Rightarrow> if r \<noteq> 0 then Some (1, s1) else ext2fs_bmap_load_buf g s1)
      else ext2fs_bmap_load_buf g s)"

text \<open>
  \<open>ext2fs_imap_load\<close>; \<open>ext2fs_imap_load_buf\<close> is its part from the test of
  \<open>imap_buf\<close> on, and \<open>ext2fs_imap_load_read\<close> its part from the comment "Look up the
  inode allocation bitmap" on. Neither the check of the bitmap's block number nor
  the check of the read's length returns.
\<close>

definition ext2fs_imap_load_read ::
  "nat \<Rightarrow> ext2fs_info \<Rightarrow> (nat \<times> ext2fs_info) option" where
  "ext2fs_imap_load_read g s =
     (case grp_buf s of
        None \<Rightarrow> None
      | Some gd \<Rightarrow>
          (let s0 = (if bg_inode_bitmap gd > last_block (fs_info s)
                     then set_errno TSK_ERR_FS_BLK_NUM s else s);
               s1 = (case rd_bitmap (img_info (fs_info s0))
                              (bg_inode_bitmap gd * block_size (fs_info s0)) of
                         ReadError e \<Rightarrow> set_errno e s0
                       | ReadShort b \<Rightarrow> set_errno TSK_ERR_FS_READ (s0\<lparr>imap_buf := Some b\<rparr>)
                       | ReadFull b \<Rightarrow> s0\<lparr>imap_buf := Some b\<rparr>)
           in Some (0, s1\<lparr>imap_grp_num := g\<rparr>)))"

definition ext2fs_imap_load_buf ::
  "nat \<Rightarrow> ext2fs_info \<Rightarrow> (nat \<times> ext2fs_info) option" where
  "ext2fs_imap_load_buf g s =
     (case imap_buf s of
        None \<Rightarrow>
          (case tsk_malloc s of
             None \<Rightarrow> Some (1, set_errno TSK_ERR_AUX_MALLOC s)
           | Some s1 \<Rightarrow>
               ext2fs_imap_load_read g
                 (s1\<lparr>imap_buf := Some (replicate (block_size (fs_info s)) 0)\<rparr>))
      | Some _ \<Rightarrow> if imap_grp_num s = g then Some (0, s) else ext2fs_imap_load_read g s)"

definition ext2fs_imap_load ::
  "ext2_decls \<Rightarrow> ext2fs_info \<Rightarrow> nat \<Rightarrow> (nat \<times> ext2fs_info) option" where
  "ext2fs_imap_load h s g =
     (if grp_buf s = None \<or> grp_num s \<noteq> g then
        (case ext2fs_group_load h s g of
           None \<Rightarrow> None
         | Some (r, s1) \<Rightarrow> if r \<noteq> 0 then Some (1, s1) else ext2fs_imap_load_buf g s1)
      else ext2fs_imap_load_buf g s)"

text \<open>
  \<open>ext2fs_dinode_load\<close>; \<open>ext2fs_dinode_load_group\<close> is its part from the comment
  "Look up the group descriptor for this inode" on, and \<open>ext2fs_dinode_load_read\<close> its
  part from the comment "Look up the inode table block for this inode" on, \<open>g\<close> being
  the group of the inode. Here
  both failure branches of the read return 1.
\<close>

definition ext2fs_dinode_load_read ::
  "nat \<Rightarrow> nat \<Rightarrow> ext2fs_info \<Rightarrow> (nat \<times> ext2fs_info) option" where
  "ext2fs_dinode_load_read inum g s =
     (case grp_buf s of
        None \<Rightarrow> None
      | Some gd \<Rightarrow>
          (let rel_inum = u64_sub (u64_sub inum 1) (u32 (s_inodes_per_group (sb s) * g));
               addr = bg_inode_table gd * block_size (fs_info s) + rel_inum * inode_size s
           in case rd_inode (img_info (fs_info s)) addr of
                ReadError e \<Rightarrow> Some (1, set_errno e s)
              | ReadShort d \<Rightarrow> Some (1, set_errno TSK_ERR_FS_READ (s\<lparr>dino_buf := Some d\<rparr>))
              | ReadFull d \<Rightarrow> Some (0, s\<lparr>dino_buf := Some d, dino_inum := inum\<rparr>)))"

definition ext2fs_dinode_load_group ::
  "ext2_decls \<Rightarrow> nat \<Rightarrow> ext2fs_info \<Rightarrow> (nat \<times> ext2fs_info) option" where
  "ext2fs_dinode_load_group h inum s =
     (if s_inodes_per_group (sb s) = 0 then None
      else
        (let g = u32 (u64_sub inum (first_inum (fs_info s)) div s_inodes_per_group (sb s))
         in if grp_buf s = None \<or> grp_num s \<noteq> g then
              (case ext2fs_group_load h s g of
                 None \<Rightarrow> None
               | Some (r, s1) \<Rightarrow>
                   if r \<noteq> 0 then Some (1, s1) else ext2fs_dinode_load_read inum g s1)
            else ext2fs_dinode_load_read inum g s))"

definition ext2fs_dinode_load ::
  "ext2_decls \<Rightarrow> ext2fs_info \<Rightarrow> nat \<Rightarrow> (nat \<times> ext2fs_info) option" where
  "ext2fs_dinode_load h s inum =
     (if inum < first_inum (fs_info s) \<or> inum > u64_sub (last_inum (fs_info s)) 1
      then Some (1, set_errno TSK_ERR_FS_INODE_NUM s)
      else
        (case dino_buf s of
           None \<Rightarrow>
             (case tsk_malloc s of
                None \<Rightarrow> Some (1, set_errno TSK_ERR_AUX_MALLOC s)
              | Some s1 \<Rightarrow>
                  ext2fs_dinode_load_group h inum
                    (s1\<lparr>dino_buf := Some \<lparr>i_fmt = TSK_FS_META_TYPE_UNDEF, i_size = 0,
                           i_size_high = 0, i_ctime = 0, i_block = replicate 15 0\<rparr>\<rparr>))
         | Some _ \<Rightarrow> if dino_inum s = inum then Some (0, s) else ext2fs_dinode_load_group h inum s))"

subsection \<open>The inode decoder\<close>

text \<open>\<open>TSK_OFF_T\<close> is a signed 64-bit integer: the value that a 64-bit pattern denotes.\<close>

definition to_s64 :: "nat \<Rightarrow> int" where
  "to_s64 x = (if x mod 2 ^ 64 < 2 ^ 63 then int (x mod 2 ^ 64) else int (x mod 2 ^ 64) - 2 ^ 64)"

text \<open>
  The loop of \<open>ext2fs_dinode_copy\<close> that reads the target of a long symbolic link from
  the direct blocks: \<open>as\<close> are the block addresses still to visit, \<open>count\<close> the bytes taken
  so far. The text of the link is not kept, only the reads and their failures are.
\<close>

fun link_blocks :: "ext2fs_info \<Rightarrow> nat list \<Rightarrow> int \<Rightarrow> int \<Rightarrow> nat \<times> ext2fs_info" where
  "link_blocks s [] count sz = (0, s)"
| "link_blocks s (a # as) count sz =
     (if count < sz then
        (let read_count = (if sz - count < int (block_size (fs_info s))
                           then sz - count else int (block_size (fs_info s)))
         in case rd_fs_block (img_info (fs_info s)) a of
              ReadError e \<Rightarrow> (1, set_errno e s)
            | ReadShort b \<Rightarrow> (1, set_errno TSK_ERR_FS_READ s)
            | ReadFull b \<Rightarrow> link_blocks s as (count + read_count) sz)
      else (0, s))"

text \<open>
  \<open>ext2fs_dinode_copy\<close>, restricted to the fields of the generic inode that the walker
  and its callback contract depend on (address, type, size, change time, content
  pointers, flags); mode bits, owner and the remaining times are plain copies.
  \<open>ext2fs_dinode_copy_head\<close> are the copies up to the content pointers,
  \<open>ext2fs_dinode_copy_link\<close> is the part from the comment "set the link string" on,
  \<open>ext2fs_dinode_copy_flags\<close> the part from the comment "Fill in the flags value" on,
  and \<open>ext2fs_dinode_copy_fill\<close> the two assignments to \<open>fs_meta->flags\<close>.
\<close>

definition ext2fs_dinode_copy_fill ::
  "nat \<Rightarrow> ext2fs_info \<Rightarrow> tsk_fs_meta \<Rightarrow> (nat \<times> ext2fs_info \<times> tsk_fs_meta) option" where
  "ext2fs_dinode_copy_fill g s m =
     (case imap_buf s of
        None \<Rightarrow> None
      | Some imap \<Rightarrow>
          (let ibase = (u32 (g * s_inodes_per_group (sb s)) + first_inum (fs_info s)) mod 2 ^ 64;
               f1 = (if isset imap (u64_sub (dino_inum s) ibase)
                     then {TSK_FS_META_FLAG_ALLOC} else {TSK_FS_META_FLAG_UNALLOC});
               f2 = f1 \<union> (if m_ctime m \<noteq> 0 then {TSK_FS_META_FLAG_USED}
                           else {TSK_FS_META_FLAG_UNUSED})
           in Some (0, s, m\<lparr>m_flags := f2\<rparr>)))"

definition ext2fs_dinode_copy_flags ::
  "ext2_decls \<Rightarrow> ext2fs_info \<Rightarrow> tsk_fs_meta \<Rightarrow> (nat \<times> ext2fs_info \<times> tsk_fs_meta) option" where
  "ext2fs_dinode_copy_flags h s m =
     (if s_inodes_per_group (sb s) = 0 then None
      else
        (let g = u32 (u64_sub (dino_inum s) (first_inum (fs_info s)) div s_inodes_per_group (sb s))
         in if imap_grp_num s \<noteq> g then
              (case ext2fs_imap_load h s g of
                 None \<Rightarrow> None
               | Some (r, s1) \<Rightarrow>
                   if r \<noteq> 0 then Some (1, s1, m) else ext2fs_dinode_copy_fill g s1 m)
            else ext2fs_dinode_copy_fill g s m))"

definition ext2fs_dinode_copy_link ::
  "ext2_decls \<Rightarrow> ext2fs_info \<Rightarrow> tsk_fs_meta \<Rightarrow> (nat \<times> ext2fs_info \<times> tsk_fs_meta) option" where
  "ext2fs_dinode_copy_link h s m =
     (if m_type m = TSK_FS_META_TYPE_LNK \<and> m_size m < int (EXT2FS_MAXPATHLEN h) \<and> m_size m \<ge> 0
      then
        (case tsk_malloc s of
           None \<Rightarrow> Some (1, set_errno TSK_ERR_AUX_MALLOC s, m)
         | Some s1 \<Rightarrow>
             if m_size m < int (4 * (EXT2FS_NDADDR h + EXT2FS_NIADDR h)) then
               ext2fs_dinode_copy_flags h s1
                 (m\<lparr>m_link := True, m_content := replicate (length (m_content m)) 0\<rparr>)
             else
               (case tsk_malloc s1 of
                  None \<Rightarrow> Some (1, set_errno TSK_ERR_AUX_MALLOC s1, m\<lparr>m_link := True\<rparr>)
                | Some s2 \<Rightarrow>
                    (case link_blocks s2 (take (EXT2FS_NDADDR h) (m_content m)) 0 (m_size m) of
                       (r, s3) \<Rightarrow>
                         if r \<noteq> 0 then Some (1, s3, m\<lparr>m_link := True\<rparr>)
                         else ext2fs_dinode_copy_flags h s3 (m\<lparr>m_link := True\<rparr>))))
      else ext2fs_dinode_copy_flags h s m)"

definition ext2fs_dinode_copy_head ::
  "ext2fs_info \<Rightarrow> ext2fs_inode \<Rightarrow> tsk_fs_meta \<Rightarrow> tsk_fs_meta" where
  "ext2fs_dinode_copy_head s ino fs_meta =
     (let m1 = fs_meta\<lparr>m_type := i_fmt ino, m_size := int (i_size ino), m_addr := dino_inum s\<rparr>;
          m2 = (if m_type m1 = TSK_FS_META_TYPE_REG \<and> ro_compat_large_file (sb s)
                then m1\<lparr>m_size := to_s64 (i_size ino + i_size_high ino * 2 ^ 32)\<rparr> else m1)
      in m2\<lparr>m_ctime := i_ctime ino, m_link := False\<rparr>)"

definition ext2fs_dinode_copy ::
  "ext2_decls \<Rightarrow> ext2fs_info \<Rightarrow> tsk_fs_meta \<Rightarrow> (nat \<times> ext2fs_info \<times> tsk_fs_meta) option" where
  "ext2fs_dinode_copy h s fs_meta =
     (case dino_buf s of
        None \<Rightarrow> Some (1, set_errno TSK_ERR_FS_ARG s, fs_meta)
      | Some ino \<Rightarrow>
          (let m3 = ext2fs_dinode_copy_head s ino fs_meta
           in if m_content_len m3 \<noteq> EXT2FS_FILE_CONTENT_LEN h then
                (case tsk_malloc s of
                   None \<Rightarrow> Some (1, set_errno TSK_ERR_AUX_MALLOC s, m3)
                 | Some s1 \<Rightarrow>
                     ext2fs_dinode_copy_link h s1
                       (m3\<lparr>m_content_len := EXT2FS_FILE_CONTENT_LEN h, m_content := i_block ino\<rparr>))
              else ext2fs_dinode_copy_link h s (m3\<lparr>m_content := i_block ino\<rparr>)))"

subsection \<open>The inode walker\<close>

text \<open>
  The callback receives the generic inode and the caller's pointer, modelled as a value
  that it returns updated. One pass through the body of the \<open>for\<close> loop of
  \<open>ext2fs_inode_walk\<close> is \<open>inode_walk_body\<close>, and \<open>inode_walk_visit\<close> is its part below
  the choice of \<open>ibase\<close>: \<open>Inl\<close> is a \<open>return\<close> from the function, \<open>Inr\<close> the state with
  which the loop goes on to \<open>inum + 1\<close>.
\<close>

definition inode_walk_visit ::
  "ext2_decls \<Rightarrow> (tsk_fs_meta \<Rightarrow> 'p \<Rightarrow> tsk_walk_ret \<times> 'p) \<Rightarrow> meta_flag set \<Rightarrow> nat
     \<Rightarrow> nat \<times> ext2fs_info \<times> tsk_fs_meta \<times> 'p
     \<Rightarrow> ((nat \<times> ext2fs_info \<times> 'p) + (nat \<times> ext2fs_info \<times> tsk_fs_meta \<times> 'p)) option" where
  "inode_walk_visit h a_action flags inum st =
     (case st of (ibase, s, fs_meta, a_ptr) \<Rightarrow>
       (case imap_buf s of
          None \<Rightarrow> None
        | Some imap \<Rightarrow>
            (let myflags = (if isset imap (u64_sub inum ibase)
                            then {TSK_FS_META_FLAG_ALLOC} else {TSK_FS_META_FLAG_UNALLOC})
             in if \<not> myflags \<subseteq> flags then Some (Inr (ibase, s, fs_meta, a_ptr))
                else
                  (case ext2fs_dinode_load h s inum of
                     None \<Rightarrow> None
                   | Some (r, s1) \<Rightarrow>
                       if r \<noteq> 0 then Some (Inl (1, s1, a_ptr))
                       else
                         (case dino_buf s1 of
                            None \<Rightarrow> None
                          | Some ino \<Rightarrow>
                              (let myflags2 = myflags \<union>
                                     (if i_ctime ino \<noteq> 0 then {TSK_FS_META_FLAG_USED}
                                      else {TSK_FS_META_FLAG_UNUSED})
                               in if \<not> myflags2 \<subseteq> flags
                                  then Some (Inr (ibase, s1, fs_meta, a_ptr))
                                  else if TSK_FS_META_FLAG_UNALLOC \<in> myflags2
                                          \<and> TSK_FS_META_FLAG_ORPHAN \<in> flags
                                          \<and> (case list_inum_named (fs_info s1) of
                                                None \<Rightarrow> False
                                              | Some l \<Rightarrow> inum \<in> set l)
                                  then Some (Inr (ibase, s1, fs_meta, a_ptr))
                                  else
                                    (case ext2fs_dinode_copy h s1 fs_meta of
                                       None \<Rightarrow> None
                                     | Some (r, s2, m) \<Rightarrow>
                                         if r \<noteq> 0 then Some (Inl (1, s2, a_ptr))
                                         else
                                           (case a_action m a_ptr of
                                              (TSK_WALK_STOP, p) \<Rightarrow> Some (Inl (0, s2, p))
                                            | (TSK_WALK_ERROR, p) \<Rightarrow> Some (Inl (1, s2, p))
                                            | (TSK_WALK_CONT, p) \<Rightarrow>
                                                Some (Inr (ibase, s2, m, p))))))))))"

definition inode_walk_body ::
  "ext2_decls \<Rightarrow> (tsk_fs_meta \<Rightarrow> 'p \<Rightarrow> tsk_walk_ret \<times> 'p) \<Rightarrow> meta_flag set \<Rightarrow> nat \<Rightarrow> nat
     \<Rightarrow> nat \<times> ext2fs_info \<times> tsk_fs_meta \<times> 'p
     \<Rightarrow> ((nat \<times> ext2fs_info \<times> 'p) + (nat \<times> ext2fs_info \<times> tsk_fs_meta \<times> 'p)) option" where
  "inode_walk_body h a_action flags start_inum inum st =
     (case st of (ibase, s, fs_meta, a_ptr) \<Rightarrow>
        if s_inodes_per_group (sb s) = 0 then None
        else
          (let g = u32 (u64_sub inum 1 div s_inodes_per_group (sb s));
               new_base = u32 (g * s_inodes_per_group (sb s) + 1)
           in if imap_buf s = None \<or> imap_grp_num s \<noteq> g then
                (case ext2fs_imap_load h s g of
                   None \<Rightarrow> None
                 | Some (r, s1) \<Rightarrow>
                     if r \<noteq> 0 then Some (Inl (1, s1, a_ptr))
                     else inode_walk_visit h a_action flags inum (new_base, s1, fs_meta, a_ptr))
              else if inum = start_inum
              then inode_walk_visit h a_action flags inum (new_base, s, fs_meta, a_ptr)
              else inode_walk_visit h a_action flags inum (ibase, s, fs_meta, a_ptr)))"

text \<open>The \<open>for\<close> loop: \<open>inum\<close> runs from \<open>start_inum\<close> up to \<open>end_inum_tmp\<close>.\<close>

function inode_walk_loop ::
  "ext2_decls \<Rightarrow> (tsk_fs_meta \<Rightarrow> 'p \<Rightarrow> tsk_walk_ret \<times> 'p) \<Rightarrow> meta_flag set \<Rightarrow> nat \<Rightarrow> nat
     \<Rightarrow> nat \<Rightarrow> nat \<times> ext2fs_info \<times> tsk_fs_meta \<times> 'p
     \<Rightarrow> ((nat \<times> ext2fs_info \<times> 'p) + (nat \<times> ext2fs_info \<times> tsk_fs_meta \<times> 'p)) option" where
  "inode_walk_loop h a_action flags start_inum end_inum_tmp inum st =
     (if inum \<le> end_inum_tmp then
        (case inode_walk_body h a_action flags start_inum inum st of
           None \<Rightarrow> None
         | Some (Inl r) \<Rightarrow> Some (Inl r)
         | Some (Inr st1) \<Rightarrow>
             inode_walk_loop h a_action flags start_inum end_inum_tmp (inum + 1) st1)
      else Some (Inr st))"
  by pat_completeness auto
termination
  by (relation "measure (\<lambda>(h, a, f, st, e, i, s). e + 1 - i)") auto

text \<open>
  \<open>ext2fs_inode_walk\<close>: the return value, the state and the caller's pointer as the
  callbacks left it.
\<close>

definition ext2fs_inode_walk ::
  "ext2_decls \<Rightarrow> ext2fs_info \<Rightarrow> nat \<Rightarrow> nat \<Rightarrow> meta_flag set
     \<Rightarrow> (tsk_fs_meta \<Rightarrow> 'p \<Rightarrow> tsk_walk_ret \<times> 'p) \<Rightarrow> 'p \<Rightarrow> (nat \<times> ext2fs_info \<times> 'p) option" where
  "ext2fs_inode_walk h s0 start_inum end_inum flags0 a_action a_ptr =
     (let s = s0\<lparr>tsk_errno := None\<rparr> in
      if start_inum < first_inum (fs_info s) \<or> start_inum > last_inum (fs_info s)
      then Some (1, set_errno TSK_ERR_FS_WALK_RNG s, a_ptr)
      else if end_inum < first_inum (fs_info s) \<or> end_inum > last_inum (fs_info s)
              \<or> end_inum < start_inum
      then Some (1, set_errno TSK_ERR_FS_WALK_RNG s, a_ptr)
      else
        (let flags = inode_walk_flags flags0;
             iterate = (\<lambda>s.
               (case tsk_malloc s of
                  None \<Rightarrow> Some (1, set_errno TSK_ERR_AUX_MALLOC s, a_ptr)
                | Some s1 \<Rightarrow>
                    (case tsk_malloc s1 of
                       None \<Rightarrow> Some (1, set_errno TSK_ERR_AUX_MALLOC s1, a_ptr)
                     | Some s2 \<Rightarrow>
                         (let fs_meta = \<lparr>m_addr = 0, m_type = TSK_FS_META_TYPE_UNDEF, m_size = 0,
                                          m_ctime = 0, m_flags = {},
                                          m_content_len = EXT2FS_FILE_CONTENT_LEN h,
                                          m_content = [], m_link = False\<rparr>;
                              end_inum_tmp = (if end_inum = TSK_FS_ORPHANDIR_INUM (fs_info s2)
                                              then u64_sub end_inum 1 else end_inum)
                          in case inode_walk_loop h a_action flags start_inum end_inum_tmp
                                    start_inum (0, s2, fs_meta, a_ptr) of
                               None \<Rightarrow> None
                             | Some (Inl r) \<Rightarrow> Some r
                             | Some (Inr (ibase, s3, m, p)) \<Rightarrow>
                                 if end_inum = TSK_FS_ORPHANDIR_INUM (fs_info s3)
                                    \<and> TSK_FS_META_FLAG_ALLOC \<in> flags
                                    \<and> TSK_FS_META_FLAG_USED \<in> flags then
                                   (case tsk_fs_dir_make_orphan_dir_meta h s3 m of
                                      (r, m1) \<Rightarrow>
                                        if r \<noteq> 0 then Some (1, s3, p)
                                        else
                                          (case a_action m1 p of
                                             (TSK_WALK_STOP, p1) \<Rightarrow> Some (0, s3, p1)
                                           | (TSK_WALK_ERROR, p1) \<Rightarrow> Some (1, s3, p1)
                                           | (TSK_WALK_CONT, p1) \<Rightarrow> Some (0, s3, p1)))
                                 else Some (0, s3, p)))))
         in if TSK_FS_META_FLAG_ORPHAN \<in> flags \<and> list_inum_named (fs_info s) = None then
              (case tsk_fs_dir_load_inum_named h s of
                 (ok, s1) \<Rightarrow> if \<not> ok then Some (1, s1, a_ptr) else iterate s1)
            else iterate s))"

subsection \<open>Block flags\<close>

text \<open>
  \<open>INODE_TABLE_SIZE\<close>, the macro defined inside \<open>ext2fs_block_getflags\<close>; the arithmetic
  is that of \<open>unsigned int\<close>. \<open>None\<close> is the division by a zero block size.
\<close>

definition INODE_TABLE_SIZE :: "ext2fs_info \<Rightarrow> nat option" where
  "INODE_TABLE_SIZE s =
     (if block_size (fs_info s) = 0 then None
      else Some (u32 (u32_sub (u32 (s_inodes_per_group (sb s) * inode_size s)) 1
                        div block_size (fs_info s) + 1)))"

text \<open>
  \<open>ext2fs_block_getflags\<close>; \<open>ext2fs_block_getflags_classify\<close> is its part below the
  loading of the bitmap, \<open>g\<close> being the group of the block.
\<close>

definition ext2fs_block_getflags_classify ::
  "ext2_decls \<Rightarrow> nat \<Rightarrow> ext2fs_info \<Rightarrow> nat \<Rightarrow> (block_flag set \<times> ext2fs_info) option" where
  "ext2fs_block_getflags_classify h g s a_addr =
     (case (grp_buf s, bmap_buf s, INODE_TABLE_SIZE s) of
        (Some gd, Some bmap, Some tsize) \<Rightarrow>
          (let dbase = ext2_cgbase_lcl h g;
               dmin = u32 (bg_inode_table gd + tsize);
               flags = (if isset bmap (u64_sub a_addr dbase)
                        then {TSK_FS_BLOCK_FLAG_ALLOC} else {TSK_FS_BLOCK_FLAG_UNALLOC})
           in if (a_addr \<ge> dbase \<and> a_addr < bg_block_bitmap gd)
                 \<or> a_addr = bg_block_bitmap gd
                 \<or> a_addr = bg_inode_bitmap gd
                 \<or> (a_addr \<ge> bg_inode_table gd \<and> a_addr < dmin)
              then Some (insert TSK_FS_BLOCK_FLAG_META flags, s)
              else Some (insert TSK_FS_BLOCK_FLAG_CONT flags, s))
      | _ \<Rightarrow> None)"

definition ext2fs_block_getflags ::
  "ext2_decls \<Rightarrow> ext2fs_info \<Rightarrow> nat \<Rightarrow> (block_flag set \<times> ext2fs_info) option" where
  "ext2fs_block_getflags h s a_addr =
     (if a_addr = 0 then Some ({TSK_FS_BLOCK_FLAG_CONT, TSK_FS_BLOCK_FLAG_ALLOC}, s)
      else if a_addr < first_data_block s
      then Some ({TSK_FS_BLOCK_FLAG_META, TSK_FS_BLOCK_FLAG_ALLOC}, s)
      else
        (let g = ext2_dtog_lcl h a_addr
         in if bmap_buf s = None \<or> bmap_grp_num s \<noteq> g then
              (case ext2fs_bmap_load h s g of
                 None \<Rightarrow> None
               | Some (r, s1) \<Rightarrow>
                   if r \<noteq> 0 then Some ({}, s1) else ext2fs_block_getflags_classify h g s1 a_addr)
            else ext2fs_block_getflags_classify h g s a_addr))"

subsection \<open>A small file system for evaluation\<close>

text \<open>
  Two groups of eight inodes and eight blocks of 1024 bytes each, in the state in which
  \<open>ext2fs_open\<close> leaves the handle; the orphan directory is inode 17. The image is a
  parameter: \<open>good_img\<close> answers every read in full, \<open>short_img\<close> answers the bitmap
  reads with a single byte, \<open>bad_img\<close> fails to read group descriptors.
\<close>

definition ex_decls :: ext2_decls where
  "ex_decls =
     \<lparr>ext2_dtog_lcl = (\<lambda>d. u32 (u32_sub d 1 div 8)),
      ext2_cgbase_lcl = (\<lambda>c. u32 (8 * c) + 1),
      sizeof_ext2fs_gd = 32,
      EXT2FS_MAXPATHLEN = 4096,
      EXT2FS_NDADDR = 12,
      EXT2FS_NIADDR = 3,
      EXT2FS_FILE_CONTENT_LEN = 120,
      tsk_fs_dir_load_inum_named = (\<lambda>s. (True, s)),
      tsk_fs_dir_make_orphan_dir_meta =
        (\<lambda>s m. (0, m\<lparr>m_addr := last_inum (fs_info s), m_type := TSK_FS_META_TYPE_DIR,
                       m_flags := {TSK_FS_META_FLAG_ALLOC, TSK_FS_META_FLAG_USED}\<rparr>))\<rparr>"

definition ex_inode :: ext2fs_inode where
  "ex_inode = \<lparr>i_fmt = TSK_FS_META_TYPE_REG, i_size = 10, i_size_high = 0, i_ctime = 1,
               i_block = replicate 15 0\<rparr>"

definition good_img :: tsk_img where
  "good_img =
     \<lparr>rd_gd = (\<lambda>off. ReadFull \<lparr>bg_block_bitmap = 2, bg_inode_bitmap = 3, bg_inode_table = 4\<rparr>),
      rd_bitmap = (\<lambda>off. ReadFull (replicate 1024 255)),
      rd_inode = (\<lambda>off. ReadFull ex_inode),
      rd_fs_block = (\<lambda>a. ReadFull (replicate 1024 0))\<rparr>"

definition short_img :: tsk_img where
  "short_img = good_img\<lparr>rd_bitmap := (\<lambda>off. ReadShort (255 # replicate 1023 0))\<rparr>"

definition bad_img :: tsk_img where
  "bad_img = good_img\<lparr>rd_gd := (\<lambda>off. ReadError TSK_ERR_IMG_READ)\<rparr>"

definition ex_fs :: "tsk_img \<Rightarrow> ext2fs_info" where
  "ex_fs im =
     \<lparr>fs_info = \<lparr>first_inum = 1, last_inum = 17, first_block = 0, last_block = 16,
                  block_size = 1024, img_info = im, list_inum_named = None\<rparr>,
      sb = \<lparr>s_inodes_per_group = 8, ro_compat_large_file = False\<rparr>,
      inode_size = 128,
      groups_count = 2,
      groups_offset = 2048,
      first_data_block = 1,
      grp_buf = None, grp_num = 4294967295,
      bmap_buf = None, bmap_grp_num = 4294967295,
      imap_buf = None, imap_grp_num = 4294967295,
      dino_buf = None, dino_inum = 4294967295,
      tsk_errno = None,
      heap_left = 100\<rparr>"

text \<open>A callback that appends the address of each inode it is given to the caller's list.\<close>

definition log_addr :: "tsk_fs_meta \<Rightarrow> nat list \<Rightarrow> tsk_walk_ret \<times> nat list" where
  "log_addr m l = (TSK_WALK_CONT, l @ [m_addr m])"

section \<open>The NTFS directory resolver (ntfs_dent.c)\<close>

subsection \<open>The orphan map\<close>

text \<open>
  \<open>NTFS_PAR_MAP\<close>: one bucket of the singly linked list, which is modelled as the list of
  its nodes from the head on (the empty list is the \<open>NULL\<close> head). \<open>addrs\<close> is the buffer
  of \<open>alloc_cnt\<close> addresses, \<open>None\<close> when the pointer is \<open>NULL\<close>; its first \<open>used_cnt\<close>
  entries are the children. Addresses are \<open>TSK_INUM_T\<close> values, which are only compared.
  The allocator is the number of requests that will still succeed.
\<close>

record ntfs_par_map =
  par_addr :: nat
  alloc_cnt :: nat
  used_cnt :: nat
  addrs :: "nat list option"

definition ntfs_orphan_map_extend :: "nat \<Rightarrow> ntfs_par_map \<Rightarrow> nat \<times> ntfs_par_map \<times> nat" where
  "ntfs_orphan_map_extend heap m =
     (let m1 = m\<lparr>alloc_cnt := alloc_cnt m + 8\<rparr>
      in if heap = 0 then (1, m1\<lparr>addrs := None\<rparr>, heap)
         else (0, m1\<lparr>addrs := map_option (\<lambda>b. b @ replicate 8 0) (addrs m)\<rparr>, heap - 1))"

definition ntfs_orphan_map_alloc :: "nat \<Rightarrow> ntfs_par_map option \<times> nat" where
  "ntfs_orphan_map_alloc heap =
     (if heap = 0 then (None, 0)
      else if heap = 1 then (None, 0)
      else (Some \<lparr>par_addr = 0, alloc_cnt = 8, used_cnt = 0, addrs = Some (replicate 8 0)\<rparr>,
            heap - 2))"

text \<open>
  The first loop of \<open>ntfs_orphan_map_add\<close> and the loop of \<open>ntfs_orphan_map_get\<close>: the
  node with the parent address \<open>par\<close>, unless a node with a larger address comes first.
\<close>

fun ntfs_orphan_map_get :: "ntfs_par_map list \<Rightarrow> nat \<Rightarrow> ntfs_par_map option" where
  "ntfs_orphan_map_get [] par = None"
| "ntfs_orphan_map_get (tmp # rest) par =
     (if par_addr tmp = par then Some tmp
      else if par_addr tmp > par then None
      else ntfs_orphan_map_get rest par)"

text \<open>
  The second loop of \<open>ntfs_orphan_map_add\<close>: the new node is spliced in before the first
  node with a larger parent address, or put at the end of the list.
\<close>

fun orphan_map_splice :: "ntfs_par_map \<Rightarrow> ntfs_par_map list \<Rightarrow> ntfs_par_map list" where
  "orphan_map_splice m [] = [m]"
| "orphan_map_splice m (tmp # rest) =
     (if par_addr tmp > par_addr m then m # tmp # rest
      else tmp # orphan_map_splice m rest)"

text \<open>
  The last statements of \<open>ntfs_orphan_map_add\<close>, on the node \<open>map\<close>: \<open>None\<close> is the
  write through a \<open>NULL\<close> buffer.
\<close>

definition orphan_map_push ::
  "nat \<Rightarrow> ntfs_par_map \<Rightarrow> nat \<Rightarrow> (nat \<times> ntfs_par_map \<times> nat) option" where
  "orphan_map_push heap m child =
     (let store = (\<lambda>m heap.
            (case addrs m of
               None \<Rightarrow> None
             | Some b \<Rightarrow>
                 Some (0, m\<lparr>addrs := Some (b[used_cnt m := child]),
                            used_cnt := used_cnt m + 1\<rparr>, heap)))
      in if used_cnt m = alloc_cnt m then
           (case ntfs_orphan_map_extend heap m of
              (r, m1, heap1) \<Rightarrow> if r \<noteq> 0 then Some (1, m1, heap1) else store m1 heap1)
         else store m heap)"

text \<open>
  The node \<open>map\<close> is the first node with the parent address \<open>par\<close>; the statements on it
  are applied in place.
\<close>

fun orphan_map_at ::
  "nat \<Rightarrow> ntfs_par_map list \<Rightarrow> nat \<Rightarrow> nat \<Rightarrow> (nat \<times> ntfs_par_map list \<times> nat) option" where
  "orphan_map_at heap [] par child = None"
| "orphan_map_at heap (tmp # rest) par child =
     (if par_addr tmp = par then
        (case orphan_map_push heap tmp child of
           None \<Rightarrow> None
         | Some (r, m1, heap1) \<Rightarrow> Some (r, m1 # rest, heap1))
      else
        (case orphan_map_at heap rest par child of
           None \<Rightarrow> None
         | Some (r, rest1, heap1) \<Rightarrow> Some (r, tmp # rest1, heap1)))"

definition ntfs_orphan_map_add ::
  "nat \<Rightarrow> ntfs_par_map list \<Rightarrow> nat \<Rightarrow> nat \<Rightarrow> (nat \<times> ntfs_par_map list \<times> nat) option" where
  "ntfs_orphan_map_add heap orphan_map par child =
     (case ntfs_orphan_map_get orphan_map par of
        Some m \<Rightarrow> orphan_map_at heap orphan_map par child
      | None \<Rightarrow>
          (case ntfs_orphan_map_alloc heap of
             (None, heap1) \<Rightarrow> Some (1, orphan_map, heap1)
           | (Some m, heap1) \<Rightarrow>
               orphan_map_at heap1 (orphan_map_splice (m\<lparr>par_addr := par\<rparr>) orphan_map) par child))"

text \<open>
  A sequence of additions, as \<open>ntfs_orphan_act\<close> and the inode walk issue them: the first
  addition that returns 1 ends the sequence.
\<close>

fun orphan_map_adds ::
  "nat \<Rightarrow> ntfs_par_map list \<Rightarrow> (nat \<times> nat) list \<Rightarrow> (nat \<times> ntfs_par_map list \<times> nat) option" where
  "orphan_map_adds heap m [] = Some (0, m, heap)"
| "orphan_map_adds heap m ((par, child) # ops) =
     (case ntfs_orphan_map_add heap m par child of
        None \<Rightarrow> None
      | Some (r, m1, heap1) \<Rightarrow>
          if r \<noteq> 0 then Some (r, m1, heap1) else orphan_map_adds heap1 m1 ops)"

text \<open>The children of a bucket, and those that a sequence of additions gives a parent.\<close>

definition children :: "ntfs_par_map \<Rightarrow> nat list" where
  "children m = (case addrs m of None \<Rightarrow> [] | Some b \<Rightarrow> take (used_cnt m) b)"

definition children_of :: "(nat \<times> nat) list \<Rightarrow> nat \<Rightarrow> nat list" where
  "children_of ops par = map snd (filter (\<lambda>pc. fst pc = par) ops)"

text \<open>
  The shape of a bucket whose buffer is allocated and holds its counted children, and
  the state of the map after the additions \<open>ops\<close>: ascending parent addresses, one
  bucket for each parent that was named, each bucket with the children of its parent in
  the order of their addition.
\<close>

definition bucket_ok :: "ntfs_par_map \<Rightarrow> bool" where
  "bucket_ok b = (\<exists>buf. addrs b = Some buf \<and> length buf = alloc_cnt b \<and> used_cnt b \<le> alloc_cnt b)"

definition map_inv :: "ntfs_par_map list \<Rightarrow> (nat \<times> nat) list \<Rightarrow> bool" where
  "map_inv m ops = (sorted_wrt (<) (map par_addr m) \<and> (\<forall>b\<in>set m. bucket_ok b) \<and>
     par_addr ` set m = fst ` set ops \<and>
     (\<forall>b\<in>set m. children b = children_of ops (par_addr b)))"

subsection \<open>Memory, names and index entries\<close>

datatype tsk_endian = TSK_LIT_ENDIAN | TSK_BIG_ENDIAN

datatype tsk_retval = TSK_OK | TSK_ERR | TSK_COR | TSK_STOP

datatype name_flag = TSK_FS_NAME_FLAG_ALLOC | TSK_FS_NAME_FLAG_UNALLOC

datatype name_type = TSK_FS_NAME_TYPE_UNDEF | TSK_FS_NAME_TYPE_REG | TSK_FS_NAME_TYPE_DIR

text \<open>
  The buffers that the NTFS functions read and patch are bytes in the address space;
  a pointer is an address (\<open>uintptr_t\<close>, modelled as \<open>nat\<close>).
\<close>

type_synonym memory = "nat \<Rightarrow> byte"

text \<open>
  Modelled from the spec: the endian-aware accessor \<open>tsk_getu16\<close> is a macro of the base
  layer, which is not among the sources at hand; it reads two bytes in the byte order of
  the file system.
\<close>

definition tsk_getu16 :: "tsk_endian \<Rightarrow> memory \<Rightarrow> nat \<Rightarrow> nat" where
  "tsk_getu16 e mem a =
     (case e of
        TSK_LIT_ENDIAN \<Rightarrow> unat (mem a) + 256 * unat (mem (a + 1))
      | TSK_BIG_ENDIAN \<Rightarrow> unat (mem (a + 1)) + 256 * unat (mem a))"

record tsk_fs_name =
  n_meta_addr :: nat
  n_meta_seq :: nat
  n_name :: string
  n_type :: name_type
  n_flags :: "name_flag set"

text \<open>
  An index entry as the accessors read it at an address: the header
  (\<open>file_ref\<close> 48 bits, \<open>seq_num\<close>, \<open>idxlen\<close>, \<open>strlen\<close> 16 bits each) and the fields of
  the \<open>$FILE_NAME\<close> stream behind it. \<open>fname_dir\<close> is the test
  \<open>flags & NTFS_FNAME_FLAGS_DIR\<close>, \<open>name0\<close> the first byte of the name, and \<open>name8\<close> the
  text that the external UTF-16 converter and the clean-up loop of \<open>ntfs_dent_copy\<close>
  leave in the name buffer.
\<close>

record ntfs_idxentry =
  file_ref :: nat
  seq_num :: nat
  idxlen :: nat
  strlen :: nat
  crtime :: nat
  mtime :: nat
  atime :: nat
  alloc_fsize :: nat
  real_fsize :: nat
  fname_dir :: bool
  nlen :: nat
  nspace :: nat
  name0 :: nat
  name8 :: string

record ntfs_idxelist =
  begin_off :: nat
  seqend_off :: nat
  bufend_off :: nat
  idxelist_child :: bool

text \<open>
  \<open>NTFS_INFO\<close> with the fields of its \<open>TSK_FS_INFO\<close> that the functions consult, and the
  process-wide error slot and allocator (the number of requests that will still
  succeed).
\<close>

record ntfs_info =
  endian :: tsk_endian
  nt_first_inum :: nat
  nt_last_inum :: nat
  nt_root_inum :: nat
  ssize_b :: nat
  csize_b :: nat
  orphan_map :: "ntfs_par_map list"
  nt_errno :: "tsk_error option"
  nt_heap :: nat

text \<open>
  Modelled from the spec: the name-space values of \<open>$FILE_NAME\<close> (POSIX = 0, WIN32 = 1,
  DOS = 2, WINDOS = 3) are declared in \<open>tsk_ntfs.h\<close>, which is not among the sources at
  hand.
\<close>

definition NTFS_FNAME_POSIX :: nat where "NTFS_FNAME_POSIX = 0"
definition NTFS_FNAME_WIN32 :: nat where "NTFS_FNAME_WIN32 = 1"
definition NTFS_FNAME_DOS :: nat where "NTFS_FNAME_DOS = 2"
definition NTFS_FNAME_WINDOS :: nat where "NTFS_FNAME_WINDOS = 3"

text \<open>
  Modelled from the spec: the entry header \<open>{child_ref(48), seq(16), idxlen(16),
  strlen(16), flags(32)}\<close> precedes the \<open>$FILE_NAME\<close> stream, which puts the member
  \<open>stream\<close> of \<open>ntfs_idxentry\<close> at offset 16 (the struct is declared in \<open>tsk_ntfs.h\<close>).
\<close>

definition idxentry_stream_off :: nat where
  "idxentry_stream_off = 16"

text \<open>
  Modelled from the spec: a directory with \<open>add(name)\<close>. \<open>TSK_FS_DIR\<close> and
  \<open>tsk_fs_dir_add\<close> belong to the generic layer; the directory is the list of its names,
  \<open>add\<close> appends one, and returns 1 when the container cannot grow, which the model ties
  to the exhausted allocator.
\<close>

definition tsk_fs_dir_add ::
  "ntfs_info \<Rightarrow> tsk_fs_name list \<Rightarrow> tsk_fs_name \<Rightarrow> nat \<times> ntfs_info \<times> tsk_fs_name list" where
  "tsk_fs_dir_add ntfs names fs_name =
     (if nt_heap ntfs = 0 then (1, ntfs\<lparr>nt_errno := Some TSK_ERR_AUX_MALLOC\<rparr>, names)
      else (0, ntfs, names @ [fs_name]))"

text \<open>
  What \<open>tsk_ntfs.h\<close> declares and is not fixed by the spec is a parameter: the decoding
  of the structures at an address, and the size of \<open>ntfs_attr_fname\<close>.
\<close>

record ntfs_decls =
  read_idxentry :: "tsk_endian \<Rightarrow> memory \<Rightarrow> nat \<Rightarrow> ntfs_idxentry"
  sizeof_ntfs_attr_fname :: nat

subsection \<open>The index parser\<close>

definition SEC_BTWN_1601_1970_DIV100 :: nat where
  "SEC_BTWN_1601_1970_DIV100 = (369 * 365 + 89) * 24 * 36"

definition SEC_BTWN_1601_2010_DIV100 :: nat where
  "SEC_BTWN_1601_2010_DIV100 = SEC_BTWN_1601_1970_DIV100 + (40 * 365 + 6) * 24 * 36"

definition is_time :: "nat \<Rightarrow> nat" where
  "is_time t0 =
     (let t = t0 div 1000000000
      in if t = 0 then 0
         else if t < SEC_BTWN_1601_1970_DIV100 then 0
         else if t > SEC_BTWN_1601_2010_DIV100 then 0
         else 1)"

text \<open>
  \<open>ntfs_dent_copy\<close>: the conversion of the name is external and has left \<open>name8\<close>; the
  function always returns 0.
\<close>

definition ntfs_dent_copy :: "ntfs_idxentry \<Rightarrow> nat \<times> tsk_fs_name" where
  "ntfs_dent_copy idxe =
     (0, \<lparr>n_meta_addr = file_ref idxe, n_meta_seq = seq_num idxe, n_name = name8 idxe,
          n_type = (if fname_dir idxe then TSK_FS_NAME_TYPE_DIR else TSK_FS_NAME_TYPE_REG),
          n_flags = {}\<rparr>)"

text \<open>
  One pass through the body of the \<open>while\<close> loop of \<open>ntfs_proc_idxentry\<close>, for the entry
  \<open>idxe\<close> read at the address \<open>a\<close>, up to the call of \<open>tsk_fs_dir_add\<close>: \<open>Advance4\<close> is
  one of the four \<open>continue\<close> statements behind \<open>a_idxe + 4\<close>, \<open>Incr\<close> a \<open>goto incr_entry\<close>,
  and \<open>Add n\<close> the name with which \<open>tsk_fs_dir_add\<close> is called.
\<close>

datatype idx_step = Advance4 | Incr | Add tsk_fs_name

definition apparently_deleted :: "ntfs_idxentry \<Rightarrow> nat \<Rightarrow> nat \<Rightarrow> bool" where
  "apparently_deleted idxe a endaddr_alloc = (strlen idxe = 0 \<or> a + idxlen idxe > endaddr_alloc)"

definition ntfs_proc_body ::
  "ntfs_info \<Rightarrow> nat \<Rightarrow> nat \<Rightarrow> nat \<Rightarrow> ntfs_idxentry \<Rightarrow> nat \<Rightarrow> idx_step" where
  "ntfs_proc_body ntfs a_is_del a_idxe_len endaddr_alloc idxe a =
     (if file_ref idxe > nt_last_inum ntfs \<or> file_ref idxe < nt_first_inum ntfs
         \<or> idxlen idxe \<le> strlen idxe \<or> idxlen idxe mod 4 \<noteq> 0 \<or> idxlen idxe > a_idxe_len
      then Advance4
      else if apparently_deleted idxe a endaddr_alloc
              \<and> nspace idxe \<noteq> NTFS_FNAME_POSIX \<and> nspace idxe \<noteq> NTFS_FNAME_WIN32
              \<and> nspace idxe \<noteq> NTFS_FNAME_DOS \<and> nspace idxe \<noteq> NTFS_FNAME_WINDOS
      then Advance4
      else if apparently_deleted idxe a endaddr_alloc
              \<and> (alloc_fsize idxe < real_fsize idxe \<or> nlen idxe = 0 \<or> name0 idxe = 0)
      then Advance4
      else if apparently_deleted idxe a endaddr_alloc
              \<and> (is_time (crtime idxe) = 0 \<or> is_time (atime idxe) = 0
                  \<or> is_time (mtime idxe) = 0)
      then Advance4
      else if nspace idxe = NTFS_FNAME_DOS then Incr
      else
        (case ntfs_dent_copy idxe of
           (r, fs_name) \<Rightarrow>
             if r \<noteq> 0 then Incr
             else if a_is_del = 1 \<or> strlen idxe = 0 \<or> a + idxlen idxe > endaddr_alloc
             then Add (fs_name\<lparr>n_flags := {TSK_FS_NAME_FLAG_UNALLOC}\<rparr>)
             else Add (fs_name\<lparr>n_flags := {TSK_FS_NAME_FLAG_ALLOC}\<rparr>)))"

text \<open>The statements behind the label \<open>incr_entry\<close>: the address of the next entry.\<close>

definition incr_entry :: "ntfs_idxentry \<Rightarrow> nat \<Rightarrow> nat" where
  "incr_entry idxe a =
     (if strlen idxe = 0 then ((a + 16 + 66 + 2 * nlen idxe + 3) div 4) * 4
      else a + idxlen idxe)"

text \<open>
  The \<open>while\<close> loop of \<open>ntfs_proc_idxentry\<close>; \<open>a\<close> is the pointer \<open>a_idxe\<close>, \<open>names\<close> the
  directory that \<open>a_fs_dir\<close> points to.
\<close>

function ntfs_proc_loop ::
  "ntfs_decls \<Rightarrow> memory \<Rightarrow> nat \<Rightarrow> nat \<Rightarrow> nat \<Rightarrow> nat \<Rightarrow> nat \<Rightarrow> ntfs_info \<Rightarrow> tsk_fs_name list
     \<Rightarrow> tsk_retval \<times> ntfs_info \<times> tsk_fs_name list" where
  "ntfs_proc_loop d mem a_is_del a_idxe_len endaddr endaddr_alloc a ntfs names =
     (if a + idxentry_stream_off + sizeof_ntfs_attr_fname d < endaddr then
        (case ntfs_proc_body ntfs a_is_del a_idxe_len endaddr_alloc
                (read_idxentry d (endian ntfs) mem a) a of
           Advance4 \<Rightarrow>
             ntfs_proc_loop d mem a_is_del a_idxe_len endaddr endaddr_alloc (a + 4) ntfs names
         | Incr \<Rightarrow>
             ntfs_proc_loop d mem a_is_del a_idxe_len endaddr endaddr_alloc
               (incr_entry (read_idxentry d (endian ntfs) mem a) a) ntfs names
         | Add fs_name \<Rightarrow>
             (case tsk_fs_dir_add ntfs names fs_name of
                (r, ntfs1, names1) \<Rightarrow>
                  if r \<noteq> 0 then (TSK_ERR, ntfs1, names1)
                  else ntfs_proc_loop d mem a_is_del a_idxe_len endaddr endaddr_alloc
                         (incr_entry (read_idxentry d (endian ntfs) mem a) a) ntfs1 names1))
      else (TSK_OK, ntfs, names))"
  by pat_completeness auto
termination
proof (relation "measure (\<lambda>(d, mem, del, len, endaddr, ea, a, ntfs, names). endaddr - a)")
  show "wf (measure (\<lambda>(d, mem, del, len, endaddr, ea, a, ntfs, names). endaddr - a))"
    by simp
next
  fix d :: ntfs_decls and mem :: memory and a_is_del a_idxe_len endaddr endaddr_alloc a :: nat
    and ntfs :: ntfs_info and names :: "tsk_fs_name list"
  assume "a + idxentry_stream_off + sizeof_ntfs_attr_fname d < endaddr"
  then show "((d, mem, a_is_del, a_idxe_len, endaddr, endaddr_alloc, a + 4, ntfs, names),
              (d, mem, a_is_del, a_idxe_len, endaddr, endaddr_alloc, a, ntfs, names))
             \<in> measure (\<lambda>(d, mem, del, len, endaddr, ea, a, ntfs, names). endaddr - a)"
    by simp
next
  fix d :: ntfs_decls and mem :: memory and a_is_del a_idxe_len endaddr endaddr_alloc a :: nat
    and ntfs :: ntfs_info and names :: "tsk_fs_name list"
  assume lt: "a + idxentry_stream_off + sizeof_ntfs_attr_fname d < endaddr"
    and b: "ntfs_proc_body ntfs a_is_del a_idxe_len endaddr_alloc
              (read_idxentry d (endian ntfs) mem a) a = Incr"
  from b have "a < incr_entry (read_idxentry d (endian ntfs) mem a) a"
    by (auto simp: ntfs_proc_body_def incr_entry_def split: if_splits prod.splits)
  with lt show "((d, mem, a_is_del, a_idxe_len, endaddr, endaddr_alloc,
                  incr_entry (read_idxentry d (endian ntfs) mem a) a, ntfs, names),
              (d, mem, a_is_del, a_idxe_len, endaddr, endaddr_alloc, a, ntfs, names))
             \<in> measure (\<lambda>(d, mem, del, len, endaddr, ea, a, ntfs, names). endaddr - a)"
    by simp
next
  fix d :: ntfs_decls and mem :: memory and a_is_del a_idxe_len endaddr endaddr_alloc a :: nat
    and ntfs ntfs1 :: ntfs_info and names names1 :: "tsk_fs_name list" and fs_name x y r
  assume lt: "a + idxentry_stream_off + sizeof_ntfs_attr_fname d < endaddr"
    and b: "ntfs_proc_body ntfs a_is_del a_idxe_len endaddr_alloc
              (read_idxentry d (endian ntfs) mem a) a = Add fs_name"
  from b have "a < incr_entry (read_idxentry d (endian ntfs) mem a) a"
    by (auto simp: ntfs_proc_body_def incr_entry_def split: if_splits prod.splits)
  with lt show "((d, mem, a_is_del, a_idxe_len, endaddr, endaddr_alloc,
                  incr_entry (read_idxentry d (endian ntfs) mem a) a, ntfs1, names1),
              (d, mem, a_is_del, a_idxe_len, endaddr, endaddr_alloc, a, ntfs, names))
             \<in> measure (\<lambda>(d, mem, del, len, endaddr, ea, a, ntfs, names). endaddr - a)"
    by simp
qed

text \<open>
  \<open>ntfs_proc_idxentry\<close>: \<open>tsk_fs_name_alloc\<close> is the first statement and asks the
  allocator; the sanity check of the two lengths follows.
\<close>

definition ntfs_proc_idxentry ::
  "ntfs_decls \<Rightarrow> memory \<Rightarrow> ntfs_info \<Rightarrow> tsk_fs_name list \<Rightarrow> nat \<Rightarrow> nat \<Rightarrow> nat \<Rightarrow> nat
     \<Rightarrow> tsk_retval \<times> ntfs_info \<times> tsk_fs_name list" where
  "ntfs_proc_idxentry d mem ntfs names a_is_del a_idxe a_idxe_len a_used_len =
     (if nt_heap ntfs = 0 then (TSK_ERR, ntfs\<lparr>nt_errno := Some TSK_ERR_AUX_MALLOC\<rparr>, names)
      else
        (let ntfs1 = ntfs\<lparr>nt_heap := nt_heap ntfs - 1\<rparr>
         in if a_idxe_len < a_used_len
            then (TSK_ERR, ntfs1\<lparr>nt_errno := Some TSK_ERR_FS_ARG\<rparr>, names)
            else ntfs_proc_loop d mem a_is_del a_idxe_len (a_idxe + a_idxe_len)
                   (a_idxe + a_used_len) a_idxe ntfs1 names))"

text \<open>
  The flag that the claim about appended entries names, for the entry \<open>idxe\<close> read at
  the address \<open>b\<close>, and the name that the parser hands to \<open>tsk_fs_dir_add\<close> for it when
  the flag is as claimed.
\<close>

definition claimed_flags :: "nat \<Rightarrow> ntfs_idxentry \<Rightarrow> nat \<Rightarrow> nat \<Rightarrow> name_flag set" where
  "claimed_flags a_is_del idxe b endaddr_alloc =
     (if a_is_del = 1 \<or> strlen idxe = 0 \<or> endaddr_alloc < b + idxlen idxe
      then {TSK_FS_NAME_FLAG_UNALLOC} else {TSK_FS_NAME_FLAG_ALLOC})"

definition appended_from ::
  "ntfs_decls \<Rightarrow> memory \<Rightarrow> tsk_endian \<Rightarrow> nat \<Rightarrow> nat \<Rightarrow> nat \<Rightarrow> tsk_fs_name \<Rightarrow> bool" where
  "appended_from d mem e a_is_del endaddr_alloc b n =
     (n = (snd (ntfs_dent_copy (read_idxentry d e mem b)))
            \<lparr>n_flags := claimed_flags a_is_del (read_idxentry d e mem b) b endaddr_alloc\<rparr>)"

text \<open>
  The window of the claim about \<open>is_time\<close>, in the words of the spec: 1970-01-01 and
  2010-01-01 as counts of 100-nanosecond units since 1601-01-01 (369 years with 89 leap
  days up to 1970, and 40 years with 10 leap days from there to 2010).
\<close>

definition filetime_1970 :: nat where
  "filetime_1970 = (369 * 365 + 89) * 86400 * 10000000"

definition filetime_2010 :: nat where
  "filetime_2010 = filetime_1970 + (40 * 365 + 10) * 86400 * 10000000"

definition outside_time_window :: "nat \<Rightarrow> bool" where
  "outside_time_window t = (t < filetime_1970 \<or> filetime_2010 < t)"

subsection \<open>Fixup of an index record\<close>

text \<open>
  Modelled from the spec: the header of an index record carries the four-byte magic, then
  \<open>upd_off\<close> and \<open>upd_cnt\<close> (16 bits each); the update array at \<open>upd_off\<close> starts with the
  sequence value (\<open>upd_val\<close>), and its element \<open>i\<close> lies \<open>2 * i\<close> bytes behind it, so that
  \<open>upd_seq\<close>, the first replacement, is at offset 2. The structs \<open>ntfs_idxrec\<close> and
  \<open>ntfs_upd\<close> are declared in \<open>tsk_ntfs.h\<close>.
\<close>

definition idxrec_upd_off :: nat where "idxrec_upd_off = 4"
definition idxrec_upd_cnt :: nat where "idxrec_upd_cnt = 6"
definition upd_seq_off :: nat where "upd_seq_off = 2"

text \<open>
  The \<open>for\<close> loop of \<open>ntfs_fix_idxrec\<close>. The loop condition reads \<open>upd_cnt\<close> from the
  record at every iteration; \<open>upd\<close> and \<open>orig_seq\<close> are computed once. \<open>offset\<close> is an
  \<open>int\<close>; the two bytes of the replacement are copied one after the other.
\<close>

function ntfs_fix_idxrec_loop ::
  "ntfs_info \<Rightarrow> nat \<Rightarrow> nat \<Rightarrow> nat \<Rightarrow> nat \<Rightarrow> memory \<Rightarrow> nat \<times> ntfs_info \<times> memory" where
  "ntfs_fix_idxrec_loop ntfs idxrec upd orig_seq i mem =
     (if i < tsk_getu16 (endian ntfs) mem (idxrec + idxrec_upd_cnt) then
        (let offset = int i * int (ssize_b ntfs) - 2;
             old_val = nat (int idxrec + offset);
             cur_seq = tsk_getu16 (endian ntfs) mem old_val
         in if cur_seq \<noteq> orig_seq
            then (1, ntfs\<lparr>nt_errno := Some TSK_ERR_FS_INODE_COR\<rparr>, mem)
            else
              (let new_val = upd + upd_seq_off + (i - 1) * 2;
                   mem1 = mem(old_val := mem new_val);
                   mem2 = mem1(old_val + 1 := mem1 (new_val + 1))
               in ntfs_fix_idxrec_loop ntfs idxrec upd orig_seq (i + 1) mem2))
      else (0, ntfs, mem))"
  by pat_completeness auto
termination
proof (relation "measure (\<lambda>(ntfs, idxrec, upd, seq, i, mem). 65536 - i)", goal_cases)
  case 1
  show ?case by simp
next
  case (2 ntfs idxrec upd orig_seq i mem offset old_val cur_seq new_val mem1 mem2)
  let ?a = "idxrec + idxrec_upd_cnt"
  have "unat (mem ?a) < 256" "unat (mem (?a + 1)) < 256"
    using unsigned_less [of "mem ?a"] unsigned_less [of "mem (?a + 1)"] by simp_all
  then have "tsk_getu16 (endian ntfs) mem ?a < 65536"
    by (cases "endian ntfs") (simp_all add: tsk_getu16_def)
  with 2(1) show ?case by simp
qed

text \<open>
  \<open>ntfs_fix_idxrec\<close>. The product of the sanity check is an \<open>int\<close> that is converted to
  \<open>unsigned int\<close>.
\<close>

definition ntfs_fix_idxrec ::
  "ntfs_info \<Rightarrow> memory \<Rightarrow> nat \<Rightarrow> nat \<Rightarrow> nat \<times> ntfs_info \<times> memory" where
  "ntfs_fix_idxrec ntfs mem idxrec len =
     (let upd_cnt = tsk_getu16 (endian ntfs) mem (idxrec + idxrec_upd_cnt)
      in if nat (((int upd_cnt - 1) * int (ssize_b ntfs)) mod 2 ^ 32) > len
         then (1, ntfs\<lparr>nt_errno := Some TSK_ERR_FS_INODE_COR\<rparr>, mem)
         else
           (let upd = idxrec + tsk_getu16 (endian ntfs) mem (idxrec + idxrec_upd_off);
                orig_seq = tsk_getu16 (endian ntfs) mem upd
            in ntfs_fix_idxrec_loop ntfs idxrec upd orig_seq 1 mem))"

text \<open>
  The places that the claim about fixup names: the last two bytes of sector \<open>i\<close> of the
  record, element \<open>i\<close> of the update array, and the layouts in which no replacement
  element shares a byte with a sector tail.
\<close>

definition sector_tail :: "ntfs_info \<Rightarrow> nat \<Rightarrow> nat \<Rightarrow> nat" where
  "sector_tail ntfs idxrec i = idxrec + i * ssize_b ntfs - 2"

definition upd_elem :: "nat \<Rightarrow> nat \<Rightarrow> nat" where
  "upd_elem upd i = upd + 2 * i"


subsection \<open>An example volume and index buffer\<close>

text \<open>
  A little-endian volume with 512-byte sectors, 4096-byte clusters and the inode range
  \<open>[0, 100]\<close>, and an index buffer given by the entries that the decoder finds in it: a
  live entry at address 0, an entry behind the used part at 96, another one at 192 whose
  creation time lies in 2012, and file references out of range everywhere else. The
  other times are of the year 2003.
\<close>

definition ex_ntfs :: ntfs_info where
  "ex_ntfs = \<lparr>endian = TSK_LIT_ENDIAN, nt_first_inum = 0, nt_last_inum = 100, nt_root_inum = 5,
              ssize_b = 512, csize_b = 4096, orphan_map = [], nt_errno = None, nt_heap = 10\<rparr>"

definition ex_entry :: "nat \<Rightarrow> nat \<Rightarrow> string \<Rightarrow> ntfs_idxentry" where
  "ex_entry ref t nm =
     \<lparr>file_ref = ref, seq_num = 1, idxlen = 96, strlen = 80, crtime = t,
      mtime = 127000000000000000, atime = 127000000000000000, alloc_fsize = 4096,
      real_fsize = 100, fname_dir = False, nlen = 4, nspace = 1, name0 = 102, name8 = nm\<rparr>"

definition ex_read_idxentry :: "tsk_endian \<Rightarrow> memory \<Rightarrow> nat \<Rightarrow> ntfs_idxentry" where
  "ex_read_idxentry e mem a =
     (if a = 0 then ex_entry 5 127000000000000000 ''live''
      else if a = 96 then ex_entry 6 127000000000000000 ''gone''
      else if a = 192 then ex_entry 7 130000000000000000 ''late''
      else ex_entry 1000 0 [])"

definition ex_nt_decls :: ntfs_decls where
  "ex_nt_decls = \<lparr>read_idxentry = ex_read_idxentry, sizeof_ntfs_attr_fname = 66\<rparr>"

definition ex_mem :: memory where
  "ex_mem = (\<lambda>a. 0)"




subsection \<open>Opening a directory\<close>

text \<open>
  Modelled from the spec: the 32-bit accessor \<open>tsk_getu32\<close> of the base layer, the
  attribute type codes (\<open>$INDEX_ROOT = 0x90\<close>, \<open>$INDEX_ALLOCATION = 0xA0\<close>,
  \<open>$FILE_NAME = 0x30\<close>), the magic \<open>INDX\<close> of an index record as a little-endian 32-bit
  value, and the list header \<open>{begin_off, seqend_off, bufend_off, flags}\<close> of four 32-bit
  fields; they are declared in headers that are not among the sources at hand.
\<close>

definition tsk_getu32 :: "tsk_endian \<Rightarrow> memory \<Rightarrow> nat \<Rightarrow> nat" where
  "tsk_getu32 e mem a =
     (case e of
        TSK_LIT_ENDIAN \<Rightarrow> unat (mem a) + 256 * unat (mem (a + 1)) + 65536 * unat (mem (a + 2))
                            + 16777216 * unat (mem (a + 3))
      | TSK_BIG_ENDIAN \<Rightarrow> unat (mem (a + 3)) + 256 * unat (mem (a + 2)) + 65536 * unat (mem (a + 1))
                            + 16777216 * unat (mem a))"

definition NTFS_ATYPE_FNAME :: nat where "NTFS_ATYPE_FNAME = 0x30"
definition NTFS_ATYPE_IDXROOT :: nat where "NTFS_ATYPE_IDXROOT = 0x90"
definition NTFS_ATYPE_IDXALLOC :: nat where "NTFS_ATYPE_IDXALLOC = 0xA0"
definition NTFS_IDXREC_MAGIC :: nat where "NTFS_IDXREC_MAGIC = 0x58444e49"

text \<open>
  The attributes and the metadata of a file as \<open>ntfs_dir_open_meta\<close> reads them: the two
  attribute flags that it tests, the resident buffer (an address and a size) and the
  allocated size of a non-resident attribute; the flags, the sequence number, the
  attribute list (\<open>None\<close> is \<open>NULL\<close>) and the list \<open>name2\<close> of parent references.
\<close>

datatype attr_flag = TSK_FS_ATTR_RES | TSK_FS_ATTR_NONRES

record tsk_fs_attr =
  at_type :: nat
  at_flags :: "attr_flag set"
  rd_buf :: nat
  rd_buf_size :: nat
  nrd_allocsize :: nat

record tsk_fs_meta_name_list =
  par_inode :: nat
  par_seq :: nat
  nl_name :: string

record ntfs_meta =
  nm_flags :: "meta_flag set"
  nm_seq :: nat
  nm_attr :: "tsk_fs_attr list option"
  nm_name2 :: "tsk_fs_meta_name_list list"

text \<open>
  Modelled from the spec: \<open>tsk_fs_attrlist_get\<close> belongs to the generic layer; it returns
  an attribute of the list with the given type code, or \<open>NULL\<close>.
\<close>

definition tsk_fs_attrlist_get :: "tsk_fs_attr list \<Rightarrow> nat \<Rightarrow> tsk_fs_attr option" where
  "tsk_fs_attrlist_get attrs t = List.find (\<lambda>a. at_type a = t) attrs"

text \<open>
  What the function takes from elsewhere is a parameter: the decoder of index entries;
  the offsets of the members \<open>type\<close> and \<open>list\<close> of \<open>ntfs_idxroot\<close> and of \<open>list\<close> of
  \<open>ntfs_idxrec\<close>, and the flag \<open>NTFS_IDXELIST_CHILD\<close>; \<open>tsk_fs_dir_find_orphans\<close>;
  \<open>tsk_fs_file_open_meta\<close>, whose file handle carries its metadata; the address that
  \<open>tsk_malloc\<close> returns for the buffer of \<open>$INDEX_ALLOCATION\<close>; the attribute walk with
  \<open>tsk_fs_load_file_action\<close>, which gives the return value of the walk, the count
  \<open>load_file.left\<close> and the memory with the buffer filled; the inode walk with
  \<open>ntfs_orphan_act\<close>, which builds the orphan map; and
  \<open>tsk_fs_dir_make_orphan_dir_name\<close>.
\<close>

record ntfs_dir_decls =
  idx_decls :: ntfs_decls
  idxroot_type_off :: nat
  idxroot_list_off :: nat
  idxrec_list_off :: nat
  NTFS_IDXELIST_CHILD :: nat
  tsk_fs_dir_find_orphans ::
    "ntfs_info \<Rightarrow> tsk_fs_name list \<Rightarrow> tsk_retval \<times> ntfs_info \<times> tsk_fs_name list"
  tsk_fs_file_open_meta :: "ntfs_info \<Rightarrow> nat \<Rightarrow> ntfs_meta option"
  idxalloc_addr :: nat
  tsk_fs_attr_walk_load :: "ntfs_info \<Rightarrow> tsk_fs_attr \<Rightarrow> nat \<Rightarrow> memory \<Rightarrow> nat \<times> nat \<times> memory"
  orphan_inode_walk :: "ntfs_info \<Rightarrow> nat \<times> ntfs_info"
  tsk_fs_dir_make_orphan_dir_name :: "ntfs_info \<Rightarrow> nat \<times> tsk_fs_name"

definition read_idxelist :: "ntfs_dir_decls \<Rightarrow> tsk_endian \<Rightarrow> memory \<Rightarrow> nat \<Rightarrow> ntfs_idxelist" where
  "read_idxelist d e mem a =
     \<lparr>begin_off = tsk_getu32 e mem a, seqend_off = tsk_getu32 e mem (a + 4),
      bufend_off = tsk_getu32 e mem (a + 8),
      idxelist_child = (tsk_getu32 e mem (a + 12) AND NTFS_IDXELIST_CHILD d \<noteq> 0)\<rparr>"

definition meta_is_del :: "ntfs_meta \<Rightarrow> nat" where
  "meta_is_del meta = (if TSK_FS_META_FLAG_UNALLOC \<in> nm_flags meta then 1 else 0)"

text \<open>
  The block that makes up the entries \<open>.\<close> and \<open>..\<close>: the first component of the result
  is the value of an early \<open>return\<close>, if there is one.
\<close>

fun dir_open_dotdots ::
  "ntfs_info \<Rightarrow> tsk_fs_name list \<Rightarrow> tsk_fs_meta_name_list list
     \<Rightarrow> tsk_retval option \<times> ntfs_info \<times> tsk_fs_name list" where
  "dir_open_dotdots ntfs names [] = (None, ntfs, names)"
| "dir_open_dotdots ntfs names (p # ps) =
     (case tsk_fs_dir_add ntfs names
             \<lparr>n_meta_addr = par_inode p, n_meta_seq = par_seq p, n_name = ''..'',
              n_type = TSK_FS_NAME_TYPE_DIR, n_flags = {TSK_FS_NAME_FLAG_ALLOC}\<rparr> of
        (r, ntfs1, names1) \<Rightarrow>
          if r \<noteq> 0 then (Some TSK_ERR, ntfs1, names1) else dir_open_dotdots ntfs1 names1 ps)"

definition dir_open_dots ::
  "ntfs_info \<Rightarrow> tsk_fs_name list \<Rightarrow> nat \<Rightarrow> ntfs_meta
     \<Rightarrow> tsk_retval option \<times> ntfs_info \<times> tsk_fs_name list" where
  "dir_open_dots ntfs names a_addr meta =
     (if a_addr = nt_root_inum ntfs then (None, ntfs, names)
      else if nt_heap ntfs = 0
      then (Some TSK_ERR, ntfs\<lparr>nt_errno := Some TSK_ERR_AUX_MALLOC\<rparr>, names)
      else
        (case tsk_fs_dir_add (ntfs\<lparr>nt_heap := nt_heap ntfs - 1\<rparr>) names
                \<lparr>n_meta_addr = a_addr, n_meta_seq = nm_seq meta, n_name = ''.'',
                 n_type = TSK_FS_NAME_TYPE_DIR, n_flags = {TSK_FS_NAME_FLAG_ALLOC}\<rparr> of
           (r, ntfs1, names1) \<Rightarrow>
             if r \<noteq> 0 then (Some TSK_ERR, ntfs1, names1)
             else dir_open_dotdots ntfs1 names1 (nm_name2 meta)))"

text \<open>
  The call of \<open>ntfs_proc_idxentry\<close> on a list and the two tests behind it: \<open>TSK_ERR\<close> is
  returned at once, \<open>TSK_COR\<close> is recorded in \<open>retval_final\<close>.
\<close>

definition dir_open_list ::
  "ntfs_dir_decls \<Rightarrow> memory \<Rightarrow> ntfs_info \<Rightarrow> tsk_fs_name list \<Rightarrow> nat \<Rightarrow> nat \<Rightarrow> nat \<Rightarrow> nat
     \<Rightarrow> tsk_retval \<Rightarrow> tsk_retval option \<times> tsk_retval \<times> ntfs_info \<times> tsk_fs_name list" where
  "dir_open_list d mem ntfs names is_del idxe list_len used_len retval_final =
     (case ntfs_proc_idxentry (idx_decls d) mem ntfs names is_del idxe list_len used_len of
        (retval_tmp, ntfs1, names1) \<Rightarrow>
          if retval_tmp = TSK_ERR then (Some TSK_ERR, retval_final, ntfs1, names1)
          else if retval_tmp = TSK_COR then (None, TSK_COR, ntfs1, names1)
          else (None, retval_final, ntfs1, names1))"

text \<open>
  The statements of the cluster loop behind \<open>Process the previous structure\<close>, for the
  record at \<open>idxrec_p\<close> that ends where the record at \<open>idxrec\<close> begins.
\<close>

definition dir_open_record ::
  "ntfs_dir_decls \<Rightarrow> nat \<Rightarrow> nat \<Rightarrow> nat \<Rightarrow> tsk_retval \<Rightarrow> ntfs_info \<Rightarrow> memory \<Rightarrow> tsk_fs_name list
     \<Rightarrow> tsk_retval option \<times> tsk_retval \<times> ntfs_info \<times> memory \<times> tsk_fs_name list" where
  "dir_open_record d is_del idxrec_p idxrec retval_final ntfs mem names =
     (let rec_len = nat ((int idxrec - int idxrec_p) mod 2 ^ 32)
      in case ntfs_fix_idxrec ntfs mem idxrec_p rec_len of
           (r, ntfs1, mem1) \<Rightarrow>
             if r \<noteq> 0 then (Some TSK_COR, retval_final, ntfs1, mem1, names)
             else
               (let idxelist = idxrec_p + idxrec_list_off d;
                    l = read_idxelist d (endian ntfs1) mem1 idxelist;
                    idxe = idxelist + begin_off l;
                    list_len = nat ((int idxrec - int idxe) mod 2 ^ 32)
                in if idxe > idxrec \<or> idxelist + seqend_off l > idxrec
                   then (Some TSK_COR, retval_final,
                         ntfs1\<lparr>nt_errno := Some TSK_ERR_FS_INODE_COR\<rparr>, mem1, names)
                   else
                     (case dir_open_list d mem1 ntfs1 names is_del idxe list_len
                             (u32_sub (seqend_off l) (begin_off l)) retval_final of
                        (ret, fin, ntfs2, names2) \<Rightarrow> (ret, fin, ntfs2, mem1, names2))))"

text \<open>
  The cluster loop: \<open>off\<close> advances by the cluster size, which the loop does not test,
  so that the loop need not end; \<open>None\<close> is the loop that runs forever. The result has
  the value of an early \<open>return\<close>, \<open>retval_final\<close> and the pointer \<open>idxrec_p\<close>.
\<close>

partial_function (option) dir_open_clusters ::
  "ntfs_dir_decls \<Rightarrow> nat \<Rightarrow> nat \<Rightarrow> nat \<Rightarrow> nat \<Rightarrow> nat option \<Rightarrow> tsk_retval \<Rightarrow> ntfs_info \<Rightarrow> memory
     \<Rightarrow> tsk_fs_name list
     \<Rightarrow> (tsk_retval option \<times> tsk_retval \<times> nat option \<times> ntfs_info \<times> memory
          \<times> tsk_fs_name list) option" where
  "dir_open_clusters d is_del idxalloc idxalloc_len off idxrec_p retval_final ntfs mem names =
     (if off < idxalloc_len then
        (if tsk_getu32 (endian ntfs) mem (idxalloc + off) \<noteq> NTFS_IDXREC_MAGIC
         then dir_open_clusters d is_del idxalloc idxalloc_len (off + csize_b ntfs) idxrec_p
                retval_final ntfs mem names
         else
           (case idxrec_p of
              None \<Rightarrow>
                dir_open_clusters d is_del idxalloc idxalloc_len (off + csize_b ntfs)
                  (Some (idxalloc + off)) retval_final ntfs mem names
            | Some p \<Rightarrow>
                (case dir_open_record d is_del p (idxalloc + off) retval_final ntfs mem names of
                   (ret, fin, ntfs1, mem1, names1) \<Rightarrow>
                     if ret \<noteq> None then Some (ret, fin, Some p, ntfs1, mem1, names1)
                     else dir_open_clusters d is_del idxalloc idxalloc_len (off + csize_b ntfs)
                            (Some (idxalloc + off)) fin ntfs1 mem1 names1)))
      else Some (None, retval_final, idxrec_p, ntfs, mem, names))"

text \<open>
  The statements behind \<open>Process the final record\<close>. The length \<open>rec_len\<close> is computed
  as the source computes it, \<open>idxalloc_len - idxrec_p - idxalloc\<close>, and converted to 32
  bits, and so is \<open>list_len\<close>.
\<close>

definition dir_open_final_record ::
  "ntfs_dir_decls \<Rightarrow> nat \<Rightarrow> nat \<Rightarrow> nat \<Rightarrow> nat \<Rightarrow> tsk_retval \<Rightarrow> ntfs_info \<Rightarrow> memory
     \<Rightarrow> tsk_fs_name list
     \<Rightarrow> tsk_retval option \<times> tsk_retval \<times> ntfs_info \<times> memory \<times> tsk_fs_name list" where
  "dir_open_final_record d is_del idxalloc idxalloc_len idxrec_p retval_final ntfs mem names =
     (let rec_len = nat ((int idxalloc_len - int idxrec_p - int idxalloc) mod 2 ^ 32)
      in case ntfs_fix_idxrec ntfs mem idxrec_p rec_len of
           (r, ntfs1, mem1) \<Rightarrow>
             if r \<noteq> 0 then (Some TSK_COR, retval_final, ntfs1, mem1, names)
             else
               (let idxelist = idxrec_p + idxrec_list_off d;
                    l = read_idxelist d (endian ntfs1) mem1 idxelist;
                    idxe = idxelist + begin_off l;
                    list_len = nat ((int ((idxalloc + idxalloc_len) mod 2 ^ 32) - int idxe)
                                      mod 2 ^ 32)
                in if list_len > rec_len \<or> idxelist + seqend_off l > idxalloc + idxalloc_len
                   then (Some TSK_COR, retval_final,
                         ntfs1\<lparr>nt_errno := Some TSK_ERR_FS_INODE_COR\<rparr>, mem1, names)
                   else
                     (case dir_open_list d mem1 ntfs1 names is_del idxe list_len
                             (u32_sub (seqend_off l) (begin_off l)) retval_final of
                        (ret, fin, ntfs2, names2) \<Rightarrow> (ret, fin, ntfs2, mem1, names2))))"

text \<open>
  The branch for \<open>$INDEX_ALLOCATION\<close>: the tests of the attribute, the buffer and its
  load, the cluster loop and the final record.
\<close>

definition dir_open_idxalloc ::
  "ntfs_dir_decls \<Rightarrow> nat \<Rightarrow> ntfs_idxelist \<Rightarrow> tsk_fs_attr option \<Rightarrow> tsk_retval \<Rightarrow> ntfs_info \<Rightarrow> memory
     \<Rightarrow> tsk_fs_name list
     \<Rightarrow> (tsk_retval option \<times> tsk_retval \<times> ntfs_info \<times> memory \<times> tsk_fs_name list) option" where
  "dir_open_idxalloc d is_del root_list fs_attr_idx retval_final ntfs mem names =
     (case fs_attr_idx of
        None \<Rightarrow>
          if idxelist_child root_list
          then Some (Some TSK_COR, retval_final,
                     ntfs\<lparr>nt_errno := Some TSK_ERR_FS_INODE_COR\<rparr>, mem, names)
          else Some (None, retval_final, ntfs, mem, names)
      | Some attr \<Rightarrow>
          if TSK_FS_ATTR_RES \<in> at_flags attr
          then Some (Some TSK_COR, retval_final,
                     ntfs\<lparr>nt_errno := Some TSK_ERR_FS_INODE_COR\<rparr>, mem, names)
          else if nt_heap ntfs = 0
          then Some (Some TSK_ERR, retval_final,
                     ntfs\<lparr>nt_errno := Some TSK_ERR_AUX_MALLOC\<rparr>, mem, names)
          else
            (let ntfs1 = ntfs\<lparr>nt_heap := nt_heap ntfs - 1\<rparr>;
                 idxalloc = idxalloc_addr d;
                 idxalloc_len = nrd_allocsize attr
             in case tsk_fs_attr_walk_load d ntfs1 attr idxalloc mem of
                  (r, left, mem1) \<Rightarrow>
                    if r \<noteq> 0 then Some (Some TSK_COR, retval_final, ntfs1, mem1, names)
                    else if left > 0
                    then Some (Some TSK_COR, retval_final,
                               ntfs1\<lparr>nt_errno := Some TSK_ERR_FS_FWALK\<rparr>, mem1, names)
                    else
                      (case dir_open_clusters d is_del idxalloc idxalloc_len 0 None
                              retval_final ntfs1 mem1 names of
                         None \<Rightarrow> None
                       | Some (ret, fin, idxrec_p, ntfs2, mem2, names2) \<Rightarrow>
                           if ret \<noteq> None then Some (ret, fin, ntfs2, mem2, names2)
                           else
                             (case idxrec_p of
                                None \<Rightarrow> Some (None, fin, ntfs2, mem2, names2)
                              | Some p \<Rightarrow>
                                  Some (dir_open_final_record d is_del idxalloc idxalloc_len p
                                          fin ntfs2 mem2 names2)))))"

text \<open>
  The orphan files of the directory. The names of an orphan whose parent is the
  directory are added with the result of \<open>tsk_fs_dir_add\<close> ignored; the fields of
  \<open>fs_name\<close> that the loop does not set are as \<open>tsk_fs_name_alloc\<close> left them, zero.
\<close>

fun dir_open_orphan_names ::
  "ntfs_info \<Rightarrow> tsk_fs_name list \<Rightarrow> nat \<Rightarrow> nat \<Rightarrow> tsk_fs_meta_name_list list
     \<Rightarrow> ntfs_info \<times> tsk_fs_name list" where
  "dir_open_orphan_names ntfs names a_addr child [] = (ntfs, names)"
| "dir_open_orphan_names ntfs names a_addr child (n2 # rest) =
     (if par_inode n2 = a_addr then
        (case tsk_fs_dir_add ntfs names
                \<lparr>n_meta_addr = child, n_meta_seq = 0, n_name = nl_name n2,
                 n_type = TSK_FS_NAME_TYPE_UNDEF, n_flags = {TSK_FS_NAME_FLAG_UNALLOC}\<rparr> of
           (r, ntfs1, names1) \<Rightarrow> dir_open_orphan_names ntfs1 names1 a_addr child rest)
      else dir_open_orphan_names ntfs names a_addr child rest)"

fun dir_open_orphan_files ::
  "ntfs_dir_decls \<Rightarrow> ntfs_info \<Rightarrow> tsk_fs_name list \<Rightarrow> nat \<Rightarrow> nat list
     \<Rightarrow> ntfs_info \<times> tsk_fs_name list" where
  "dir_open_orphan_files d ntfs names a_addr [] = (ntfs, names)"
| "dir_open_orphan_files d ntfs names a_addr (child # rest) =
     (case tsk_fs_file_open_meta d ntfs child of
        None \<Rightarrow> dir_open_orphan_files d ntfs names a_addr rest
      | Some meta \<Rightarrow>
          (case dir_open_orphan_names ntfs names a_addr child (nm_name2 meta) of
             (ntfs1, names1) \<Rightarrow> dir_open_orphan_files d ntfs1 names1 a_addr rest))"

text \<open>
  The end of the function, from \<open>get the orphan files\<close>: the orphan map is built when it
  is \<open>NULL\<close>, the bucket of the directory is listed, and the root directory gets the
  entry of the orphan directory. \<open>None\<close> is the read through the \<open>NULL\<close> buffer of a
  bucket that counts children.
\<close>

definition dir_open_orphan_dir ::
  "ntfs_dir_decls \<Rightarrow> ntfs_info \<Rightarrow> tsk_fs_name list \<Rightarrow> nat \<Rightarrow> tsk_retval
     \<Rightarrow> tsk_retval \<times> ntfs_info \<times> tsk_fs_name list" where
  "dir_open_orphan_dir d ntfs names a_addr retval_final =
     (if a_addr = nt_root_inum ntfs then
        (if nt_heap ntfs = 0
         then (TSK_ERR, ntfs\<lparr>nt_errno := Some TSK_ERR_AUX_MALLOC\<rparr>, names)
         else
           (let ntfs1 = ntfs\<lparr>nt_heap := nt_heap ntfs - 1\<rparr>
            in case tsk_fs_dir_make_orphan_dir_name d ntfs1 of
                 (r, fs_name) \<Rightarrow>
                   if r \<noteq> 0 then (TSK_ERR, ntfs1, names)
                   else
                     (case tsk_fs_dir_add ntfs1 names fs_name of
                        (r1, ntfs2, names2) \<Rightarrow>
                          if r1 \<noteq> 0 then (TSK_ERR, ntfs2, names2)
                          else (retval_final, ntfs2, names2))))
      else (retval_final, ntfs, names))"

definition dir_open_orphans ::
  "ntfs_dir_decls \<Rightarrow> ntfs_info \<Rightarrow> tsk_fs_name list \<Rightarrow> nat \<Rightarrow> tsk_retval
     \<Rightarrow> (tsk_retval \<times> ntfs_info \<times> tsk_fs_name list) option" where
  "dir_open_orphans d ntfs names a_addr retval_final =
     (case (if orphan_map ntfs = [] then orphan_inode_walk d ntfs else (0, ntfs)) of
        (r, ntfs1) \<Rightarrow>
          if r \<noteq> 0 then Some (TSK_ERR, ntfs1, names)
          else
            (case ntfs_orphan_map_get (orphan_map ntfs1) a_addr of
               None \<Rightarrow> Some (dir_open_orphan_dir d ntfs1 names a_addr retval_final)
             | Some m \<Rightarrow>
                 if nt_heap ntfs1 = 0
                 then Some (TSK_ERR, ntfs1\<lparr>nt_errno := Some TSK_ERR_AUX_MALLOC\<rparr>, names)
                 else if addrs m = None \<and> used_cnt m > 0 then None
                 else
                   (case dir_open_orphan_files d (ntfs1\<lparr>nt_heap := nt_heap ntfs1 - 1\<rparr>) names
                           a_addr (children m) of
                      (ntfs2, names2) \<Rightarrow>
                        Some (dir_open_orphan_dir d ntfs2 names2 a_addr retval_final))))"

text \<open>
  The part of the function from the attribute \<open>$INDEX_ROOT\<close> on, for the metadata
  \<open>meta\<close> of the directory and its attribute list.
\<close>

definition dir_open_attrs ::
  "ntfs_dir_decls \<Rightarrow> memory \<Rightarrow> ntfs_info \<Rightarrow> tsk_fs_name list \<Rightarrow> nat \<Rightarrow> ntfs_meta
     \<Rightarrow> tsk_fs_attr list \<Rightarrow> (tsk_retval \<times> ntfs_info \<times> memory \<times> tsk_fs_name list) option" where
  "dir_open_attrs d mem ntfs names a_addr meta attrs =
     (case tsk_fs_attrlist_get attrs NTFS_ATYPE_IDXROOT of
        None \<Rightarrow> Some (TSK_COR, ntfs, mem, names)
      | Some fs_attr_root \<Rightarrow>
          if TSK_FS_ATTR_NONRES \<in> at_flags fs_attr_root
          then Some (TSK_COR, ntfs\<lparr>nt_errno := Some TSK_ERR_FS_INODE_COR\<rparr>, mem, names)
          else
            (let idxroot = rd_buf fs_attr_root;
                 ty = tsk_getu32 (endian ntfs) mem (idxroot + idxroot_type_off d)
             in if ty = 0 \<or> ty \<noteq> NTFS_ATYPE_FNAME
                then Some (TSK_COR, ntfs\<lparr>nt_errno := Some TSK_ERR_FS_INODE_COR\<rparr>, mem, names)
                else
                  (let idxelist = idxroot + idxroot_list_off d;
                       l = read_idxelist d (endian ntfs) mem idxelist;
                       idxe = idxelist + begin_off l
                   in case dir_open_dots ntfs names a_addr meta of
                        (Some r, ntfs1, names1) \<Rightarrow> Some (r, ntfs1, mem, names1)
                      | (None, ntfs1, names1) \<Rightarrow>
                          if seqend_off l < begin_off l \<or> bufend_off l < seqend_off l
                             \<or> idxe + bufend_off l > idxroot + rd_buf_size fs_attr_root
                          then Some (TSK_COR, ntfs1\<lparr>nt_errno := Some TSK_ERR_FS_INODE_COR\<rparr>,
                                     mem, names1)
                          else
                            (case dir_open_list d mem ntfs1 names1 (meta_is_del meta) idxe
                                    (u32_sub (bufend_off l) (begin_off l))
                                    (u32_sub (seqend_off l) (begin_off l)) TSK_OK of
                               (Some r, fin, ntfs2, names2) \<Rightarrow> Some (r, ntfs2, mem, names2)
                             | (None, fin, ntfs2, names2) \<Rightarrow>
                                 (case dir_open_idxalloc d (meta_is_del meta) l
                                         (tsk_fs_attrlist_get attrs NTFS_ATYPE_IDXALLOC)
                                         fin ntfs2 mem names2 of
                                    None \<Rightarrow> None
                                  | Some (Some r, fin1, ntfs3, mem3, names3) \<Rightarrow>
                                      Some (r, ntfs3, mem3, names3)
                                  | Some (None, fin1, ntfs3, mem3, names3) \<Rightarrow>
                                      (case dir_open_orphans d ntfs3 names3 a_addr fin1 of
                                         None \<Rightarrow> None
                                       | Some (r, ntfs4, names4) \<Rightarrow>
                                           Some (r, ntfs4, mem3, names4)))))))"

text \<open>
  The function once \<open>fs_dir\<close> is an empty directory: the orphan directory, whose
  address \<open>TSK_FS_ORPHANDIR_INUM\<close> is \<open>last_inum\<close>, is handed to
  \<open>tsk_fs_dir_find_orphans\<close>; every other directory is opened and must have attributes.
\<close>

definition ntfs_dir_open_meta_dir ::
  "ntfs_dir_decls \<Rightarrow> memory \<Rightarrow> ntfs_info \<Rightarrow> nat
     \<Rightarrow> (tsk_retval \<times> ntfs_info \<times> memory \<times> tsk_fs_name list option) option" where
  "ntfs_dir_open_meta_dir d mem ntfs a_addr =
     (if a_addr = nt_last_inum ntfs then
        (case tsk_fs_dir_find_orphans d ntfs [] of
           (r, ntfs1, names1) \<Rightarrow> Some (r, ntfs1, mem, Some names1))
      else
        (case tsk_fs_file_open_meta d ntfs a_addr of
           None \<Rightarrow> Some (TSK_COR, ntfs, mem, Some [])
         | Some meta \<Rightarrow>
             (case nm_attr meta of
                None \<Rightarrow>
                  Some (TSK_COR, ntfs\<lparr>nt_errno := Some TSK_ERR_FS_INODE_COR\<rparr>, mem, Some [])
              | Some attrs \<Rightarrow>
                  (case dir_open_attrs d mem ntfs [] a_addr meta attrs of
                     None \<Rightarrow> None
                   | Some (r, ntfs1, mem1, names1) \<Rightarrow> Some (r, ntfs1, mem1, Some names1)))))"

text \<open>
  \<open>ntfs_dir_open_meta\<close>. The argument \<open>a_fs_dir\<close> is \<open>NULL\<close> (\<open>None\<close>), or points to
  \<open>NULL\<close>, or to a directory, which is reset; the result has the return value and the
  directory that \<open>*a_fs_dir\<close> points to at the end. \<open>None\<close> is a call that does not
  return.
\<close>

definition ntfs_dir_open_meta ::
  "ntfs_dir_decls \<Rightarrow> memory \<Rightarrow> ntfs_info \<Rightarrow> tsk_fs_name list option option \<Rightarrow> nat
     \<Rightarrow> (tsk_retval \<times> ntfs_info \<times> memory \<times> tsk_fs_name list option) option" where
  "ntfs_dir_open_meta d mem ntfs a_fs_dir a_addr =
     (if a_addr < nt_first_inum ntfs \<or> a_addr > nt_last_inum ntfs
      then Some (TSK_ERR, ntfs\<lparr>nt_errno := Some TSK_ERR_FS_WALK_RNG\<rparr>, mem,
                 (case a_fs_dir of None \<Rightarrow> None | Some dir \<Rightarrow> dir))
      else
        (case a_fs_dir of
           None \<Rightarrow> Some (TSK_ERR, ntfs\<lparr>nt_errno := Some TSK_ERR_FS_ARG\<rparr>, mem, None)
         | Some None \<Rightarrow>
             if nt_heap ntfs = 0
             then Some (TSK_ERR, ntfs\<lparr>nt_errno := Some TSK_ERR_AUX_MALLOC\<rparr>, mem, None)
             else ntfs_dir_open_meta_dir d mem (ntfs\<lparr>nt_heap := nt_heap ntfs - 1\<rparr>) a_addr
         | Some (Some names) \<Rightarrow> ntfs_dir_open_meta_dir d mem ntfs a_addr))"

text \<open>
  The root directory (address 5) of the example volume. Its \<open>$INDEX_ROOT\<close>, resident at
  address 1000, is sorted by \<open>$FILE_NAME\<close> and has an empty list with the flag for
  children. Its \<open>$INDEX_ALLOCATION\<close> has two index records of 4096 bytes, each with
  \<open>upd_off\<close> = 40, \<open>upd_cnt\<close> = 9 and the sequence value \<open>0xBEEF\<close>; every sector of the
  two records ends in \<open>0xBEEF\<close> except the first sector of the first record, which ends
  in 0. The buffer for it is allocated at address 65536.
\<close>

definition ex_idxalloc :: "nat \<Rightarrow> byte" where
  "ex_idxalloc = (\<lambda>a. 0)(0 := 0x49, 1 := 0x4E, 2 := 0x44, 3 := 0x58, 4 := 40, 6 := 9,
     40 := 0xEF, 41 := 0xBE,
     1022 := 0xEF, 1023 := 0xBE, 1534 := 0xEF, 1535 := 0xBE, 2046 := 0xEF, 2047 := 0xBE,
     2558 := 0xEF, 2559 := 0xBE, 3070 := 0xEF, 3071 := 0xBE, 3582 := 0xEF, 3583 := 0xBE,
     4094 := 0xEF, 4095 := 0xBE,
     4096 := 0x49, 4097 := 0x4E, 4098 := 0x44, 4099 := 0x58, 4100 := 40, 4102 := 9,
     4120 := 40, 4124 := 56, 4128 := 0xE8, 4129 := 0x0F, 4136 := 0xEF, 4137 := 0xBE,
     4606 := 0xEF, 4607 := 0xBE, 5118 := 0xEF, 5119 := 0xBE, 5630 := 0xEF, 5631 := 0xBE,
     6142 := 0xEF, 6143 := 0xBE, 6654 := 0xEF, 6655 := 0xBE, 7166 := 0xEF, 7167 := 0xBE,
     7678 := 0xEF, 7679 := 0xBE, 8190 := 0xEF, 8191 := 0xBE)"

definition ex_load :: "ntfs_info \<Rightarrow> tsk_fs_attr \<Rightarrow> nat \<Rightarrow> memory \<Rightarrow> nat \<times> nat \<times> memory" where
  "ex_load ntfs attr base mem =
     (0, 0, (\<lambda>a. if base \<le> a \<and> a < base + 8192 then ex_idxalloc (a - base) else mem a))"

definition ex_idxroot_attr :: tsk_fs_attr where
  "ex_idxroot_attr = \<lparr>at_type = 0x90, at_flags = {TSK_FS_ATTR_RES}, rd_buf = 1000,
                       rd_buf_size = 64, nrd_allocsize = 0\<rparr>"

definition ex_idxalloc_attr :: tsk_fs_attr where
  "ex_idxalloc_attr = \<lparr>at_type = 0xA0, at_flags = {TSK_FS_ATTR_NONRES}, rd_buf = 0,
                        rd_buf_size = 0, nrd_allocsize = 8192\<rparr>"

definition ex_root_meta :: ntfs_meta where
  "ex_root_meta =
     \<lparr>nm_flags = {TSK_FS_META_FLAG_ALLOC}, nm_seq = 5,
      nm_attr = Some [ex_idxroot_attr, ex_idxalloc_attr], nm_name2 = []\<rparr>"

definition ex_dir_mem :: memory where
  "ex_dir_mem = (\<lambda>a. 0)(1000 := 0x30, 1016 := 16, 1020 := 32, 1024 := 32, 1028 := 1)"

definition ex_dir_decls :: ntfs_dir_decls where
  "ex_dir_decls =
     \<lparr>idx_decls = ex_nt_decls, idxroot_type_off = 0, idxroot_list_off = 16,
      idxrec_list_off = 24, NTFS_IDXELIST_CHILD = 1,
      tsk_fs_dir_find_orphans = (\<lambda>ntfs names. (TSK_OK, ntfs, names)),
      tsk_fs_file_open_meta = (\<lambda>ntfs a. if a = 5 then Some ex_root_meta else None),
      idxalloc_addr = 65536,
      tsk_fs_attr_walk_load = ex_load,
      orphan_inode_walk = (\<lambda>ntfs. (0, ntfs)),
      tsk_fs_dir_make_orphan_dir_name =
        (\<lambda>ntfs. (0, \<lparr>n_meta_addr = nt_last_inum ntfs, n_meta_seq = 0, n_name = ''$OrphanFiles'',
                      n_type = TSK_FS_NAME_TYPE_DIR, n_flags = {TSK_FS_NAME_FLAG_ALLOC}\<rparr>))\<rparr>"

text \<open>The flag argument \<open>ALLOC|UNALLOC|USED|UNUSED\<close>.\<close>

definition all_flags :: "meta_flag set" where
  "all_flags = {TSK_FS_META_FLAG_ALLOC, TSK_FS_META_FLAG_UNALLOC,
                TSK_FS_META_FLAG_USED, TSK_FS_META_FLAG_UNUSED}"

section \<open>Properties of the ext2/ext3 driver\<close>

lemmas ex_defs = ex_fs_def ex_decls_def good_img_def short_img_def bad_img_def ex_inode_def log_addr_def
lemmas ld_defs = ext2fs_group_load_def ext2fs_group_load_read_def ext2fs_bmap_load_def ext2fs_bmap_load_buf_def ext2fs_bmap_load_read_def ext2fs_imap_load_def ext2fs_imap_load_buf_def ext2fs_imap_load_read_def ext2fs_dinode_load_def ext2fs_dinode_load_group_def ext2fs_dinode_load_read_def tsk_malloc_def set_errno_def u32_def u64_sub_def u32_sub_def isset_def Let_def
lemmas cp_defs = ext2fs_dinode_copy_def ext2fs_dinode_copy_head_def ext2fs_dinode_copy_link_def ext2fs_dinode_copy_flags_def ext2fs_dinode_copy_fill_def to_s64_def


subsection \<open>What the loaders leave unchanged\<close>

lemma tsk_malloc_Some:
  "tsk_malloc s = Some s1 \<Longrightarrow> s1 = s\<lparr>heap_left := heap_left s - 1\<rparr>"
  by (simp add: tsk_malloc_def split: if_splits)

lemma group_load_read_total: "\<exists>r s'. ext2fs_group_load_read h g s = Some (r, s')"
  by (simp add: ext2fs_group_load_read_def Let_def split: read_result.splits)

lemma group_load_read_frame:
  "ext2fs_group_load_read h g s = Some (r, s') \<Longrightarrow>
     fs_info s' = fs_info s \<and> sb s' = sb s \<and> inode_size s' = inode_size s
     \<and> bmap_buf s' = bmap_buf s \<and> imap_buf s' = imap_buf s \<and> dino_buf s' = dino_buf s
     \<and> bmap_grp_num s' = bmap_grp_num s \<and> imap_grp_num s' = imap_grp_num s
     \<and> dino_inum s' = dino_inum s \<and> (grp_buf s \<noteq> None \<longrightarrow> grp_buf s' \<noteq> None)
     \<and> (r = 0 \<longrightarrow> grp_buf s' \<noteq> None \<and> grp_num s' = g)"
  by (auto simp: ext2fs_group_load_read_def Let_def set_errno_def
           split: read_result.splits if_splits)

lemma group_load_total: "\<exists>r s'. ext2fs_group_load h s g = Some (r, s')"
  using group_load_read_total
  by (simp add: ext2fs_group_load_def split: option.splits)

lemma group_load_frame:
  assumes "ext2fs_group_load h s g = Some (r, s')"
  shows "fs_info s' = fs_info s \<and> sb s' = sb s \<and> inode_size s' = inode_size s
     \<and> bmap_buf s' = bmap_buf s \<and> imap_buf s' = imap_buf s \<and> dino_buf s' = dino_buf s
     \<and> bmap_grp_num s' = bmap_grp_num s \<and> imap_grp_num s' = imap_grp_num s
     \<and> dino_inum s' = dino_inum s \<and> (grp_buf s \<noteq> None \<longrightarrow> grp_buf s' \<noteq> None)
     \<and> (r = 0 \<longrightarrow> grp_buf s' \<noteq> None \<and> grp_num s' = g)"
proof (cases "g \<ge> groups_count s")
  case True
  with assms show ?thesis by (auto simp: ext2fs_group_load_def set_errno_def)
next
  case False
  show ?thesis
  proof (cases "grp_buf s")
    case None
    show ?thesis
    proof (cases "tsk_malloc s")
      case N2: None
      with None False assms show ?thesis by (auto simp: ext2fs_group_load_def set_errno_def)
    next
      case (Some s1)
      with None False assms have r: "ext2fs_group_load_read h g
              (s1\<lparr>grp_buf := Some \<lparr>bg_block_bitmap = 0, bg_inode_bitmap = 0, bg_inode_table = 0\<rparr>\<rparr>)
            = Some (r, s')"
        by (simp add: ext2fs_group_load_def)
      from group_load_read_frame [OF r] tsk_malloc_Some [OF Some] None show ?thesis by simp
    qed
  next
    case (Some gd)
    with False assms have "(grp_num s = g \<and> s' = s \<and> r = 0) \<or> ext2fs_group_load_read h g s = Some (r, s')"
      by (auto simp: ext2fs_group_load_def split: if_splits)
    with Some group_load_read_frame show ?thesis by blast
  qed
qed

lemma imap_load_read_frame:
  "ext2fs_imap_load_read g s = Some (r, s') \<Longrightarrow>
     fs_info s' = fs_info s \<and> sb s' = sb s \<and> inode_size s' = inode_size s
     \<and> dino_buf s' = dino_buf s \<and> dino_inum s' = dino_inum s
     \<and> (imap_buf s \<noteq> None \<longrightarrow> imap_buf s' \<noteq> None)"
  by (auto simp: ext2fs_imap_load_read_def Let_def set_errno_def
           split: option.splits read_result.splits if_splits)

lemma imap_load_buf_frame:
  assumes "ext2fs_imap_load_buf g s = Some (r, s')"
  shows "fs_info s' = fs_info s \<and> sb s' = sb s \<and> inode_size s' = inode_size s
     \<and> dino_buf s' = dino_buf s \<and> dino_inum s' = dino_inum s
     \<and> (r = 0 \<longrightarrow> imap_buf s' \<noteq> None)"
proof (cases "imap_buf s")
  case None
  show ?thesis
  proof (cases "tsk_malloc s")
    case N2: None
    with None assms show ?thesis by (auto simp: ext2fs_imap_load_buf_def set_errno_def)
  next
    case (Some s1)
    with None assms have r: "ext2fs_imap_load_read g
                 (s1\<lparr>imap_buf := Some (replicate (block_size (fs_info s)) 0)\<rparr>) = Some (r, s')"
      by (simp add: ext2fs_imap_load_buf_def)
    from imap_load_read_frame [OF r] tsk_malloc_Some [OF Some] show ?thesis by simp
  qed
next
  case (Some b)
  with assms have "(s' = s \<and> r = 0) \<or> ext2fs_imap_load_read g s = Some (r, s')"
    by (auto simp: ext2fs_imap_load_buf_def split: if_splits)
  with Some imap_load_read_frame show ?thesis by blast
qed

lemma imap_load_frame:
  assumes "ext2fs_imap_load h s g = Some (r, s')"
  shows "fs_info s' = fs_info s \<and> sb s' = sb s \<and> inode_size s' = inode_size s
     \<and> dino_buf s' = dino_buf s \<and> dino_inum s' = dino_inum s
     \<and> (r = 0 \<longrightarrow> imap_buf s' \<noteq> None)"
proof (cases "grp_buf s = None \<or> grp_num s \<noteq> g")
  case True
  obtain r1 s1 where gl: "ext2fs_group_load h s g = Some (r1, s1)"
    using group_load_total by blast
  show ?thesis
  proof (cases "r1 = 0")
    case T: True
    with gl True assms have "ext2fs_imap_load_buf g s1 = Some (r, s')"
      by (simp add: ext2fs_imap_load_def)
    from imap_load_buf_frame [OF this] group_load_frame [OF gl] show ?thesis by simp
  next
    case False
    with gl True assms have "s' = s1 \<and> r = 1" by (simp add: ext2fs_imap_load_def)
    with group_load_frame [OF gl] show ?thesis by simp
  qed
next
  case False
  with assms have "ext2fs_imap_load_buf g s = Some (r, s')"
    by (simp add: ext2fs_imap_load_def)
  from imap_load_buf_frame [OF this] show ?thesis .
qed

lemma dinode_load_read_frame:
  "ext2fs_dinode_load_read inum g s = Some (r, s') \<Longrightarrow>
     fs_info s' = fs_info s \<and> sb s' = sb s \<and> imap_buf s' = imap_buf s
     \<and> (r = 0 \<longrightarrow> dino_buf s' \<noteq> None \<and> dino_inum s' = inum)"
  by (auto simp: ext2fs_dinode_load_read_def Let_def set_errno_def
           split: option.splits read_result.splits if_splits)

lemma dinode_load_group_frame:
  assumes "ext2fs_dinode_load_group h inum s = Some (r, s')"
  shows "fs_info s' = fs_info s \<and> sb s' = sb s \<and> imap_buf s' = imap_buf s
     \<and> (r = 0 \<longrightarrow> dino_buf s' \<noteq> None \<and> dino_inum s' = inum)"
proof -
  from assms have nz: "s_inodes_per_group (sb s) \<noteq> 0"
    by (auto simp: ext2fs_dinode_load_group_def split: if_splits)
  define g where "g = u32 (u64_sub inum (first_inum (fs_info s)) div s_inodes_per_group (sb s))"
  show ?thesis
  proof (cases "grp_buf s = None \<or> grp_num s \<noteq> g")
    case True
    obtain r1 s1 where gl: "ext2fs_group_load h s g = Some (r1, s1)"
      using group_load_total by blast
    show ?thesis
    proof (cases "r1 = 0")
      case T: True
      with gl True assms nz have "ext2fs_dinode_load_read inum g s1 = Some (r, s')"
        by (simp add: ext2fs_dinode_load_group_def Let_def g_def)
      from dinode_load_read_frame [OF this] group_load_frame [OF gl] show ?thesis by simp
    next
      case False
      with gl True assms nz have "s' = s1 \<and> r = 1"
        by (simp add: ext2fs_dinode_load_group_def Let_def g_def)
      with group_load_frame [OF gl] show ?thesis by simp
    qed
  next
    case False
    with assms nz have "ext2fs_dinode_load_read inum g s = Some (r, s')"
      by (auto simp: ext2fs_dinode_load_group_def Let_def g_def)
    from dinode_load_read_frame [OF this] show ?thesis .
  qed
qed

lemma dinode_load_frame:
  assumes "ext2fs_dinode_load h s inum = Some (r, s')"
  shows "fs_info s' = fs_info s \<and> sb s' = sb s \<and> imap_buf s' = imap_buf s
     \<and> (r = 0 \<longrightarrow> dino_buf s' \<noteq> None \<and> dino_inum s' = inum)"
proof (cases "inum < first_inum (fs_info s) \<or> inum > u64_sub (last_inum (fs_info s)) 1")
  case True
  with assms show ?thesis by (auto simp: ext2fs_dinode_load_def set_errno_def)
next
  case False
  show ?thesis
  proof (cases "dino_buf s")
    case None
    show ?thesis
    proof (cases "tsk_malloc s")
      case N2: None
      with None False assms show ?thesis by (auto simp: ext2fs_dinode_load_def set_errno_def)
    next
      case (Some s1)
      with None False assms have r: "ext2fs_dinode_load_group h inum
                    (s1\<lparr>dino_buf := Some \<lparr>i_fmt = TSK_FS_META_TYPE_UNDEF, i_size = 0,
                           i_size_high = 0, i_ctime = 0, i_block = replicate 15 0\<rparr>\<rparr>) = Some (r, s')"
        by (simp add: ext2fs_dinode_load_def)
      from dinode_load_group_frame [OF r] tsk_malloc_Some [OF Some] show ?thesis by simp
    qed
  next
    case (Some d)
    with False assms have "(dino_inum s = inum \<and> s' = s \<and> r = 0)
        \<or> ext2fs_dinode_load_group h inum s = Some (r, s')"
      by (auto simp: ext2fs_dinode_load_def split: if_splits)
    with Some dinode_load_group_frame show ?thesis by blast
  qed
qed

lemma link_blocks_frame:
  "link_blocks s as c sz = (r, s') \<Longrightarrow>
     fs_info s' = fs_info s \<and> sb s' = sb s \<and> dino_inum s' = dino_inum s"
proof (induction as arbitrary: c)
  case Nil
  then show ?case by simp
next
  case (Cons a as)
  show ?case
  proof (cases "c < sz")
    case False
    with Cons.prems show ?thesis by simp
  next
    case True
    show ?thesis
    proof (cases "rd_fs_block (img_info (fs_info s)) a")
      case (ReadError e)
      with True Cons.prems show ?thesis by (auto simp: set_errno_def)
    next
      case (ReadShort b)
      with True Cons.prems show ?thesis by (auto simp: set_errno_def)
    next
      case (ReadFull b)
      with True Cons.prems obtain c' where "link_blocks s as c' sz = (r, s')"
        by (simp add: Let_def)
      from Cons.IH [OF this] show ?thesis .
    qed
  qed
qed

lemma dinode_copy_fill_frame:
  "ext2fs_dinode_copy_fill g s m = Some (r, s', m') \<Longrightarrow> s' = s \<and> r = 0 \<and> m_addr m' = m_addr m"
  by (auto simp: ext2fs_dinode_copy_fill_def Let_def split: option.splits)

lemma dinode_copy_flags_frame:
  assumes "ext2fs_dinode_copy_flags h s m = Some (r, s', m')"
  shows "fs_info s' = fs_info s \<and> sb s' = sb s \<and> (r = 0 \<longrightarrow> m_addr m' = m_addr m)"
proof -
  from assms have nz: "s_inodes_per_group (sb s) \<noteq> 0"
    by (auto simp: ext2fs_dinode_copy_flags_def split: if_splits)
  let ?g = "u32 (u64_sub (dino_inum s) (first_inum (fs_info s)) div s_inodes_per_group (sb s))"
  show ?thesis
  proof (cases "imap_grp_num s \<noteq> ?g")
    case True
    with assms nz obtain r1 s1 where il: "ext2fs_imap_load h s ?g = Some (r1, s1)"
      by (auto simp: ext2fs_dinode_copy_flags_def Let_def split: option.splits)
    show ?thesis
    proof (cases "r1 = 0")
      case T: True
      with il True assms nz have "ext2fs_dinode_copy_fill ?g s1 m = Some (r, s', m')"
        by (simp add: ext2fs_dinode_copy_flags_def Let_def)
      from dinode_copy_fill_frame [OF this] imap_load_frame [OF il] show ?thesis by simp
    next
      case False
      with il True assms nz have "s' = s1 \<and> r = 1"
        by (simp add: ext2fs_dinode_copy_flags_def Let_def)
      with imap_load_frame [OF il] show ?thesis by simp
    qed
  next
    case False
    with assms nz have "ext2fs_dinode_copy_fill ?g s m = Some (r, s', m')"
      by (simp add: ext2fs_dinode_copy_flags_def Let_def)
    from dinode_copy_fill_frame [OF this] show ?thesis by simp
  qed
qed

lemma dinode_copy_link_frame:
  assumes "ext2fs_dinode_copy_link h s m = Some (r, s', m')"
  shows "fs_info s' = fs_info s \<and> sb s' = sb s \<and> (r = 0 \<longrightarrow> m_addr m' = m_addr m)"
proof (cases "m_type m = TSK_FS_META_TYPE_LNK \<and> m_size m < int (EXT2FS_MAXPATHLEN h) \<and> m_size m \<ge> 0")
  case False
  with assms have "ext2fs_dinode_copy_flags h s m = Some (r, s', m')"
    by (simp add: ext2fs_dinode_copy_link_def)
  from dinode_copy_flags_frame [OF this] show ?thesis .
next
  case lnk: True
  show ?thesis
  proof (cases "tsk_malloc s")
    case None
    with lnk assms show ?thesis by (auto simp: ext2fs_dinode_copy_link_def set_errno_def)
  next
    case (Some s1)
    note s1 = tsk_malloc_Some [OF Some]
    show ?thesis
    proof (cases "m_size m < int (4 * (EXT2FS_NDADDR h + EXT2FS_NIADDR h))")
      case True
      with lnk Some assms have "ext2fs_dinode_copy_flags h s1
                 (m\<lparr>m_link := True, m_content := replicate (length (m_content m)) 0\<rparr>) = Some (r, s', m')"
        by (simp add: ext2fs_dinode_copy_link_def)
      from dinode_copy_flags_frame [OF this] s1 show ?thesis by simp
    next
      case False
      show ?thesis
      proof (cases "tsk_malloc s1")
        case None
        with False lnk Some assms s1 show ?thesis
          by (auto simp: ext2fs_dinode_copy_link_def set_errno_def)
      next
        case S2: (Some s2)
        note s2 = tsk_malloc_Some [OF S2]
        obtain r3 s3 where lb: "link_blocks s2 (take (EXT2FS_NDADDR h) (m_content m)) 0 (m_size m) = (r3, s3)"
          by (cases "link_blocks s2 (take (EXT2FS_NDADDR h) (m_content m)) 0 (m_size m)")
        note f3 = link_blocks_frame [OF lb]
        show ?thesis
        proof (cases "r3 = 0")
          case True
          with False lnk Some S2 lb assms have "ext2fs_dinode_copy_flags h s3 (m\<lparr>m_link := True\<rparr>) = Some (r, s', m')"
            by (simp add: ext2fs_dinode_copy_link_def)
          from dinode_copy_flags_frame [OF this] f3 s1 s2 show ?thesis by simp
        next
          case F3: False
          with False lnk Some S2 lb assms have "s' = s3 \<and> r = 1"
            by (simp add: ext2fs_dinode_copy_link_def)
          with f3 s1 s2 show ?thesis by simp
        qed
      qed
    qed
  qed
qed

lemma dinode_copy_head_addr: "m_addr (ext2fs_dinode_copy_head s ino m) = dino_inum s"
  by (simp add: ext2fs_dinode_copy_head_def Let_def)

lemma dinode_copy_frame:
  assumes "ext2fs_dinode_copy h s m = Some (r, s', m')"
  shows "fs_info s' = fs_info s \<and> sb s' = sb s \<and> (r = 0 \<longrightarrow> m_addr m' = dino_inum s)"
proof (cases "dino_buf s")
  case None
  with assms show ?thesis by (auto simp: ext2fs_dinode_copy_def set_errno_def)
next
  case (Some ino)
  let ?m3 = "ext2fs_dinode_copy_head s ino m"
  note a3 = dinode_copy_head_addr [of s ino m]
  show ?thesis
  proof (cases "m_content_len ?m3 \<noteq> EXT2FS_FILE_CONTENT_LEN h")
    case True
    show ?thesis
    proof (cases "tsk_malloc s")
      case None
      with True Some assms show ?thesis by (auto simp: ext2fs_dinode_copy_def Let_def set_errno_def)
    next
      case S1: (Some s1)
      with True Some assms have "ext2fs_dinode_copy_link h s1
                       (?m3\<lparr>m_content_len := EXT2FS_FILE_CONTENT_LEN h, m_content := i_block ino\<rparr>) = Some (r, s', m')"
        by (simp add: ext2fs_dinode_copy_def Let_def)
      from dinode_copy_link_frame [OF this] tsk_malloc_Some [OF S1] a3 show ?thesis by simp
    qed
  next
    case False
    with Some assms have "ext2fs_dinode_copy_link h s (?m3\<lparr>m_content := i_block ino\<rparr>) = Some (r, s', m')"
      by (simp add: ext2fs_dinode_copy_def Let_def)
    from dinode_copy_link_frame [OF this] a3 show ?thesis by simp
  qed
qed




lemma walk_flags_all: "inode_walk_flags all_flags = all_flags"
  by (auto simp: inode_walk_flags_def all_flags_def Let_def)


lemma visit_all:
  assumes cont: "\<And>m p. fst (a_action m p) = TSK_WALK_CONT"
    and v: "inode_walk_visit h a_action all_flags inum (ibase, s, m, p) = Some res"
  shows "case res of
           Inl (r, s', p') \<Rightarrow> r = 1 \<and> p' = p \<and> fs_info s' = fs_info s \<and> sb s' = sb s
         | Inr (ibase', s', m', p') \<Rightarrow>
             m_addr m' = inum \<and> p' = snd (a_action m' p) \<and> fs_info s' = fs_info s \<and> sb s' = sb s"
proof -
  from v obtain imap where imap: "imap_buf s = Some imap"
    by (auto simp: inode_walk_visit_def split: option.splits)
  let ?f1 = "if isset imap (u64_sub inum ibase)
             then {TSK_FS_META_FLAG_ALLOC} else {TSK_FS_META_FLAG_UNALLOC}"
  have f1: "?f1 \<subseteq> all_flags" by (simp add: all_flags_def)
  from v imap f1 obtain r1 s1 where dl: "ext2fs_dinode_load h s inum = Some (r1, s1)"
    by (auto simp: inode_walk_visit_def Let_def split: option.splits)
  note fr1 = dinode_load_frame [OF dl]
  show ?thesis
  proof (cases "r1 = 0")
    case False
    with v imap f1 dl have "res = Inl (1, s1, p)"
      by (auto simp: inode_walk_visit_def Let_def)
    with fr1 show ?thesis by simp
  next
    case True
    with fr1 obtain ino where ino: "dino_buf s1 = Some ino" and di: "dino_inum s1 = inum" by auto
    let ?f2 = "?f1 \<union> (if i_ctime ino \<noteq> 0 then {TSK_FS_META_FLAG_USED} else {TSK_FS_META_FLAG_UNUSED})"
    have f2: "?f2 \<subseteq> all_flags" "TSK_FS_META_FLAG_ORPHAN \<notin> all_flags" by (auto simp: all_flags_def)
    from v imap f1 dl True ino f2 obtain r2 s2 m2 where
      dc: "ext2fs_dinode_copy h s1 m = Some (r2, s2, m2)"
      by (auto simp: inode_walk_visit_def Let_def split: option.splits)
    note fr2 = dinode_copy_frame [OF dc]
    show ?thesis
    proof (cases "r2 = 0")
      case False
      with v imap f1 dl True ino f2 dc have "res = Inl (1, s2, p)"
        by (auto simp: inode_walk_visit_def Let_def)
      with fr1 fr2 show ?thesis by simp
    next
      case T2: True
      obtain w p2 where act: "a_action m2 p = (w, p2)" by (cases "a_action m2 p")
      with cont [of m2 p] have w: "w = TSK_WALK_CONT" by simp
      from v imap f1 dl True ino f2 dc T2 act w have "res = Inr (ibase, s2, m2, p2)"
        by (auto simp: inode_walk_visit_def Let_def)
      with fr1 fr2 T2 di act show ?thesis by simp
    qed
  qed
qed


lemma body_all:
  assumes cont: "\<And>m p. fst (a_action m p) = TSK_WALK_CONT"
    and b: "inode_walk_body h a_action all_flags start_inum inum (ibase, s, m, p) = Some res"
  shows "case res of
           Inl (r, s', p') \<Rightarrow> r = 1 \<and> p' = p \<and> fs_info s' = fs_info s \<and> sb s' = sb s
         | Inr (ibase', s', m', p') \<Rightarrow>
             m_addr m' = inum \<and> p' = snd (a_action m' p) \<and> fs_info s' = fs_info s \<and> sb s' = sb s"
proof -
  from b have nz: "s_inodes_per_group (sb s) \<noteq> 0"
    by (auto simp: inode_walk_body_def split: if_splits)
  let ?g = "u32 (u64_sub inum 1 div s_inodes_per_group (sb s))"
  let ?nb = "u32 (?g * s_inodes_per_group (sb s) + 1)"
  show ?thesis
  proof (cases "imap_buf s = None \<or> imap_grp_num s \<noteq> ?g")
    case True
    with b nz obtain r1 s1 where il: "ext2fs_imap_load h s ?g = Some (r1, s1)"
      by (auto simp: inode_walk_body_def Let_def split: option.splits)
    note fr = imap_load_frame [OF il]
    show ?thesis
    proof (cases "r1 = 0")
      case False
      with b nz True il have "res = Inl (1, s1, p)"
        by (auto simp: inode_walk_body_def Let_def)
      with fr show ?thesis by simp
    next
      case T: True
      with b nz True il have "inode_walk_visit h a_action all_flags inum (?nb, s1, m, p) = Some res"
        by (auto simp: inode_walk_body_def Let_def)
      from visit_all [OF cont this] fr show ?thesis by (auto split: sum.splits)
    qed
  next
    case False
    with b nz obtain ib where "inode_walk_visit h a_action all_flags inum (ib, s, m, p) = Some res"
      by (auto simp: inode_walk_body_def Let_def split: if_splits)
    from visit_all [OF cont this] show ?thesis .
  qed
qed


declare inode_walk_loop.simps [simp del]

lemma loop_all:
  assumes cont: "\<And>m p. fst (a_action m p) = TSK_WALK_CONT"
  shows "inode_walk_loop h a_action all_flags start_inum e inum (ibase, s, m, p) = Some res \<Longrightarrow>
         inum \<le> e + 1 \<Longrightarrow>
         (case res of
            Inl (r, s', p') \<Rightarrow> r = 1
          | Inr (ibase', s', m', p') \<Rightarrow>
              fs_info s' = fs_info s \<and>
              (\<exists>ms. map m_addr ms = [inum..<e + 1] \<and> p' = foldl (\<lambda>p m. snd (a_action m p)) p ms))"
proof (induction "e + 1 - inum" arbitrary: inum ibase s m p)
  case 0
  then have "inum = e + 1" by simp
  with "0.prems"(1) have "res = Inr (ibase, s, m, p)"
    by (subst (asm) inode_walk_loop.simps) simp
  with \<open>inum = e + 1\<close> show ?case by simp
next
  case (Suc n)
  then have le: "inum \<le> e" by simp
  from Suc.prems(1) le
  have unf: "(case inode_walk_body h a_action all_flags start_inum inum (ibase, s, m, p) of
           None \<Rightarrow> None
         | Some (Inl r) \<Rightarrow> Some (Inl r)
         | Some (Inr st1) \<Rightarrow>
             inode_walk_loop h a_action all_flags start_inum e (inum + 1) st1) = Some res"
    by (subst (asm) inode_walk_loop.simps) simp
  then obtain br where br: "inode_walk_body h a_action all_flags start_inum inum (ibase, s, m, p) = Some br"
    by (cases "inode_walk_body h a_action all_flags start_inum inum (ibase, s, m, p)") auto
  note ba = body_all [OF cont br]
  show ?case
  proof (cases br)
    case (Inl x)
    with unf br have "res = Inl x" by simp
    with ba Inl show ?thesis by (auto split: prod.splits)
  next
    case (Inr st1)
    obtain ib1 s1 m1 p1 where st1: "st1 = (ib1, s1, m1, p1)" by (cases st1)
    with unf br Inr have rec: "inode_walk_loop h a_action all_flags start_inum e (inum + 1) (ib1, s1, m1, p1) = Some res"
      by simp
    from Suc.hyps have n: "n = e + 1 - (inum + 1)" by simp
    from le have "inum + 1 \<le> e + 1" by simp
    note ih = Suc.hyps(1) [OF n rec this]
    from ba Inr st1 have b1: "m_addr m1 = inum" "p1 = snd (a_action m1 p)" "fs_info s1 = fs_info s"
      by auto
    show ?thesis
    proof (cases res)
      case (Inl y)
      with ih show ?thesis by simp
    next
      case R: (Inr z)
      obtain ib' s' m' p' where z: "z = (ib', s', m', p')" by (cases z)
      with ih R obtain ms where ms: "fs_info s' = fs_info s1" "map m_addr ms = [inum + 1..<e + 1]"
          "p' = foldl (\<lambda>p m. snd (a_action m p)) p1 ms" by auto
      from le have "[inum..<e + 1] = inum # [inum + 1..<e + 1]" by (simp add: upt_conv_Cons)
      with ms b1 have "map m_addr (m1 # ms) = [inum..<e + 1]
          \<and> p' = foldl (\<lambda>p m. snd (a_action m p)) p (m1 # ms)" by simp
      then have "\<exists>ms. map m_addr ms = [inum..<e + 1]
          \<and> p' = foldl (\<lambda>p m. snd (a_action m p)) p ms" by blast
      with ms b1 R z show ?thesis by simp
    qed
  qed
qed

lemma u64_sub_le: "b \<le> a \<Longrightarrow> a < 2 ^ 64 \<Longrightarrow> u64_sub a b = a - b"
proof -
  assume le: "b \<le> a" and lt: "a < 2 ^ 64"
  then have "a mod 2 ^ 64 + 2 ^ 64 - b mod 2 ^ 64 = (a - b) + 2 ^ 64" by simp
  moreover from le lt have "a - b < 2 ^ 64" by simp
  ultimately show ?thesis unfolding u64_sub_def by (simp del: One_nat_def)
qed


lemma bmap_load_read_frame:
  "ext2fs_bmap_load_read g s = Some (r, s') \<Longrightarrow>
     fs_info s' = fs_info s \<and> sb s' = sb s \<and> inode_size s' = inode_size s
     \<and> grp_buf s' = grp_buf s
     \<and> (bmap_buf s \<noteq> None \<longrightarrow> bmap_buf s' \<noteq> None)"
  by (auto simp: ext2fs_bmap_load_read_def Let_def set_errno_def
           split: option.splits read_result.splits if_splits)

lemma bmap_load_read_total:
  "grp_buf s \<noteq> None \<Longrightarrow> \<exists>r s'. ext2fs_bmap_load_read g s = Some (r, s')"
  by (auto simp: ext2fs_bmap_load_read_def Let_def)

lemma bmap_load_buf_total:
  assumes "grp_buf s \<noteq> None"
  shows "\<exists>r s'. ext2fs_bmap_load_buf g s = Some (r, s')"
proof (cases "bmap_buf s")
  case None
  show ?thesis
  proof (cases "tsk_malloc s")
    case N2: None
    with None show ?thesis by (simp add: ext2fs_bmap_load_buf_def)
  next
    case (Some s1)
    with assms have "grp_buf (s1\<lparr>bmap_buf := Some (replicate (block_size (fs_info s)) 0)\<rparr>) \<noteq> None"
      by (auto dest!: tsk_malloc_Some)
    from bmap_load_read_total [OF this] None Some show ?thesis
      by (simp add: ext2fs_bmap_load_buf_def)
  qed
next
  case (Some b)
  with bmap_load_read_total [OF assms] show ?thesis
    by (simp add: ext2fs_bmap_load_buf_def)
qed

lemma bmap_load_buf_frame:
  assumes "ext2fs_bmap_load_buf g s = Some (r, s')"
  shows "fs_info s' = fs_info s \<and> sb s' = sb s \<and> inode_size s' = inode_size s
     \<and> grp_buf s' = grp_buf s \<and> (r = 0 \<longrightarrow> bmap_buf s' \<noteq> None)"
proof (cases "bmap_buf s")
  case None
  show ?thesis
  proof (cases "tsk_malloc s")
    case N2: None
    with None assms show ?thesis by (auto simp: ext2fs_bmap_load_buf_def set_errno_def)
  next
    case (Some s1)
    with None assms have r: "ext2fs_bmap_load_read g
                 (s1\<lparr>bmap_buf := Some (replicate (block_size (fs_info s)) 0)\<rparr>) = Some (r, s')"
      by (simp add: ext2fs_bmap_load_buf_def)
    from bmap_load_read_frame [OF r] tsk_malloc_Some [OF Some] show ?thesis by simp
  qed
next
  case (Some b)
  with assms have "(s' = s \<and> r = 0) \<or> ext2fs_bmap_load_read g s = Some (r, s')"
    by (auto simp: ext2fs_bmap_load_buf_def split: if_splits)
  with Some bmap_load_read_frame show ?thesis by blast
qed

lemma bmap_load_total: "\<exists>r s'. ext2fs_bmap_load h s g = Some (r, s')"
proof (cases "grp_buf s = None \<or> grp_num s \<noteq> g")
  case True
  obtain r1 s1 where gl: "ext2fs_group_load h s g = Some (r1, s1)"
    using group_load_total by blast
  show ?thesis
  proof (cases "r1 = 0")
    case T: True
    with group_load_frame [OF gl] have "grp_buf s1 \<noteq> None" by simp
    from bmap_load_buf_total [OF this] gl T True show ?thesis
      by (simp add: ext2fs_bmap_load_def)
  next
    case False
    with gl True show ?thesis by (simp add: ext2fs_bmap_load_def)
  qed
next
  case False
  then have "grp_buf s \<noteq> None" by simp
  from bmap_load_buf_total [OF this] False show ?thesis
    by (auto simp: ext2fs_bmap_load_def)
qed

lemma bmap_load_frame:
  assumes "ext2fs_bmap_load h s g = Some (r, s')"
  shows "fs_info s' = fs_info s \<and> sb s' = sb s \<and> inode_size s' = inode_size s
     \<and> (r = 0 \<longrightarrow> grp_buf s' \<noteq> None \<and> bmap_buf s' \<noteq> None)"
proof (cases "grp_buf s = None \<or> grp_num s \<noteq> g")
  case True
  obtain r1 s1 where gl: "ext2fs_group_load h s g = Some (r1, s1)"
    using group_load_total by blast
  show ?thesis
  proof (cases "r1 = 0")
    case T: True
    with gl True assms have "ext2fs_bmap_load_buf g s1 = Some (r, s')"
      by (simp add: ext2fs_bmap_load_def)
    from bmap_load_buf_frame [OF this] group_load_frame [OF gl] T show ?thesis by simp
  next
    case False
    with gl True assms have "s' = s1 \<and> r = 1" by (simp add: ext2fs_bmap_load_def)
    with group_load_frame [OF gl] show ?thesis by simp
  qed
next
  case False
  with assms have "ext2fs_bmap_load_buf g s = Some (r, s')"
    by (auto simp: ext2fs_bmap_load_def)
  from bmap_load_buf_frame [OF this] False show ?thesis by auto
qed

lemma getflags_classify:
  assumes "grp_buf s \<noteq> None" "bmap_buf s \<noteq> None" "block_size (fs_info s) \<noteq> 0"
  shows "\<exists>flags. ext2fs_block_getflags_classify h g s a = Some (flags, s) \<and>
     (TSK_FS_BLOCK_FLAG_ALLOC \<in> flags) \<noteq> (TSK_FS_BLOCK_FLAG_UNALLOC \<in> flags) \<and>
     (TSK_FS_BLOCK_FLAG_META \<in> flags) \<noteq> (TSK_FS_BLOCK_FLAG_CONT \<in> flags)"
  using assms
  by (auto simp: ext2fs_block_getflags_classify_def INODE_TABLE_SIZE_def Let_def)


subsection \<open>The claims\<close>

text \<open>
  C1, as amended. The claim promises a delivery for every handle, but the walker returns 1
  as soon as a bitmap, a group descriptor or an inode cannot be loaded. What holds: on a
  handle with \<open>0 < last_inum < 2^64\<close>, if the walk over \<open>[first_inum, last_inum]\<close> with
  the flags \<open>ALLOC|UNALLOC|USED|UNUSED\<close> and a callback that always answers \<open>CONT\<close>
  returns 0, then the callback was invoked on a sequence of inodes whose addresses are
  exactly \<open>first_inum, first_inum + 1, ..., last_inum - 1\<close> in this order (each once,
  ascending), followed by one invocation for the orphan directory. The sequence of
  invocations is read off the caller's pointer, which the walk leaves as the fold of the
  callback over that sequence, whatever the callback does with it.
\<close>

theorem inode_walk_delivers:
  assumes cont: "\<And>m p. fst (a_action m p) = TSK_WALK_CONT"
    and pos: "0 < last_inum (fs_info s)" and lt: "last_inum (fs_info s) < 2 ^ 64"
    and run: "ext2fs_inode_walk h s (first_inum (fs_info s)) (last_inum (fs_info s))
                all_flags a_action a_ptr = Some (0, s', p')"
  shows "\<exists>ms m_orphan.
           map m_addr ms = [first_inum (fs_info s)..<last_inum (fs_info s)] \<and>
           p' = snd (a_action m_orphan (foldl (\<lambda>p m. snd (a_action m p)) a_ptr ms))"
proof -
  let ?F = "first_inum (fs_info s)" and ?L = "last_inum (fs_info s)"
  let ?s = "s\<lparr>tsk_errno := None\<rparr>"
  have orph: "TSK_FS_META_FLAG_ORPHAN \<notin> all_flags" "TSK_FS_META_FLAG_ALLOC \<in> all_flags"
    "TSK_FS_META_FLAG_USED \<in> all_flags" by (simp_all add: all_flags_def)
  from pos lt have etmp: "u64_sub ?L 1 = ?L - 1" by (simp add: u64_sub_le)
  from run have rng: "?F \<le> ?L"
    by (auto simp: ext2fs_inode_walk_def set_errno_def Let_def split: if_splits)
  from run rng obtain s1 s2 where m1: "tsk_malloc ?s = Some s1" and m2: "tsk_malloc s1 = Some s2"
    by (auto simp: ext2fs_inode_walk_def walk_flags_all orph Let_def set_errno_def
             split: option.splits)
  from tsk_malloc_Some [OF m1] tsk_malloc_Some [OF m2] have fs2: "fs_info s2 = fs_info s" by simp
  let ?m0 = "\<lparr>m_addr = 0, m_type = TSK_FS_META_TYPE_UNDEF, m_size = 0,
                                          m_ctime = 0, m_flags = {},
                                          m_content_len = EXT2FS_FILE_CONTENT_LEN h,
                                          m_content = [], m_link = False\<rparr>"
  let ?loop = "inode_walk_loop h a_action all_flags ?F (?L - 1) ?F (0, s2, ?m0, a_ptr)"
  from run rng m1 m2 fs2 etmp
  have after: "(case ?loop of
                 None \<Rightarrow> None
               | Some (Inl r) \<Rightarrow> Some r
               | Some (Inr (ibase, s3, m, p)) \<Rightarrow>
                   if ?L = TSK_FS_ORPHANDIR_INUM (fs_info s3)
                      \<and> TSK_FS_META_FLAG_ALLOC \<in> all_flags
                      \<and> TSK_FS_META_FLAG_USED \<in> all_flags then
                     (case tsk_fs_dir_make_orphan_dir_meta h s3 m of
                        (r, m1) \<Rightarrow>
                          if r \<noteq> 0 then Some (1, s3, p)
                          else
                            (case a_action m1 p of
                               (TSK_WALK_STOP, p1) \<Rightarrow> Some (0, s3, p1)
                             | (TSK_WALK_ERROR, p1) \<Rightarrow> Some (1, s3, p1)
                             | (TSK_WALK_CONT, p1) \<Rightarrow> Some (0, s3, p1)))
                   else Some (0, s3, p)) = Some (0, s', p')"
    by (simp add: ext2fs_inode_walk_def walk_flags_all orph Let_def
                  TSK_FS_ORPHANDIR_INUM_def)
  then obtain res where res: "?loop = Some res" by (cases ?loop) auto
  from rng pos have "?F \<le> ?L - 1 + 1" by simp
  note la = loop_all [OF cont res this]
  show ?thesis
  proof (cases res)
    case (Inl x)
    with la after res show ?thesis by (auto split: prod.splits)
  next
    case (Inr z)
    obtain ib s3 m3 p3 where z: "z = (ib, s3, m3, p3)" by (cases z)
    with la Inr obtain ms where fs3: "fs_info s3 = fs_info s2"
      and ms: "map m_addr ms = [?F..<?L - 1 + 1]" "p3 = foldl (\<lambda>p m. snd (a_action m p)) a_ptr ms"
      by auto
    obtain r4 m4 where mk: "tsk_fs_dir_make_orphan_dir_meta h s3 m3 = (r4, m4)"
      by (cases "tsk_fs_dir_make_orphan_dir_meta h s3 m3")
    obtain w p5 where act: "a_action m4 p3 = (w, p5)" by (cases "a_action m4 p3")
    with cont [of m4 p3] have w: "w = TSK_WALK_CONT" by simp
    from after res Inr z fs3 fs2 mk act w orph have "r4 = 0 \<and> p' = p5"
      by (auto simp: TSK_FS_ORPHANDIR_INUM_def split: if_splits)
    with act have "p' = snd (a_action m4 p3)" by simp
    with ms pos show ?thesis by auto
  qed
qed


lemma ex_walk:
  "map_option (\<lambda>(r, s, p). (r, p))
     (ext2fs_inode_walk ex_decls (ex_fs good_img) 1 17 all_flags log_addr [])
   = Some (0, [1, 2, 3, 4, 5, 6, 7, 8, 9, 10, 11, 12, 13, 14, 15, 16, 17])"
  by (simp add: all_flags_def ex_defs ld_defs cp_defs ext2fs_inode_walk_def inode_walk_flags_def TSK_FS_ORPHANDIR_INUM_def inode_walk_body_def inode_walk_visit_def inode_walk_loop.simps)

theorem inode_walk_delivers_witness:
  "(\<forall>m p. fst (log_addr m p) = TSK_WALK_CONT) \<and>
   0 < last_inum (fs_info (ex_fs good_img)) \<and>
   last_inum (fs_info (ex_fs good_img)) < 2 ^ 64 \<and>
   (\<exists>ms m_orphan.
      map m_addr ms = [1..<17] \<and>
      [1, 2, 3, 4, 5, 6, 7, 8, 9, 10, 11, 12, 13, 14, 15, 16, 17]
        = snd (log_addr m_orphan (foldl (\<lambda>p m. snd (log_addr m p)) [] ms)))"
proof -
  have cont: "\<And>m p. fst (log_addr m p) = TSK_WALK_CONT" by (simp add: log_addr_def)
  have f: "first_inum (fs_info (ex_fs good_img)) = 1" "last_inum (fs_info (ex_fs good_img)) = 17"
    by (simp_all add: ex_fs_def)
  from ex_walk obtain s' where
    "ext2fs_inode_walk ex_decls (ex_fs good_img) 1 17 all_flags log_addr []
       = Some (0, s', [1, 2, 3, 4, 5, 6, 7, 8, 9, 10, 11, 12, 13, 14, 15, 16, 17])"
    by auto
  with inode_walk_delivers [of log_addr "ex_fs good_img" ex_decls "[]" s'
         "[1, 2, 3, 4, 5, 6, 7, 8, 9, 10, 11, 12, 13, 14, 15, 16, 17]"] cont f
  show ?thesis by simp
qed

text \<open>
  The claim as stated fails on a handle whose image cannot deliver the group
  descriptors: inode 1 lies in \<open>[first_inum, last_inum - 1]\<close>, the walk returns 1 and
  the callback has not been invoked at all.
\<close>

theorem inode_walk_counterexample:
  "first_inum (fs_info (ex_fs bad_img)) \<le> 1 \<and> 1 \<le> last_inum (fs_info (ex_fs bad_img)) - 1 \<and>
   map_option (\<lambda>(r, s, p). (r, p))
     (ext2fs_inode_walk ex_decls (ex_fs bad_img) 1 17 all_flags log_addr []) = Some (1, [])"
  by (simp add: ex_defs ld_defs all_flags_def ext2fs_inode_walk_def inode_walk_flags_def
        TSK_FS_ORPHANDIR_INUM_def inode_walk_body_def inode_walk_visit_def
        inode_walk_loop.simps)

text \<open>
  C2, as amended. \<open>ext2fs_block_getflags\<close> returns 0, the empty flag set, when it has to
  load the block bitmap of the block's group and the load fails. What holds for every
  block address \<open>b\<close> (those of \<open>[first_block, last_block]\<close> among them), on a handle
  with a non-zero block size whose block bitmap buffer exists only together with a
  group descriptor buffer: the function returns; its result is the empty set exactly
  when \<open>b\<close> is neither 0 nor below \<open>first_data_block\<close>, the bitmap of its group is not
  the cached one and \<open>ext2fs_bmap_load\<close> fails; in every other case the result contains
  exactly one of \<open>ALLOC\<close> and \<open>UNALLOC\<close> and exactly one of \<open>META\<close> and \<open>CONT\<close>.
\<close>

theorem block_getflags_classes:
  assumes bs: "block_size (fs_info s) \<noteq> 0"
    and inv: "bmap_buf s \<noteq> None \<Longrightarrow> grp_buf s \<noteq> None"
  shows "\<exists>flags s'. ext2fs_block_getflags h s b = Some (flags, s') \<and>
     (if b \<noteq> 0 \<and> first_data_block s \<le> b
         \<and> (bmap_buf s = None \<or> bmap_grp_num s \<noteq> ext2_dtog_lcl h b)
         \<and> (\<exists>r s1. ext2fs_bmap_load h s (ext2_dtog_lcl h b) = Some (r, s1) \<and> r \<noteq> 0)
      then flags = {}
      else (TSK_FS_BLOCK_FLAG_ALLOC \<in> flags) \<noteq> (TSK_FS_BLOCK_FLAG_UNALLOC \<in> flags) \<and>
           (TSK_FS_BLOCK_FLAG_META \<in> flags) \<noteq> (TSK_FS_BLOCK_FLAG_CONT \<in> flags))"
proof (cases "b = 0 \<or> b < first_data_block s")
  case True
  then show ?thesis by (auto simp: ext2fs_block_getflags_def)
next
  case False
  let ?g = "ext2_dtog_lcl h b"
  show ?thesis
  proof (cases "bmap_buf s = None \<or> bmap_grp_num s \<noteq> ?g")
    case need: True
    obtain r s1 where bl: "ext2fs_bmap_load h s ?g = Some (r, s1)"
      using bmap_load_total by blast
    note fr = bmap_load_frame [OF bl]
    show ?thesis
    proof (cases "r = 0")
      case ok: True
      with fr bs have "grp_buf s1 \<noteq> None" "bmap_buf s1 \<noteq> None" "block_size (fs_info s1) \<noteq> 0"
        by auto
      from getflags_classify [OF this, of h ?g b] obtain flags where
        c: "ext2fs_block_getflags_classify h ?g s1 b = Some (flags, s1)"
        and x: "(TSK_FS_BLOCK_FLAG_ALLOC \<in> flags) \<noteq> (TSK_FS_BLOCK_FLAG_UNALLOC \<in> flags)"
        "(TSK_FS_BLOCK_FLAG_META \<in> flags) \<noteq> (TSK_FS_BLOCK_FLAG_CONT \<in> flags)"
        by blast
      from False need bl ok c have "ext2fs_block_getflags h s b = Some (flags, s1)"
        by (simp add: ext2fs_block_getflags_def Let_def)
      moreover from bl ok have
        "\<not> (\<exists>r s1. ext2fs_bmap_load h s ?g = Some (r, s1) \<and> r \<noteq> 0)" by simp
      ultimately show ?thesis using x by (intro exI [of _ flags] exI [of _ s1]) auto
    next
      case bad: False
      with False need bl have "ext2fs_block_getflags h s b = Some ({}, s1)"
        by (simp add: ext2fs_block_getflags_def Let_def)
      moreover from bl bad have
        "\<exists>r s1. ext2fs_bmap_load h s ?g = Some (r, s1) \<and> r \<noteq> 0" by simp
      ultimately show ?thesis using False need by (intro exI [of _ "{}"] exI [of _ s1]) auto
    qed
  next
    case cached: False
    with inv bs have "grp_buf s \<noteq> None" "bmap_buf s \<noteq> None" "block_size (fs_info s) \<noteq> 0"
      by auto
    from getflags_classify [OF this, of h ?g b] obtain flags where
      c: "ext2fs_block_getflags_classify h ?g s b = Some (flags, s)"
      and x: "(TSK_FS_BLOCK_FLAG_ALLOC \<in> flags) \<noteq> (TSK_FS_BLOCK_FLAG_UNALLOC \<in> flags)"
      "(TSK_FS_BLOCK_FLAG_META \<in> flags) \<noteq> (TSK_FS_BLOCK_FLAG_CONT \<in> flags)"
      by blast
    from False cached c have "ext2fs_block_getflags h s b = Some (flags, s)"
      by (auto simp: ext2fs_block_getflags_def Let_def)
    with x cached show ?thesis by (intro exI [of _ flags] exI [of _ s]) auto
  qed
qed

theorem block_getflags_classes_witness:
  "block_size (fs_info (ex_fs good_img)) \<noteq> 0 \<and>
   map_option fst (ext2fs_block_getflags ex_decls (ex_fs good_img) 5)
     = Some {TSK_FS_BLOCK_FLAG_ALLOC, TSK_FS_BLOCK_FLAG_CONT}"
  using block_getflags_classes [of "ex_fs good_img" ex_decls 5]
  by (auto simp: ex_defs ld_defs ext2fs_block_getflags_def ext2fs_block_getflags_classify_def INODE_TABLE_SIZE_def)


text \<open>
  The claim as stated fails for block 5 of a file system whose group descriptors cannot
  be read: the block lies in \<open>[first_block, last_block]\<close> and the result is empty.
\<close>

theorem block_getflags_counterexample:
  "first_block (fs_info (ex_fs bad_img)) \<le> 5 \<and> 5 \<le> last_block (fs_info (ex_fs bad_img)) \<and>
   map_option fst (ext2fs_block_getflags ex_decls (ex_fs bad_img) 5) = Some {}"
  by (simp add: ex_defs ld_defs ext2fs_block_getflags_def)


text \<open>
  C3. The claim (a short read of a bitmap records \<open>IO_READ\<close> and fails the load) is what
  \<open>ext2fs_group_load\<close> and \<open>ext2fs_dinode_load\<close> do, but not the two bitmap loaders:
  with an image that answers the bitmap read with one byte, \<open>ext2fs_bmap_load\<close> and
  \<open>ext2fs_imap_load\<close> record \<open>TSK_ERR_FS_READ\<close>, set the tag to the requested group
  and return 0.
\<close>

theorem bitmap_load_short_read:
  "map_option (\<lambda>(r, s). (r, bmap_grp_num s, tsk_errno s))
     (ext2fs_bmap_load ex_decls (ex_fs short_img) 0) = Some (0, 0, Some TSK_ERR_FS_READ) \<and>
   map_option (\<lambda>(r, s). (r, imap_grp_num s, tsk_errno s))
     (ext2fs_imap_load ex_decls (ex_fs short_img) 0) = Some (0, 0, Some TSK_ERR_FS_READ)"
  by (simp add: ex_defs ld_defs)

lemma inode_walk_flags_idem: "inode_walk_flags (inode_walk_flags flags) = inode_walk_flags flags"
  by (auto simp: inode_walk_flags_def Let_def)

text \<open>
  C6. Before iterating, the inode walker canonicalises its flags: \<open>ext2fs_inode_walk\<close>
  called with the flags \<open>flags\<close> does what it does when called with \<open>inode_walk_flags
  flags\<close>, the flags as the statements behind the sanity checks leave them. With
  \<open>ORPHAN\<close> set these contain \<open>UNALLOC\<close> and \<open>USED\<close> and neither \<open>ALLOC\<close> nor \<open>UNUSED\<close>.
  Without \<open>ORPHAN\<close>, \<open>ALLOC\<close> and \<open>UNALLOC\<close> are both set whenever neither was passed, and
  \<open>USED\<close> and \<open>UNUSED\<close> are both set whenever neither was passed.
\<close>

theorem inode_walk_flags_canonical:
  "ext2fs_inode_walk h s start_inum end_inum flags a_action a_ptr
     = ext2fs_inode_walk h s start_inum end_inum (inode_walk_flags flags) a_action a_ptr \<and>
   (TSK_FS_META_FLAG_ORPHAN \<in> flags \<longrightarrow>
      TSK_FS_META_FLAG_UNALLOC \<in> inode_walk_flags flags \<and>
      TSK_FS_META_FLAG_USED \<in> inode_walk_flags flags \<and>
      TSK_FS_META_FLAG_ALLOC \<notin> inode_walk_flags flags \<and>
      TSK_FS_META_FLAG_UNUSED \<notin> inode_walk_flags flags) \<and>
   (TSK_FS_META_FLAG_ORPHAN \<notin> flags \<longrightarrow>
      (TSK_FS_META_FLAG_ALLOC \<notin> flags \<and> TSK_FS_META_FLAG_UNALLOC \<notin> flags \<longrightarrow>
         TSK_FS_META_FLAG_ALLOC \<in> inode_walk_flags flags \<and>
         TSK_FS_META_FLAG_UNALLOC \<in> inode_walk_flags flags) \<and>
      (TSK_FS_META_FLAG_USED \<notin> flags \<and> TSK_FS_META_FLAG_UNUSED \<notin> flags \<longrightarrow>
         TSK_FS_META_FLAG_USED \<in> inode_walk_flags flags \<and>
         TSK_FS_META_FLAG_UNUSED \<in> inode_walk_flags flags))"
proof -
  have "ext2fs_inode_walk h s start_inum end_inum flags a_action a_ptr
     = ext2fs_inode_walk h s start_inum end_inum (inode_walk_flags flags) a_action a_ptr"
    by (simp only: ext2fs_inode_walk_def inode_walk_flags_idem)
  moreover have "TSK_FS_META_FLAG_ORPHAN \<in> flags \<longrightarrow>
      TSK_FS_META_FLAG_UNALLOC \<in> inode_walk_flags flags \<and>
      TSK_FS_META_FLAG_USED \<in> inode_walk_flags flags \<and>
      TSK_FS_META_FLAG_ALLOC \<notin> inode_walk_flags flags \<and>
      TSK_FS_META_FLAG_UNUSED \<notin> inode_walk_flags flags"
    by (auto simp: inode_walk_flags_def Let_def)
  moreover have "TSK_FS_META_FLAG_ORPHAN \<notin> flags \<longrightarrow>
      (TSK_FS_META_FLAG_ALLOC \<notin> flags \<and> TSK_FS_META_FLAG_UNALLOC \<notin> flags \<longrightarrow>
         TSK_FS_META_FLAG_ALLOC \<in> inode_walk_flags flags \<and>
         TSK_FS_META_FLAG_UNALLOC \<in> inode_walk_flags flags) \<and>
      (TSK_FS_META_FLAG_USED \<notin> flags \<and> TSK_FS_META_FLAG_UNUSED \<notin> flags \<longrightarrow>
         TSK_FS_META_FLAG_USED \<in> inode_walk_flags flags \<and>
         TSK_FS_META_FLAG_UNUSED \<in> inode_walk_flags flags)"
    by (auto simp: inode_walk_flags_def Let_def)
  ultimately show ?thesis by (intro conjI)
qed

lemma walk_flags_empty: "inode_walk_flags {} = all_flags"
  by (auto simp: inode_walk_flags_def all_flags_def Let_def)

theorem inode_walk_flags_canonical_witness:
  "map_option (\<lambda>(r, s, p). (r, p))
     (ext2fs_inode_walk ex_decls (ex_fs good_img) 1 17 {} log_addr [])
     = Some (0, [1, 2, 3, 4, 5, 6, 7, 8, 9, 10, 11, 12, 13, 14, 15, 16, 17]) \<and>
   TSK_FS_META_FLAG_ORPHAN \<in> {TSK_FS_META_FLAG_ORPHAN, TSK_FS_META_FLAG_ALLOC} \<and>
   TSK_FS_META_FLAG_UNALLOC \<in> inode_walk_flags {TSK_FS_META_FLAG_ORPHAN, TSK_FS_META_FLAG_ALLOC} \<and>
   TSK_FS_META_FLAG_ALLOC \<notin> inode_walk_flags {TSK_FS_META_FLAG_ORPHAN, TSK_FS_META_FLAG_ALLOC} \<and>
   TSK_FS_META_FLAG_ORPHAN \<notin> ({} :: meta_flag set) \<and>
   TSK_FS_META_FLAG_ALLOC \<in> inode_walk_flags {} \<and>
   TSK_FS_META_FLAG_UNALLOC \<in> inode_walk_flags {} \<and>
   TSK_FS_META_FLAG_USED \<in> inode_walk_flags {} \<and>
   TSK_FS_META_FLAG_UNUSED \<in> inode_walk_flags {}"
proof -
  note a = inode_walk_flags_canonical [where flags = "{}" and h = ex_decls
             and s = "ex_fs good_img" and start_inum = 1 and end_inum = 17
             and a_action = log_addr and a_ptr = "[]"]
  note b = inode_walk_flags_canonical [where flags = "{TSK_FS_META_FLAG_ORPHAN, TSK_FS_META_FLAG_ALLOC}"
             and h = ex_decls and s = "ex_fs good_img" and start_inum = 1 and end_inum = 17
             and a_action = log_addr and a_ptr = "[]"]
  from a have "ext2fs_inode_walk ex_decls (ex_fs good_img) 1 17 {} log_addr []
      = ext2fs_inode_walk ex_decls (ex_fs good_img) 1 17 all_flags log_addr []"
    by (simp only: walk_flags_empty)
  with ex_walk have "map_option (\<lambda>(r, s, p). (r, p))
     (ext2fs_inode_walk ex_decls (ex_fs good_img) 1 17 {} log_addr [])
     = Some (0, [1, 2, 3, 4, 5, 6, 7, 8, 9, 10, 11, 12, 13, 14, 15, 16, 17])"
    by (simp only:)
  moreover from a have "TSK_FS_META_FLAG_ALLOC \<in> inode_walk_flags {}"
    "TSK_FS_META_FLAG_UNALLOC \<in> inode_walk_flags {}"
    "TSK_FS_META_FLAG_USED \<in> inode_walk_flags {}"
    "TSK_FS_META_FLAG_UNUSED \<in> inode_walk_flags {}" by simp_all
  moreover from b have
    "TSK_FS_META_FLAG_UNALLOC \<in> inode_walk_flags {TSK_FS_META_FLAG_ORPHAN, TSK_FS_META_FLAG_ALLOC}"
    "TSK_FS_META_FLAG_ALLOC \<notin> inode_walk_flags {TSK_FS_META_FLAG_ORPHAN, TSK_FS_META_FLAG_ALLOC}"
    by simp_all
  ultimately show ?thesis by simp
qed

section \<open>Properties of the NTFS directory resolver\<close>

subsection \<open>The orphan map\<close>

lemma get_sorted:
  "sorted_wrt (<) (map par_addr m) \<Longrightarrow>
     ntfs_orphan_map_get m par = List.find (\<lambda>b. par_addr b = par) m"
proof (induction m)
  case Nil
  then show ?case by simp
next
  case (Cons b m)
  show ?case
  proof (cases "par_addr b > par")
    case True
    with Cons.prems have "\<forall>x\<in>set m. par_addr x \<noteq> par" by auto
    then have "List.find (\<lambda>b. par_addr b = par) m = None" by (simp add: find_None_iff)
    with True show ?thesis by simp
  next
    case False
    with Cons show ?thesis by simp
  qed
qed

lemma get_None_sorted:
  "sorted_wrt (<) (map par_addr m) \<Longrightarrow>
     ntfs_orphan_map_get m par = None \<longleftrightarrow> par \<notin> par_addr ` set m"
  by (auto simp: get_sorted find_None_iff)

lemma push_ok:
  assumes "bucket_ok b"
  shows "\<exists>r b' heap'. orphan_map_push heap b child = Some (r, b', heap') \<and>
           par_addr b' = par_addr b \<and>
           (r = 0 \<longrightarrow> bucket_ok b' \<and> children b' = children b @ [child])"
proof -
  from assms obtain buf where b: "addrs b = Some buf" "length buf = alloc_cnt b"
    "used_cnt b \<le> alloc_cnt b" by (auto simp: bucket_ok_def)
  show ?thesis
  proof (cases "used_cnt b = alloc_cnt b")
    case False
    with b have lt: "used_cnt b < length buf" by simp
    then have "take (Suc (used_cnt b)) (buf[used_cnt b := child]) = take (used_cnt b) buf @ [child]"
      by (simp add: take_Suc_conv_app_nth)
    with False b lt show ?thesis
      by (simp add: orphan_map_push_def Let_def bucket_ok_def children_def)
  next
    case True
    show ?thesis
    proof (cases "heap = 0")
      case h0: True
      with True show ?thesis
        by (simp add: orphan_map_push_def ntfs_orphan_map_extend_def Let_def)
    next
      case False
      from b True have "take (Suc (used_cnt b)) ((buf @ replicate 8 0)[used_cnt b := child])
          = take (used_cnt b) buf @ [child]"
        by (simp add: take_Suc_conv_app_nth nth_append list_update_append)
      with False True b show ?thesis
        by (simp add: orphan_map_push_def ntfs_orphan_map_extend_def Let_def bucket_ok_def
                      children_def)
    qed
  qed
qed

lemma at_ok:
  assumes "\<forall>b\<in>set m. bucket_ok b" and "par \<in> par_addr ` set m"
    and "distinct (map par_addr m)"
  shows "\<exists>r m' heap'. orphan_map_at heap m par child = Some (r, m', heap') \<and>
           map par_addr m' = map par_addr m \<and>
           (r = 0 \<longrightarrow> (\<forall>b\<in>set m'. bucket_ok b) \<and>
              list_all2 (\<lambda>b' b. par_addr b' = par_addr b \<and>
                           children b' = (if par_addr b = par then children b @ [child]
                                          else children b)) m' m)"
  using assms
proof (induction m)
  case Nil
  then show ?case by simp
next
  case (Cons b m)
  show ?case
  proof (cases "par_addr b = par")
    case True
    from Cons.prems have "bucket_ok b" by simp
    from push_ok [OF this, of heap child] obtain r b' heap' where
      p: "orphan_map_push heap b child = Some (r, b', heap')" "par_addr b' = par_addr b"
         "r = 0 \<longrightarrow> bucket_ok b' \<and> children b' = children b @ [child]" by blast
    from Cons.prems(3) True have "\<forall>x\<in>set m. par_addr x \<noteq> par" by (auto simp: image_iff)
    then have "list_all2 (\<lambda>b' b. par_addr b' = par_addr b \<and>
                           children b' = (if par_addr b = par then children b @ [child]
                                          else children b)) m m"
      by (simp add: list_all2_same)
    with True p Cons.prems show ?thesis by auto
  next
    case False
    with Cons.prems have "\<forall>b\<in>set m. bucket_ok b" "par \<in> par_addr ` set m"
      "distinct (map par_addr m)" by auto
    from Cons.IH [OF this] obtain r m' heap' where
      a: "orphan_map_at heap m par child = Some (r, m', heap')"
         "map par_addr m' = map par_addr m"
         "r = 0 \<longrightarrow> (\<forall>b\<in>set m'. bucket_ok b) \<and>
              list_all2 (\<lambda>b' b. par_addr b' = par_addr b \<and>
                           children b' = (if par_addr b = par then children b @ [child]
                                          else children b)) m' m" by blast
    with False Cons.prems show ?thesis by auto
  qed
qed

lemma splice_pars:
  "sorted_wrt (<) (map par_addr m) \<Longrightarrow> par_addr n \<notin> par_addr ` set m \<Longrightarrow>
     sorted_wrt (<) (map par_addr (orphan_map_splice n m)) \<and>
     set (orphan_map_splice n m) = insert n (set m)"
proof (induction m)
  case Nil
  then show ?case by simp
next
  case (Cons b m)
  show ?case
  proof (cases "par_addr b > par_addr n")
    case True
    with Cons.prems show ?thesis by (auto intro: less_trans)
  next
    case False
    with Cons.prems have lt: "par_addr b < par_addr n" by auto
    from Cons.prems have "sorted_wrt (<) (map par_addr m)" "par_addr n \<notin> par_addr ` set m"
      by auto
    from Cons.IH [OF this] Cons.prems False lt show ?thesis by auto
  qed
qed

lemma sorted_pars_distinct:
  "sorted_wrt (<) (map par_addr m) \<Longrightarrow> distinct (map par_addr (m :: ntfs_par_map list))"
  using strict_sorted_iff [of "map par_addr m"] by simp

lemma children_of_snoc:
  "children_of (ops @ [(par, child)]) p
     = (if p = par then children_of ops p @ [child] else children_of ops p)"
  by (simp add: children_of_def)

lemma children_of_Nil: "p \<notin> fst ` set ops \<Longrightarrow> children_of ops p = []"
  by (auto simp: children_of_def filter_empty_conv)

lemma at_inv:
  assumes srt: "sorted_wrt (<) (map par_addr m)" and ok: "\<forall>b\<in>set m. bucket_ok b"
    and pars: "par_addr ` set m = insert par (fst ` set ops)"
    and ch: "\<forall>b\<in>set m. children b = children_of ops (par_addr b)"
  shows "\<exists>r m' heap'. orphan_map_at heap m par child = Some (r, m', heap') \<and>
           sorted_wrt (<) (map par_addr m') \<and>
           (r = 0 \<longrightarrow> map_inv m' (ops @ [(par, child)]))"
proof -
  from pars have "par \<in> par_addr ` set m" by simp
  from at_ok [OF ok this sorted_pars_distinct [OF srt], of heap child]
  obtain r m' heap' where
      a: "orphan_map_at heap m par child = Some (r, m', heap')"
         "map par_addr m' = map par_addr m"
         "r = 0 \<longrightarrow> (\<forall>b\<in>set m'. bucket_ok b) \<and>
              list_all2 (\<lambda>b' b. par_addr b' = par_addr b \<and>
                           children b' = (if par_addr b = par then children b @ [child]
                                          else children b)) m' m" by blast
  from a(2) srt have s': "sorted_wrt (<) (map par_addr m')" by simp
  from a(2) have "set (map par_addr m') = set (map par_addr m)" by simp
  with pars have p': "par_addr ` set m' = fst ` set (ops @ [(par, child)])" by auto
  have "map_inv m' (ops @ [(par, child)])" if "r = 0"
  proof -
    from that a(3) have ok': "\<forall>b\<in>set m'. bucket_ok b"
      and la: "list_all2 (\<lambda>b' b. par_addr b' = par_addr b \<and>
                           children b' = (if par_addr b = par then children b @ [child]
                                          else children b)) m' m" by auto
    have "children b' = children_of (ops @ [(par, child)]) (par_addr b')" if "b' \<in> set m'" for b'
    proof -
      from that obtain i where i: "i < length m'" "b' = m' ! i"
        by (auto simp: in_set_conv_nth)
      from la have len: "length m' = length m" by (rule list_all2_lengthD)
      from la i have "par_addr b' = par_addr (m ! i)"
        "children b' = (if par_addr (m ! i) = par then children (m ! i) @ [child]
                        else children (m ! i))"
        by (simp_all add: list_all2_conv_all_nth)
      moreover from i len have "m ! i \<in> set m" by simp
      ultimately show ?thesis using ch by (simp add: children_of_snoc)
    qed
    with s' ok' p' show ?thesis unfolding map_inv_def by blast
  qed
  with a(1) s' show ?thesis by blast
qed

lemma add_inv:
  assumes inv: "map_inv m ops"
  shows "\<exists>r m' heap'. ntfs_orphan_map_add heap m par child = Some (r, m', heap') \<and>
           sorted_wrt (<) (map par_addr m') \<and>
           (r = 0 \<longrightarrow> map_inv m' (ops @ [(par, child)]))"
proof -
  from inv have srt: "sorted_wrt (<) (map par_addr m)" and ok: "\<forall>b\<in>set m. bucket_ok b"
    and pars: "par_addr ` set m = fst ` set ops"
    and ch: "\<forall>b\<in>set m. children b = children_of ops (par_addr b)"
    by (auto simp: map_inv_def)
  show ?thesis
  proof (cases "ntfs_orphan_map_get m par")
    case (Some b)
    with get_None_sorted [OF srt, of par] have "par \<in> par_addr ` set m" by auto
    with pars have "par_addr ` set m = insert par (fst ` set ops)" by auto
    from at_inv [OF srt ok this ch, of heap child] Some show ?thesis
      by (simp add: ntfs_orphan_map_add_def)
  next
    case None
    with get_None_sorted [OF srt, of par] have new: "par \<notin> par_addr ` set m" by simp
    show ?thesis
    proof (cases "heap < 2")
      case True
      with None srt show ?thesis
        by (auto simp: ntfs_orphan_map_add_def ntfs_orphan_map_alloc_def)
    next
      case False
      let ?n = "\<lparr>par_addr = par, alloc_cnt = 8, used_cnt = 0, addrs = Some (replicate 8 0)\<rparr>"
      let ?m = "orphan_map_splice ?n m"
      from new have "par_addr ?n \<notin> par_addr ` set m" by simp
      from splice_pars [OF srt this] have srt': "sorted_wrt (<) (map par_addr ?m)"
        and set': "set ?m = insert ?n (set m)" by auto
      have okn: "bucket_ok ?n" "children ?n = []" by (simp_all add: bucket_ok_def children_def)
      from new pars have "children_of ops par = []" by (simp add: children_of_Nil)
      with set' ok ch okn pars have ok': "\<forall>b\<in>set ?m. bucket_ok b"
        and pars': "par_addr ` set ?m = insert par (fst ` set ops)"
        and ch': "\<forall>b\<in>set ?m. children b = children_of ops (par_addr b)" by auto
      from at_inv [OF srt' ok' pars' ch', of "heap - 2" child] None False show ?thesis
        by (simp add: ntfs_orphan_map_add_def ntfs_orphan_map_alloc_def)
    qed
  qed
qed

lemma adds_inv:
  "map_inv m ops0 \<Longrightarrow>
     \<exists>r m' heap'. orphan_map_adds heap m ops = Some (r, m', heap') \<and>
        sorted_wrt (<) (map par_addr m') \<and> (r = 0 \<longrightarrow> map_inv m' (ops0 @ ops))"
proof (induction ops arbitrary: heap m ops0)
  case Nil
  then show ?case by (simp add: map_inv_def)
next
  case (Cons pc ops)
  obtain par child where pc: "pc = (par, child)" by (cases pc)
  from add_inv [OF Cons.prems, of heap par child] obtain r m1 heap1 where
    a: "ntfs_orphan_map_add heap m par child = Some (r, m1, heap1)"
       "sorted_wrt (<) (map par_addr m1)" "r = 0 \<longrightarrow> map_inv m1 (ops0 @ [(par, child)])"
    by blast
  show ?case
  proof (cases "r = 0")
    case True
    with a have "map_inv m1 (ops0 @ [(par, child)])" by simp
    from Cons.IH [OF this, of heap1] a True pc show ?thesis by simp
  next
    case False
    with a pc show ?thesis by simp
  qed
qed

lemma push_heap:
  assumes "bucket_ok b"
  shows "(used_cnt b < alloc_cnt b \<longrightarrow>
            (\<exists>b'. orphan_map_push heap b child = Some (0, b', heap))) \<and>
         (0 < heap \<longrightarrow>
            (\<exists>b' heap'. orphan_map_push heap b child = Some (0, b', heap') \<and> heap - 1 \<le> heap'))"
proof -
  from assms obtain buf where b: "addrs b = Some buf" "length buf = alloc_cnt b"
    "used_cnt b \<le> alloc_cnt b" by (auto simp: bucket_ok_def)
  show ?thesis
  proof (cases "used_cnt b = alloc_cnt b")
    case False
    with b show ?thesis by (simp add: orphan_map_push_def Let_def)
  next
    case True
    with b show ?thesis
      by (simp add: orphan_map_push_def ntfs_orphan_map_extend_def Let_def)
  qed
qed

lemma at_heap:
  assumes "\<forall>b\<in>set m. bucket_ok b" and "par \<in> par_addr ` set m"
  shows "((\<forall>b\<in>set m. par_addr b = par \<longrightarrow> used_cnt b < alloc_cnt b) \<longrightarrow>
            (\<exists>m'. orphan_map_at heap m par child = Some (0, m', heap))) \<and>
         (0 < heap \<longrightarrow>
            (\<exists>m' heap'. orphan_map_at heap m par child = Some (0, m', heap') \<and>
                heap - 1 \<le> heap'))"
  using assms
proof (induction m)
  case Nil
  then show ?case by simp
next
  case (Cons b m)
  show ?case
  proof (cases "par_addr b = par")
    case True
    from Cons.prems have "bucket_ok b" by simp
    from push_heap [OF this, of heap child] True show ?thesis by auto
  next
    case False
    with Cons.prems have "\<forall>b\<in>set m. bucket_ok b" "par \<in> par_addr ` set m" by auto
    from Cons.IH [OF this] False show ?thesis by auto
  qed
qed

lemma add_heap:
  assumes inv: "map_inv m ops" and heap: "2 \<le> heap"
  shows "\<exists>m' heap'. ntfs_orphan_map_add heap m par child = Some (0, m', heap') \<and>
           heap - 2 \<le> heap'"
proof -
  from inv have srt: "sorted_wrt (<) (map par_addr m)" and ok: "\<forall>b\<in>set m. bucket_ok b"
    by (auto simp: map_inv_def)
  show ?thesis
  proof (cases "ntfs_orphan_map_get m par")
    case (Some b)
    with get_None_sorted [OF srt, of par] have "par \<in> par_addr ` set m" by auto
    from at_heap [OF ok this, of heap child] heap obtain m' heap' where
      "orphan_map_at heap m par child = Some (0, m', heap')" "heap - 1 \<le> heap'" by auto
    with Some show ?thesis by (auto simp: ntfs_orphan_map_add_def)
  next
    case None
    with get_None_sorted [OF srt, of par] have new: "par \<notin> par_addr ` set m" by simp
    let ?n = "\<lparr>par_addr = par, alloc_cnt = 8, used_cnt = 0, addrs = Some (replicate 8 0)\<rparr>"
    let ?m = "orphan_map_splice ?n m"
    from new have "par_addr ?n \<notin> par_addr ` set m" by simp
    from splice_pars [OF srt this] have set': "set ?m = insert ?n (set m)" by auto
    have okn: "bucket_ok ?n" by (simp add: bucket_ok_def)
    from set' ok okn have ok': "\<forall>b\<in>set ?m. bucket_ok b" by auto
    from set' have in': "par \<in> par_addr ` set ?m" by (auto simp: image_iff)
    from set' new have room: "\<forall>b\<in>set ?m. par_addr b = par \<longrightarrow> used_cnt b < alloc_cnt b"
      by (auto simp: image_iff)
    from at_heap [OF ok' in', of "heap - 2" child] room obtain m' where
      "orphan_map_at (heap - 2) ?m par child = Some (0, m', heap - 2)" by blast
    with None heap show ?thesis
      by (simp add: ntfs_orphan_map_add_def ntfs_orphan_map_alloc_def)
  qed
qed

lemma adds_heap:
  "map_inv m ops0 \<Longrightarrow> 2 * length ops \<le> heap \<Longrightarrow>
     \<exists>m' heap'. orphan_map_adds heap m ops = Some (0, m', heap')"
proof (induction ops arbitrary: heap m ops0)
  case Nil
  then show ?case by simp
next
  case (Cons pc ops)
  obtain par child where pc: "pc = (par, child)" by (cases pc)
  from Cons.prems(2) have h2: "2 \<le> heap" by simp
  from add_heap [OF Cons.prems(1) h2, of par child] obtain m1 heap1 where
    a: "ntfs_orphan_map_add heap m par child = Some (0, m1, heap1)" "heap - 2 \<le> heap1"
    by blast
  from add_inv [OF Cons.prems(1), of heap par child] a(1)
  have inv1: "map_inv m1 (ops0 @ [(par, child)])" by simp
  from a(2) Cons.prems(2) have "2 * length ops \<le> heap1" by simp
  from Cons.IH [OF inv1 this] a(1) pc show ?case by simp
qed

text \<open>
  C9. Every sequence of \<open>ntfs_orphan_map_add\<close> operations, started on the empty map,
  returns, and leaves a list of buckets whose parent addresses are strictly ascending and
  pairwise distinct; \<open>ntfs_orphan_map_get\<close> returns the bucket whose parent address is
  the query when there is one and nothing otherwise. When no allocation failed (the
  sequence returned 0) the buckets are those of the parents that were named, each with
  the children of its parent in the order in which they were added; and no allocation
  fails when the allocator can serve two requests for each operation. The claim as
  stated, for every sequence, fails: an operation whose allocation fails returns 1
  without storing the child, and \<open>ntfs_orphan_map_extend\<close> leaves a bucket whose buffer
  is \<open>NULL\<close>.
\<close>

theorem orphan_map_sorted_buckets:
  "\<exists>r m heap'. orphan_map_adds heap [] ops = Some (r, m, heap') \<and>
     sorted_wrt (<) (map par_addr m) \<and> distinct (map par_addr m) \<and>
     (\<forall>par. ntfs_orphan_map_get m par = List.find (\<lambda>b. par_addr b = par) m) \<and>
     (r = 0 \<longrightarrow> par_addr ` set m = fst ` set ops \<and>
        (\<forall>b\<in>set m. children b = children_of ops (par_addr b))) \<and>
     (2 * length ops \<le> heap \<longrightarrow> r = 0)"
proof -
  have e: "map_inv [] []" by (simp add: map_inv_def)
  from adds_inv [OF e, of heap ops] obtain r m heap' where
    a: "orphan_map_adds heap [] ops = Some (r, m, heap')" "sorted_wrt (<) (map par_addr m)"
       "r = 0 \<longrightarrow> map_inv m ops" by auto
  from a(2) have "distinct (map par_addr m)" by (rule sorted_pars_distinct)
  moreover from a(2) have "\<forall>par. ntfs_orphan_map_get m par = List.find (\<lambda>b. par_addr b = par) m"
    by (simp add: get_sorted)
  moreover have "r = 0" if "2 * length ops \<le> heap"
    using adds_heap [OF e that] a(1) by simp
  ultimately show ?thesis using a by (auto simp: map_inv_def)
qed

lemmas orphan_defs = ntfs_orphan_map_add_def ntfs_orphan_map_alloc_def orphan_map_push_def
  ntfs_orphan_map_extend_def children_def eval_nat_numeral

theorem orphan_map_sorted_buckets_witness:
  "\<exists>m heap'. orphan_map_adds 100 []
       [(5, 50), (3, 30), (5, 51), (5, 52), (5, 53), (5, 54), (5, 55), (5, 56), (5, 57),
        (5, 58)]
       = Some (0, m, heap') \<and>
     map par_addr m = [3, 5] \<and>
     map children m = [[30], [50, 51, 52, 53, 54, 55, 56, 57, 58]] \<and>
     map alloc_cnt m = [8, 16]"
  using orphan_map_sorted_buckets [of 100
          "[(5, 50), (3, 30), (5, 51), (5, 52), (5, 53), (5, 54), (5, 55), (5, 56), (5, 57),
            (5, 58)]"]
  by (simp add: orphan_defs)

text \<open>
  The claim as stated fails for nine children of the parent 5 when the allocator serves
  the two requests of the new bucket and no more: the ninth operation returns 1, and the
  bucket of the parent 5 counts eight children and has no buffer, so that none of the
  children is in it.
\<close>

theorem orphan_map_counterexample:
  "orphan_map_adds 2 []
     [(5, 50), (5, 51), (5, 52), (5, 53), (5, 54), (5, 55), (5, 56), (5, 57), (5, 58)]
   = Some (1, [\<lparr>par_addr = 5, alloc_cnt = 16, used_cnt = 8, addrs = None\<rparr>], 0) \<and>
   children \<lparr>par_addr = 5, alloc_cnt = 16, used_cnt = 8, addrs = None\<rparr> = []"
  by (simp add: orphan_defs)

subsection \<open>The index parser\<close>

declare ntfs_proc_loop.simps [simp del]

lemmas ex_nt_defs = ex_ntfs_def ex_entry_def ex_read_idxentry_def ex_nt_decls_def ex_mem_def
  ntfs_proc_idxentry_def ntfs_proc_body_def apparently_deleted_def incr_entry_def
  ntfs_dent_copy_def tsk_fs_dir_add_def is_time_def SEC_BTWN_1601_1970_DIV100_def
  SEC_BTWN_1601_2010_DIV100_def idxentry_stream_off_def NTFS_FNAME_POSIX_def
  NTFS_FNAME_WIN32_def NTFS_FNAME_DOS_def NTFS_FNAME_WINDOS_def Let_def

lemma is_time_outside: "outside_time_window t \<Longrightarrow> is_time t = 0"
proof -
  assume "outside_time_window t"
  then consider "t < 116444736000000000" | "129067776000000000 < t"
    by (auto simp: outside_time_window_def filetime_1970_def filetime_2010_def)
  then show ?thesis
  proof cases
    case 1
    then have "t div 1000000000 < 116444736" by simp
    then show ?thesis
      by (simp add: is_time_def Let_def SEC_BTWN_1601_1970_DIV100_def)
  next
    case 2
    then have "129067776 \<le> t div 1000000000" by simp
    then show ?thesis
      by (simp add: is_time_def Let_def SEC_BTWN_1601_1970_DIV100_def
                    SEC_BTWN_1601_2010_DIV100_def)
  qed
qed

lemma dir_add_endian:
  "tsk_fs_dir_add ntfs names n = (r, ntfs1, names1) \<Longrightarrow>
     endian ntfs1 = endian ntfs \<and> (r = 0 \<longrightarrow> names1 = names @ [n]) \<and> (r \<noteq> 0 \<longrightarrow> names1 = names)"
  by (auto simp: tsk_fs_dir_add_def split: if_splits)

lemma body_Add:
  "ntfs_proc_body ntfs a_is_del a_idxe_len endaddr_alloc (read_idxentry d (endian ntfs) mem a) a
     = Add n \<Longrightarrow> appended_from d mem (endian ntfs) a_is_del endaddr_alloc a n"
  by (auto simp: ntfs_proc_body_def appended_from_def claimed_flags_def
           split: if_splits prod.splits)

lemma body_advances:
  "ntfs_proc_body ntfs a_is_del a_idxe_len endaddr_alloc idxe a \<noteq> Advance4 \<Longrightarrow>
     a < incr_entry idxe a"
  by (auto simp: ntfs_proc_body_def incr_entry_def split: if_splits prod.splits)

lemma proc_loop_names:
  "ntfs_proc_loop d mem a_is_del a_idxe_len endaddr endaddr_alloc a ntfs names = (r, ntfs', names')
   \<Longrightarrow> \<exists>new. names' = names @ new \<and>
        (\<forall>n\<in>set new. \<exists>b\<ge>a. appended_from d mem (endian ntfs) a_is_del endaddr_alloc b n)"
proof (induction d mem a_is_del a_idxe_len endaddr endaddr_alloc a ntfs names
       rule: ntfs_proc_loop.induct)
  case (1 d mem a_is_del a_idxe_len endaddr endaddr_alloc a ntfs names)
  let ?e = "read_idxentry d (endian ntfs) mem a"
  show ?case
  proof (cases "a + idxentry_stream_off + sizeof_ntfs_attr_fname d < endaddr")
    case False
    with "1.prems" have "names' = names"
      by (subst (asm) ntfs_proc_loop.simps) simp
    then show ?thesis by simp
  next
    case True
    show ?thesis
    proof (cases "ntfs_proc_body ntfs a_is_del a_idxe_len endaddr_alloc ?e a")
      case Advance4
      with True "1.prems" have "ntfs_proc_loop d mem a_is_del a_idxe_len endaddr endaddr_alloc
          (a + 4) ntfs names = (r, ntfs', names')"
        by (subst (asm) ntfs_proc_loop.simps) simp
      from "1.IH"(1) [OF True Advance4 this] obtain new where
        n: "names' = names @ new"
        "\<forall>n\<in>set new. \<exists>b\<ge>a + 4. appended_from d mem (endian ntfs) a_is_del endaddr_alloc b n"
        by blast
      from n(2) have "\<forall>n\<in>set new. \<exists>b\<ge>a. appended_from d mem (endian ntfs) a_is_del endaddr_alloc b n"
        by (meson add_leD1)
      with n(1) show ?thesis by blast
    next
      case Incr
      with True "1.prems" have "ntfs_proc_loop d mem a_is_del a_idxe_len endaddr endaddr_alloc
          (incr_entry ?e a) ntfs names = (r, ntfs', names')"
        by (subst (asm) ntfs_proc_loop.simps) simp
      from "1.IH"(2) [OF True Incr this] obtain new where
        n: "names' = names @ new"
        "\<forall>n\<in>set new. \<exists>b\<ge>incr_entry ?e a.
            appended_from d mem (endian ntfs) a_is_del endaddr_alloc b n" by blast
      from Incr have "a \<le> incr_entry ?e a"
        using body_advances [of ntfs a_is_del a_idxe_len endaddr_alloc ?e a] by simp
      with n(2) have "\<forall>n\<in>set new. \<exists>b\<ge>a. appended_from d mem (endian ntfs) a_is_del endaddr_alloc b n"
        by (meson le_trans)
      with n(1) show ?thesis by blast
    next
      case (Add fs_name)
      obtain r1 ntfs1 names1 where da: "tsk_fs_dir_add ntfs names fs_name = (r1, ntfs1, names1)"
        by (cases "tsk_fs_dir_add ntfs names fs_name")
      note de = dir_add_endian [OF da]
      show ?thesis
      proof (cases "r1 = 0")
        case False
        with True Add da "1.prems" have "names' = names1"
          by (subst (asm) ntfs_proc_loop.simps) simp
        with de False show ?thesis by simp
      next
        case r0: True
        with True Add da "1.prems" have "ntfs_proc_loop d mem a_is_del a_idxe_len endaddr
            endaddr_alloc (incr_entry ?e a) ntfs1 names1 = (r, ntfs', names')"
          by (subst (asm) ntfs_proc_loop.simps) simp
        from "1.IH"(3) [OF True Add da [symmetric] refl _ this] r0 de obtain new where
          n: "names' = names1 @ new" "\<forall>n\<in>set new. \<exists>b\<ge>incr_entry ?e a.
            appended_from d mem (endian ntfs) a_is_del endaddr_alloc b n" by auto
        from Add have "a \<le> incr_entry ?e a"
          using body_advances [of ntfs a_is_del a_idxe_len endaddr_alloc ?e a] by simp
        with n(2) have rest: "\<forall>n\<in>set new. \<exists>b\<ge>a.
            appended_from d mem (endian ntfs) a_is_del endaddr_alloc b n"
          by (meson le_trans)
        from body_Add [OF Add] have "\<exists>b\<ge>a.
            appended_from d mem (endian ntfs) a_is_del endaddr_alloc b fs_name" by blast
        with rest have "\<forall>n\<in>set (fs_name # new). \<exists>b\<ge>a.
            appended_from d mem (endian ntfs) a_is_del endaddr_alloc b n" by simp
        moreover from n de r0 have "names' = names @ (fs_name # new)" by simp
        ultimately show ?thesis by blast
      qed
    qed
  qed
qed

lemma ex_proc:
  "ntfs_proc_idxentry ex_nt_decls ex_mem ex_ntfs [] 0 0 292 96 =
     (TSK_OK, ex_ntfs\<lparr>nt_heap := 9\<rparr>,
      [\<lparr>n_meta_addr = 5, n_meta_seq = 1, n_name = ''live'', n_type = TSK_FS_NAME_TYPE_REG,
        n_flags = {TSK_FS_NAME_FLAG_ALLOC}\<rparr>,
       \<lparr>n_meta_addr = 6, n_meta_seq = 1, n_name = ''gone'', n_type = TSK_FS_NAME_TYPE_REG,
        n_flags = {TSK_FS_NAME_FLAG_UNALLOC}\<rparr>])"
  by (simp add: ex_nt_defs ntfs_proc_loop.simps)

text \<open>
  C7. Every name that \<open>ntfs_proc_idxentry\<close> appends to the directory comes from an index
  entry at an address \<open>b\<close> of the buffer, and it is flagged \<open>UNALLOC\<close> if the caller's
  \<open>is_deleted\<close> flag is set, or the \<open>strlen\<close> of the entry is 0, or the entry (its start
  plus \<open>idxlen\<close>) extends beyond the used length; in every other case it is flagged
  \<open>ALLOC\<close>.
\<close>

theorem proc_idxentry_appended_flags:
  assumes "ntfs_proc_idxentry d mem ntfs names a_is_del a_idxe a_idxe_len a_used_len
             = (r, ntfs', names')"
  shows "\<exists>new. names' = names @ new \<and>
           (\<forall>n\<in>set new. \<exists>b\<ge>a_idxe.
              appended_from d mem (endian ntfs) a_is_del (a_idxe + a_used_len) b n \<and>
              n_flags n = (if a_is_del = 1
                              \<or> strlen (read_idxentry d (endian ntfs) mem b) = 0
                              \<or> a_idxe + a_used_len
                                   < b + idxlen (read_idxentry d (endian ntfs) mem b)
                           then {TSK_FS_NAME_FLAG_UNALLOC} else {TSK_FS_NAME_FLAG_ALLOC}))"
proof -
  have fl: "n_flags n = (if a_is_del = 1
                              \<or> strlen (read_idxentry d (endian ntfs) mem b) = 0
                              \<or> a_idxe + a_used_len
                                   < b + idxlen (read_idxentry d (endian ntfs) mem b)
                           then {TSK_FS_NAME_FLAG_UNALLOC} else {TSK_FS_NAME_FLAG_ALLOC})"
    if "appended_from d mem (endian ntfs) a_is_del (a_idxe + a_used_len) b n" for b n
    using that by (simp add: appended_from_def claimed_flags_def)
  show ?thesis
  proof (cases "nt_heap ntfs = 0")
    case True
    with assms have "names' = names" by (simp add: ntfs_proc_idxentry_def)
    then show ?thesis by simp
  next
    case heap: False
    show ?thesis
    proof (cases "a_idxe_len < a_used_len")
      case True
      with heap assms have "names' = names" by (simp add: ntfs_proc_idxentry_def Let_def)
      then show ?thesis by simp
    next
      case False
      with heap assms have "ntfs_proc_loop d mem a_is_del a_idxe_len (a_idxe + a_idxe_len)
                   (a_idxe + a_used_len) a_idxe (ntfs\<lparr>nt_heap := nt_heap ntfs - 1\<rparr>) names
                 = (r, ntfs', names')"
        by (simp add: ntfs_proc_idxentry_def Let_def)
      from proc_loop_names [OF this] obtain new where
        n: "names' = names @ new" "\<forall>n\<in>set new. \<exists>b\<ge>a_idxe.
           appended_from d mem (endian ntfs) a_is_del (a_idxe + a_used_len) b n" by auto
      have "\<exists>b\<ge>a_idxe.
              appended_from d mem (endian ntfs) a_is_del (a_idxe + a_used_len) b n \<and>
              n_flags n = (if a_is_del = 1
                              \<or> strlen (read_idxentry d (endian ntfs) mem b) = 0
                              \<or> a_idxe + a_used_len
                                   < b + idxlen (read_idxentry d (endian ntfs) mem b)
                           then {TSK_FS_NAME_FLAG_UNALLOC} else {TSK_FS_NAME_FLAG_ALLOC})"
        if "n \<in> set new" for n
      proof -
        from n(2) that obtain b where b: "b \<ge> a_idxe"
          "appended_from d mem (endian ntfs) a_is_del (a_idxe + a_used_len) b n" by blast
        from b fl [OF b(2)] show ?thesis by (intro exI [of _ b] conjI)
      qed
      with n(1) show ?thesis by (intro exI [of _ new] conjI ballI)
    qed
  qed
qed

theorem proc_idxentry_appended_flags_witness:
  "map (\<lambda>n. (n_name n, n_flags n))
     (snd (snd (ntfs_proc_idxentry ex_nt_decls ex_mem ex_ntfs [] 0 0 292 96)))
   = [(''live'', {TSK_FS_NAME_FLAG_ALLOC}), (''gone'', {TSK_FS_NAME_FLAG_UNALLOC})]"
  using proc_idxentry_appended_flags [OF ex_proc]
  by (simp add: ex_proc)

text \<open>
  C8. A candidate entry that is apparently deleted (its \<open>strlen\<close> is 0 or it extends beyond
  the used length) and one of whose creation, access and modification times lies outside
  the window 1970-01-01 .. 2010-01-01, in units of 100 nanoseconds since 1601, is not
  appended: the pass through the loop body ends in \<open>a_idxe + 4\<close> and \<open>continue\<close>, so the
  scan goes on four bytes further with the same directory.
\<close>

theorem proc_idxentry_bad_time_retries:
  assumes exam: "a + idxentry_stream_off + sizeof_ntfs_attr_fname d < endaddr"
    and del: "apparently_deleted (read_idxentry d (endian ntfs) mem a) a endaddr_alloc"
    and bad: "outside_time_window (crtime (read_idxentry d (endian ntfs) mem a))
              \<or> outside_time_window (atime (read_idxentry d (endian ntfs) mem a))
              \<or> outside_time_window (mtime (read_idxentry d (endian ntfs) mem a))"
  shows "ntfs_proc_body ntfs a_is_del a_idxe_len endaddr_alloc
           (read_idxentry d (endian ntfs) mem a) a = Advance4
         \<and> ntfs_proc_loop d mem a_is_del a_idxe_len endaddr endaddr_alloc a ntfs names
           = ntfs_proc_loop d mem a_is_del a_idxe_len endaddr endaddr_alloc (a + 4) ntfs names"
proof -
  from bad
  have "is_time (crtime (read_idxentry d (endian ntfs) mem a)) = 0
        \<or> is_time (atime (read_idxentry d (endian ntfs) mem a)) = 0
        \<or> is_time (mtime (read_idxentry d (endian ntfs) mem a)) = 0"
    by (auto dest: is_time_outside)
  with del have b: "ntfs_proc_body ntfs a_is_del a_idxe_len endaddr_alloc
           (read_idxentry d (endian ntfs) mem a) a = Advance4"
    by (simp add: ntfs_proc_body_def)
  with exam show ?thesis
    by (subst ntfs_proc_loop.simps) simp
qed

theorem proc_idxentry_bad_time_retries_witness:
  "apparently_deleted (read_idxentry ex_nt_decls TSK_LIT_ENDIAN ex_mem 192) 192 96 \<and>
   outside_time_window (crtime (read_idxentry ex_nt_decls TSK_LIT_ENDIAN ex_mem 192)) \<and>
   ntfs_proc_body ex_ntfs 0 292 96 (read_idxentry ex_nt_decls TSK_LIT_ENDIAN ex_mem 192) 192
     = Advance4 \<and>
   ntfs_proc_loop ex_nt_decls ex_mem 0 292 292 96 192 ex_ntfs []
     = ntfs_proc_loop ex_nt_decls ex_mem 0 292 292 96 196 ex_ntfs []"
  using proc_idxentry_bad_time_retries [where a = 192 and d = ex_nt_decls and endaddr = 292
          and ntfs = ex_ntfs and mem = ex_mem and endaddr_alloc = 96 and a_is_del = 0
          and a_idxe_len = 292 and names = "[]"]
  by (simp add: ex_ntfs_def ex_entry_def ex_read_idxentry_def ex_nt_decls_def
        apparently_deleted_def idxentry_stream_off_def outside_time_window_def
        filetime_1970_def filetime_2010_def)

text \<open>
  C10. When \<open>ntfs_proc_idxentry\<close> is called with a used length greater than the buffer
  length it returns \<open>TSK_ERR\<close> and the directory is as it was, and the result does not
  depend on the contents of the buffer: no entry is examined. The error recorded is the
  argument error when the allocation of the name structure, which is the first statement
  of the function, succeeds, and the error of the allocator when it fails. The claim as
  stated, an argument error on every such call, fails for the exhausted allocator.
\<close>

theorem proc_idxentry_used_len_too_large:
  assumes "a_idxe_len < a_used_len"
  shows "fst (ntfs_proc_idxentry d mem ntfs names a_is_del a_idxe a_idxe_len a_used_len) = TSK_ERR
     \<and> snd (snd (ntfs_proc_idxentry d mem ntfs names a_is_del a_idxe a_idxe_len a_used_len)) = names
     \<and> (nt_heap ntfs \<noteq> 0 \<longrightarrow>
          nt_errno (fst (snd (ntfs_proc_idxentry d mem ntfs names a_is_del a_idxe
                                 a_idxe_len a_used_len))) = Some TSK_ERR_FS_ARG)
     \<and> (nt_heap ntfs = 0 \<longrightarrow>
          nt_errno (fst (snd (ntfs_proc_idxentry d mem ntfs names a_is_del a_idxe
                                 a_idxe_len a_used_len))) = Some TSK_ERR_AUX_MALLOC)
     \<and> (\<forall>mem'. ntfs_proc_idxentry d mem' ntfs names a_is_del a_idxe a_idxe_len a_used_len
                = ntfs_proc_idxentry d mem ntfs names a_is_del a_idxe a_idxe_len a_used_len)"
  using assms by (simp add: ntfs_proc_idxentry_def Let_def)

theorem proc_idxentry_used_len_too_large_witness:
  "(96 :: nat) < 292 \<and>
   fst (ntfs_proc_idxentry ex_nt_decls ex_mem ex_ntfs [] 0 0 96 292) = TSK_ERR \<and>
   nt_errno (fst (snd (ntfs_proc_idxentry ex_nt_decls ex_mem ex_ntfs [] 0 0 96 292)))
     = Some TSK_ERR_FS_ARG \<and>
   snd (snd (ntfs_proc_idxentry ex_nt_decls ex_mem ex_ntfs [] 0 0 96 292)) = []"
  using proc_idxentry_used_len_too_large [where a_idxe_len = 96 and a_used_len = 292
          and d = ex_nt_decls and mem = ex_mem and ntfs = ex_ntfs and names = "[]"
          and a_is_del = 0 and a_idxe = 0]
  by (simp add: ex_ntfs_def)

text \<open>
  The claim as stated fails on the example volume with the allocator exhausted: the used
  length 292 is greater than the buffer length 96, and the call returns \<open>TSK_ERR\<close> with
  the error of the allocator, not the argument error.
\<close>

theorem proc_idxentry_used_len_counterexample:
  "(96 :: nat) < 292 \<and>
   fst (ntfs_proc_idxentry ex_nt_decls ex_mem (ex_ntfs\<lparr>nt_heap := 0\<rparr>) [] 0 0 96 292) = TSK_ERR \<and>
   nt_errno (fst (snd (ntfs_proc_idxentry ex_nt_decls ex_mem (ex_ntfs\<lparr>nt_heap := 0\<rparr>) [] 0 0
                         96 292)))
     = Some TSK_ERR_AUX_MALLOC \<and>
   nt_errno (fst (snd (ntfs_proc_idxentry ex_nt_decls ex_mem (ex_ntfs\<lparr>nt_heap := 0\<rparr>) [] 0 0
                         96 292)))
     \<noteq> Some TSK_ERR_FS_ARG"
  by (simp add: ntfs_proc_idxentry_def ex_ntfs_def)

subsection \<open>Fixup of an index record\<close>

declare ntfs_fix_idxrec_loop.simps [simp del]















lemmas fix_defs = ntfs_fix_idxrec_def tsk_getu16_def idxrec_upd_cnt_def idxrec_upd_off_def
  upd_seq_off_def sector_tail_def upd_elem_def ex_ntfs_def Let_def



subsection \<open>Opening a directory\<close>

lemmas dir_defs = ntfs_dir_open_meta_def ntfs_dir_open_meta_dir_def dir_open_attrs_def
  dir_open_idxalloc_def dir_open_record_def dir_open_list_def dir_open_dots_def
  tsk_fs_attrlist_get_def read_idxelist_def meta_is_del_def tsk_getu32_def
  NTFS_ATYPE_FNAME_def NTFS_ATYPE_IDXROOT_def NTFS_ATYPE_IDXALLOC_def NTFS_IDXREC_MAGIC_def
  ex_dir_decls_def ex_dir_mem_def ex_root_meta_def ex_idxroot_attr_def ex_idxalloc_attr_def
  ex_load_def ex_idxalloc_def u32_sub_def

text \<open>
  C4. The claim is that corruption found while a directory is opened, an update
  sequence mismatch in a record of \<open>$INDEX_ALLOCATION\<close> in particular, is recorded in the
  return value and does not end the call. For the root directory of the example volume
  \<open>ntfs_dir_open_meta\<close> returns \<open>TSK_COR\<close> with \<open>TSK_ERR_FS_INODE_COR\<close> as soon as
  \<open>ntfs_fix_idxrec\<close> has failed on the first record: the directory is empty, without the
  entry of the orphan directory that the root directory gets at the end of the function,
  and three allocations have been made (the directory, the name structure of the parser
  for the list of \<open>$INDEX_ROOT\<close>, the buffer). The second record, on which
  \<open>ntfs_fix_idxrec\<close> succeeds, has not been looked at.
\<close>

theorem dir_open_meta_fixup_abort:
  "map_option (\<lambda>(r, ntfs1, mem1, dir). (r, nt_errno ntfs1, nt_heap ntfs1, dir))
     (ntfs_dir_open_meta ex_dir_decls ex_dir_mem ex_ntfs (Some None) 5)
     = Some (TSK_COR, Some TSK_ERR_FS_INODE_COR, 7, Some []) \<and>
   fst (ntfs_fix_idxrec ex_ntfs
          (snd (snd (tsk_fs_attr_walk_load ex_dir_decls ex_ntfs ex_idxalloc_attr 65536
                       ex_dir_mem)))
          65536 4096) = 1 \<and>
   fst (ntfs_fix_idxrec ex_ntfs
          (snd (snd (tsk_fs_attr_walk_load ex_dir_decls ex_ntfs ex_idxalloc_attr 65536
                       ex_dir_mem)))
          (65536 + 4096) 4096) = 0"
  by (simp add: dir_defs ex_nt_defs fix_defs dir_open_clusters.simps
        ntfs_fix_idxrec_loop.simps ntfs_proc_loop.simps)

end
